theory Spec2Isabelle
  imports Complex_Main "HOL-Library.Char_ord" "HOL-Library.List_Lexorder"
begin

section \<open>JSON values and the Python operations the sources apply to them\<close>

text \<open>
  Every stage reads JSON (or YAML) documents and treats their values dynamically, so the
  values are modelled untyped. A \<open>JFloat\<close> carries the exact value of a finite double;
  strings are byte strings (UTF-8), and case mapping and whitespace are the ASCII ones.
  An object is an association list read with \<open>map_of\<close>; it is taken to hold every key
  at most once, as \<open>json.loads\<close> delivers it.
\<close>

datatype json = JNull | JBool bool | JInt int | JFloat rat | JStr string
  | JArr "json list" | JObj "(string \<times> json) list"

type_synonym dict = "(string \<times> json) list"

text \<open>Exceptions as values. \<open>External\<close> is an exception raised by a collaborator
  that is not part of the repository (the model API client).\<close>

datatype exn = TypeError | AttributeError | KeyError | ValueError
  | RuntimeError string | External string

definition bnd :: "exn + 'a \<Rightarrow> ('a \<Rightarrow> exn + 'b) \<Rightarrow> exn + 'b" where
  "bnd m f = (case m of Inl e \<Rightarrow> Inl e | Inr x \<Rightarrow> f x)"

fun mapM :: "('a \<Rightarrow> exn + 'b) \<Rightarrow> 'a list \<Rightarrow> exn + 'b list" where
  "mapM f [] = Inr []"
| "mapM f (x # xs) = bnd (f x) (\<lambda>y. bnd (mapM f xs) (\<lambda>ys. Inr (y # ys)))"

text \<open>Python truthiness: \<open>if v\<close>, \<open>not v\<close>, \<open>a or b\<close>.\<close>

fun truthy :: "json \<Rightarrow> bool" where
  "truthy JNull = False"
| "truthy (JBool b) = b"
| "truthy (JInt n) = (n \<noteq> 0)"
| "truthy (JFloat r) = (r \<noteq> 0)"
| "truthy (JStr s) = (s \<noteq> [])"
| "truthy (JArr xs) = (xs \<noteq> [])"
| "truthy (JObj d) = (d \<noteq> [])"

text \<open>\<open>d.get(k, dflt)\<close> on a dict, and on an arbitrary value (only a dict has \<open>get\<close>).\<close>

definition dict_get :: "dict \<Rightarrow> string \<Rightarrow> json \<Rightarrow> json" where
  "dict_get d k dflt = (case map_of d k of None \<Rightarrow> dflt | Some v \<Rightarrow> v)"

fun py_get :: "json \<Rightarrow> string \<Rightarrow> json \<Rightarrow> exn + json" where
  "py_get (JObj d) k dflt = Inr (dict_get d k dflt)"
| "py_get v k dflt = Inl AttributeError"

text \<open>A value can be a dict key or a set element unless it is a list or a dict.\<close>

fun hashable :: "json \<Rightarrow> bool" where
  "hashable (JArr xs) = False"
| "hashable (JObj d) = False"
| "hashable v = True"

text \<open>What a \<open>for\<close> loop or a comprehension iterates over.\<close>

fun py_iter :: "json \<Rightarrow> exn + json list" where
  "py_iter (JArr xs) = Inr xs"
| "py_iter (JStr s) = Inr (map (\<lambda>c. JStr [c]) s)"
| "py_iter (JObj d) = Inr (map (\<lambda>kv. JStr (fst kv)) d)"
| "py_iter v = Inl TypeError"

fun dicts_of :: "json list \<Rightarrow> dict list" where
  "dicts_of [] = []"
| "dicts_of (JObj d # xs) = d # dicts_of xs"
| "dicts_of (v # xs) = dicts_of xs"

subsection \<open>Strings\<close>

definition is_space :: "char \<Rightarrow> bool" where
  "is_space c = (c \<in> set [CHR 0x20, CHR 0x09, CHR 0x0A, CHR 0x0B, CHR 0x0C, CHR 0x0D,
                            CHR 0x1C, CHR 0x1D, CHR 0x1E, CHR 0x1F])"

definition strip :: "string \<Rightarrow> string" where
  "strip s = rev (dropWhile is_space (rev (dropWhile is_space s)))"

definition upper_letters :: string where "upper_letters = ''ABCDEFGHIJKLMNOPQRSTUVWXYZ''"
definition lower_letters :: string where "lower_letters = ''abcdefghijklmnopqrstuvwxyz''"

definition lower_char :: "char \<Rightarrow> char" where
  "lower_char c = (case map_of (zip upper_letters lower_letters) c of Some l \<Rightarrow> l | None \<Rightarrow> c)"

definition upper_char :: "char \<Rightarrow> char" where
  "upper_char c = (case map_of (zip lower_letters upper_letters) c of Some u \<Rightarrow> u | None \<Rightarrow> c)"

definition lower :: "string \<Rightarrow> string" where "lower s = map lower_char s"
definition upper :: "string \<Rightarrow> string" where "upper s = map upper_char s"

definition startswith :: "string \<Rightarrow> string \<Rightarrow> bool" where
  "startswith s p = (take (length p) s = p)"

text \<open>\<open>sub in s\<close> for strings.\<close>

fun contains :: "string \<Rightarrow> string \<Rightarrow> bool" where
  "contains sub [] = (sub = [])"
| "contains sub (c # cs) = (startswith (c # cs) sub \<or> contains sub cs)"

fun join :: "string \<Rightarrow> string list \<Rightarrow> string" where
  "join sep [] = []"
| "join sep [x] = x"
| "join sep (x # y # ys) = x @ sep @ join sep (y # ys)"

text \<open>\<open>int(s)\<close> on a string: surrounding whitespace, an optional sign, then decimal
  digits in which single underscores may separate digits.\<close>

definition digit_of :: "char \<Rightarrow> nat option" where
  "digit_of c = map_of (zip ''0123456789'' [0, 1, 2, 3, 4, 5, 6, 7, 8, 9]) c"

fun digits_value :: "nat \<Rightarrow> string \<Rightarrow> nat option" where
  "digits_value acc [] = Some acc"
| "digits_value acc (c # cs) =
     (case digit_of c of
        Some d \<Rightarrow> digits_value (acc * 10 + d) cs
      | None \<Rightarrow>
          (if c = CHR ''_'' then
             (case cs of
                [] \<Rightarrow> None
              | c' # cs' \<Rightarrow> (if digit_of c' = None then None else digits_value acc cs))
           else None))"

definition unsigned_of_string :: "string \<Rightarrow> nat option" where
  "unsigned_of_string s =
     (case s of [] \<Rightarrow> None
      | c # cs \<Rightarrow> (if digit_of c = None then None else digits_value 0 s))"

definition int_of_string :: "string \<Rightarrow> int option" where
  "int_of_string s =
     (case strip s of
        [] \<Rightarrow> None
      | c # cs \<Rightarrow>
          (if c = CHR ''-'' then map_option (\<lambda>n. - int n) (unsigned_of_string cs)
           else if c = CHR ''+'' then map_option int (unsigned_of_string cs)
           else map_option int (unsigned_of_string (c # cs))))"

text \<open>\<open>int(v)\<close>: truncation towards zero on a float, parsing on a string.\<close>

fun py_int :: "json \<Rightarrow> exn + int" where
  "py_int (JInt n) = Inr n"
| "py_int (JBool b) = Inr (if b then 1 else 0)"
| "py_int (JFloat r) = Inr (if r < 0 then - \<lfloor>- r\<rfloor> else \<lfloor>r\<rfloor>)"
| "py_int (JStr s) = (case int_of_string s of None \<Rightarrow> Inl ValueError | Some n \<Rightarrow> Inr n)"
| "py_int v = Inl TypeError"

text \<open>\<open>v < k\<close> against an integer constant: defined on numbers and booleans only.\<close>

fun py_less :: "json \<Rightarrow> int \<Rightarrow> exn + bool" where
  "py_less (JInt n) k = Inr (n < k)"
| "py_less (JFloat r) k = Inr (r < of_int k)"
| "py_less (JBool b) k = Inr ((if b then 1 else 0) < k)"
| "py_less v k = Inl TypeError"

text \<open>An f-string is kept as its pieces: literal text, and values that Python renders
  with \<open>str()\<close>.\<close>

datatype piece = Lit string | Val json

type_synonym ftext = "piece list"

definition num :: "nat \<Rightarrow> piece" where "num n = Val (JInt (int n))"

definition em_dash :: string where "em_dash = [CHR 0xE2, CHR 0x80, CHR 0x94]"
definition en_dash :: string where "en_dash = [CHR 0xE2, CHR 0x80, CHR 0x93]"
definition le_sign :: string where "le_sign = [CHR 0xE2, CHR 0x89, CHR 0xA4]"
definition ge_sign :: string where "ge_sign = [CHR 0xE2, CHR 0x89, CHR 0xA5]"

section \<open>The rule engine (skills/oscal_assess/oscal_assess.py)\<close>

definition VALID_STATUSES :: "string set" where
  "VALID_STATUSES = {''pass'', ''fail'', ''partial'', ''not_applicable''}"

definition VALID_SEVERITIES :: "string set" where
  "VALID_SEVERITIES = {''critical'', ''high'', ''moderate'', ''low''}"

record Finding =
  control_id :: json
  status :: string
  severity :: string
  observed_value :: ftext
  remediation :: ftext
  owner :: string
  due_date :: string

text \<open>The dataclass constructor with its defaults for \<open>owner\<close> and \<open>due_date\<close>;
  an omitted \<open>remediation\<close> is the empty text.\<close>

definition mk_finding :: "json \<Rightarrow> string \<Rightarrow> string \<Rightarrow> ftext \<Rightarrow> ftext \<Rightarrow> Finding" where
  "mk_finding cid st sev obs rem =
     \<lparr>control_id = cid, status = st, severity = sev, observed_value = obs,
      remediation = rem, owner = ''Business Security Services'', due_date = []\<rparr>"

definition default_reason :: string where
  "default_reason = ''Scope not collected by sfdc-connect''"

definition na :: "json \<Rightarrow> string \<Rightarrow> string \<Rightarrow> Finding" where
  "na cid sev reason = mk_finding cid ''not_applicable'' sev [Lit reason] []"

text \<open>\<open>_scope\<close>: the value stored under the scope name when the key is present; otherwise
  the whole dict when it is non-empty, and \<open>None\<close> when it is empty.\<close>

definition scope :: "dict \<Rightarrow> string \<Rightarrow> json" where
  "scope raw scope_name =
     (case map_of raw scope_name of
        Some v \<Rightarrow> v
      | None \<Rightarrow> (if raw \<noteq> [] then JObj raw else JNull))"

definition total :: "json \<Rightarrow> exn + int" where
  "total obj = (case obj of JObj d \<Rightarrow> py_int (dict_get d ''totalSize'' (JInt 0)) | _ \<Rightarrow> Inr 0)"

definition records :: "json \<Rightarrow> exn + dict list" where
  "records obj =
     (case obj of
        JObj d \<Rightarrow> bnd (py_iter (dict_get d ''records'' (JArr []))) (\<lambda>xs. Inr (dicts_of xs))
      | _ \<Rightarrow> Inr [])"

text \<open>\<open>p.get(k)\<close> used as a condition.\<close>

definition flag :: "string \<Rightarrow> dict \<Rightarrow> bool" where
  "flag k p = truthy (dict_get p k JNull)"

subsection \<open>Authentication\<close>

definition rule_auth_001 :: "dict \<Rightarrow> exn + Finding" where
  "rule_auth_001 raw =
     (let auth = scope raw ''auth'' in
      if \<not> truthy auth then Inr (na (JStr ''SBS-AUTH-001'') ''critical'' default_reason)
      else
        bnd (py_get auth ''sso_providers'' (JObj [])) (\<lambda>sso.
        bnd (records sso) (\<lambda>providers.
        let enabled = filter (flag ''IsEnabled'') providers in
        if providers = [] then
          Inr (mk_finding (JStr ''SBS-AUTH-001'') ''fail'' ''critical''
                [Lit ''No SAML SSO providers configured '', Lit em_dash,
                 Lit '' org-wide SSO not enforced.'']
                [Lit ''Configure and enable at least one SAML SSO provider in Setup > Single Sign-On Settings.''])
        else if enabled = [] then
          Inr (mk_finding (JStr ''SBS-AUTH-001'') ''partial'' ''critical''
                [num (length providers), Lit '' SSO provider(s) configured but none enabled.'']
                [Lit ''Enable the configured SSO provider and enforce org-wide SSO.''])
        else
          Inr (mk_finding (JStr ''SBS-AUTH-001'') ''pass'' ''critical''
                [num (length enabled), Lit '' enabled SSO provider(s) found.''] []))))"

definition rule_auth_002 :: "dict \<Rightarrow> exn + Finding" where
  "rule_auth_002 raw =
     (let auth = scope raw ''auth'' in
      if \<not> truthy auth then Inr (na (JStr ''SBS-AUTH-002'') ''moderate'' default_reason)
      else
        bnd (py_get auth ''sso_providers'' (JObj [])) (\<lambda>sso.
        bnd (records sso) (\<lambda>providers.
        bnd (py_get auth ''login_ip_ranges'' (JObj [])) (\<lambda>lir.
        bnd (total lir) (\<lambda>ip_ranges.
        if providers = [] then
          Inr (mk_finding (JStr ''SBS-AUTH-002'') ''partial'' ''moderate''
                [Lit ''SSO not configured '', Lit em_dash,
                 Lit '' SSO bypass governance cannot be assessed.'']
                [Lit ''Configure SSO before evaluating bypass governance.''])
        else if ip_ranges = 0 then
          Inr (mk_finding (JStr ''SBS-AUTH-002'') ''partial'' ''moderate''
                [Lit ''SSO configured ('', num (length providers),
                 Lit '' provider(s)) but no Login IP Ranges restrict bypass.'']
                [Lit ''Define Login IP Ranges on profiles that are exempt from SSO to limit bypass exposure.''])
        else
          Inr (mk_finding (JStr ''SBS-AUTH-002'') ''pass'' ''moderate''
                [Lit ''SSO configured with '', Val (JInt ip_ranges),
                 Lit '' Login IP Range restriction(s) governing bypass.''] []))))))"

definition rule_auth_003 :: "dict \<Rightarrow> exn + Finding" where
  "rule_auth_003 raw =
     (let auth = scope raw ''auth'' in
      if \<not> truthy auth then Inr (na (JStr ''SBS-AUTH-003'') ''moderate'' default_reason)
      else
        bnd (py_get auth ''login_ip_ranges'' (JObj [])) (\<lambda>lir.
        bnd (total lir) (\<lambda>ip_ranges.
        if ip_ranges = 0 then
          Inr (mk_finding (JStr ''SBS-AUTH-003'') ''fail'' ''moderate''
                [Lit ''No Login IP Ranges configured '', Lit em_dash,
                 Lit '' all IPs permitted for all profiles.'']
                [Lit ''Configure Login IP Ranges on privileged profiles to restrict access by network location.''])
        else if ip_ranges < 3 then
          Inr (mk_finding (JStr ''SBS-AUTH-003'') ''partial'' ''moderate''
                [Lit ''Only '', Val (JInt ip_ranges), Lit '' Login IP Range(s) '', Lit em_dash,
                 Lit '' coverage may be incomplete.'']
                [Lit ''Review whether all privileged profiles have Login IP Ranges applied.''])
        else
          Inr (mk_finding (JStr ''SBS-AUTH-003'') ''pass'' ''moderate''
                [Val (JInt ip_ranges), Lit '' Login IP Range(s) configured.''] []))))"

definition rule_auth_004 :: "dict \<Rightarrow> exn + Finding" where
  "rule_auth_004 raw =
     (let auth = scope raw ''auth'' in
      if \<not> truthy auth then Inr (na (JStr ''SBS-AUTH-004'') ''moderate'' default_reason)
      else
        bnd (py_get auth ''mfa_org_settings'' (JObj [])) (\<lambda>mfa.
        if (case mfa of JObj d \<Rightarrow> map_of d ''error'' \<noteq> None | _ \<Rightarrow> False) then
          Inr (mk_finding (JStr ''SBS-AUTH-004'') ''partial'' ''moderate''
                [Lit ''MFA org settings could not be retrieved via Tooling API '', Lit em_dash,
                 Lit '' manual review required.'']
                [Lit ''Verify MFA enforcement for external users in Setup > Identity Verification.''])
        else
          bnd (records mfa) (\<lambda>recs.
          if recs \<noteq> [] \<and> truthy (dict_get (hd recs) ''MultiFactorAuthenticationForUserUI'' (JBool False)) then
            Inr (mk_finding (JStr ''SBS-AUTH-004'') ''pass'' ''moderate''
                  [Lit ''MFA enforced for user UI (MultiFactorAuthenticationForUserUI=true).''] [])
          else
            Inr (mk_finding (JStr ''SBS-AUTH-004'') ''partial'' ''moderate''
                  [Lit ''MFA org-level enforcement not confirmed '', Lit em_dash,
                   Lit '' Tooling API returned no usable MFA fields.'']
                  [Lit ''Confirm MFA enforcement in Setup > Identity Verification or via Transaction Security policies.'']))))"

subsection \<open>Access controls\<close>

definition rule_acs_001 :: "dict \<Rightarrow> exn + Finding" where
  "rule_acs_001 raw =
     (let access = scope raw ''access'' in
      if \<not> truthy access then Inr (na (JStr ''SBS-ACS-001'') ''high'' default_reason)
      else
        bnd (py_get access ''admin_profiles'' (JObj [])) (\<lambda>ap.
        bnd (total ap) (\<lambda>admin_profiles.
        if admin_profiles > 5 then
          Inr (mk_finding (JStr ''SBS-ACS-001'') ''fail'' ''high''
                [Val (JInt admin_profiles), Lit '' profiles with ModifyAllData or ManageUsers '',
                 Lit em_dash, Lit '' excessive admin surface.'']
                [Lit ''Reduce admin profiles; document and justify each. Target '', Lit le_sign,
                 Lit ''2 for ModifyAllData.''])
        else if admin_profiles > 2 then
          Inr (mk_finding (JStr ''SBS-ACS-001'') ''partial'' ''high''
                [Val (JInt admin_profiles), Lit '' elevated profiles '', Lit em_dash,
                 Lit '' review and justify each.'']
                [Lit ''Document justification for all profiles with elevated permissions.''])
        else
          Inr (mk_finding (JStr ''SBS-ACS-001'') ''pass'' ''high''
                [Val (JInt admin_profiles), Lit '' admin profile(s) '', Lit em_dash,
                 Lit '' within acceptable threshold.''] []))))"

definition rule_acs_002 :: "dict \<Rightarrow> exn + Finding" where
  "rule_acs_002 raw =
     (let access = scope raw ''access'' in
      if \<not> truthy access then Inr (na (JStr ''SBS-ACS-002'') ''high'' default_reason)
      else
        bnd (py_get access ''elevated_permission_sets'' (JObj [])) (\<lambda>eps.
        bnd (total eps) (\<lambda>perm_sets.
        if perm_sets > 10 then
          Inr (mk_finding (JStr ''SBS-ACS-002'') ''fail'' ''high''
                [Val (JInt perm_sets), Lit '' permission sets with elevated privileges '',
                 Lit em_dash, Lit '' undocumented API access likely.'']
                [Lit ''Audit and document justification for all permission sets with ModifyAllData or ManageUsers.''])
        else if perm_sets > 4 then
          Inr (mk_finding (JStr ''SBS-ACS-002'') ''partial'' ''high''
                [Val (JInt perm_sets), Lit '' elevated permission sets '', Lit em_dash,
                 Lit '' verify all are documented and justified.'']
                [Lit ''Ensure each elevated permission set has a documented business justification.''])
        else
          Inr (mk_finding (JStr ''SBS-ACS-002'') ''pass'' ''high''
                [Val (JInt perm_sets), Lit '' elevated permission set(s) '', Lit em_dash,
                 Lit '' within acceptable threshold.''] []))))"

definition rule_acs_003 :: "dict \<Rightarrow> exn + Finding" where
  "rule_acs_003 raw =
     (let access = scope raw ''access'' in
      if \<not> truthy access then Inr (na (JStr ''SBS-ACS-003'') ''critical'' default_reason)
      else
        bnd (py_get access ''connected_apps'' (JObj [])) (\<lambda>ca.
        bnd (records ca) (\<lambda>apps.
        if apps = [] then
          Inr (mk_finding (JStr ''SBS-ACS-003'') ''pass'' ''critical''
                [Lit ''No connected apps found.''] [])
        else
          let unrestricted = filter (\<lambda>a. \<not> flag ''OptionsAllowAdminApprovedUsersOnly'' a) apps in
          if length unrestricted = length apps then
            Inr (mk_finding (JStr ''SBS-ACS-003'') ''fail'' ''critical''
                  [Lit ''All '', num (length apps),
                   Lit '' connected app(s) allow non-admin-approved users.'']
                  [Lit ''Restrict all connected apps to admin-approved users only via OAuth policy.''])
          else if unrestricted \<noteq> [] then
            Inr (mk_finding (JStr ''SBS-ACS-003'') ''partial'' ''critical''
                  [num (length unrestricted), Lit ''/'', num (length apps),
                   Lit '' connected app(s) not restricted to admin-approved users.'']
                  [Lit ''Apply admin-approved-users-only policy to all connected apps.''])
          else
            Inr (mk_finding (JStr ''SBS-ACS-003'') ''pass'' ''critical''
                  [Lit ''All '', num (length apps),
                   Lit '' connected app(s) restricted to admin-approved users.''] []))))"

definition rule_acs_004 :: "dict \<Rightarrow> exn + Finding" where
  "rule_acs_004 raw =
     (let access = scope raw ''access'' in
      if \<not> truthy access then Inr (na (JStr ''SBS-ACS-004'') ''high'' default_reason)
      else
        bnd (py_get access ''admin_profiles'' (JObj [])) (\<lambda>ap.
        bnd (records ap) (\<lambda>profiles.
        let super_admin = filter (\<lambda>p. flag ''PermissionsModifyAllData'' p
                                        \<and> flag ''PermissionsManageUsers'' p) profiles;
            count = length super_admin in
        if count > 2 then
          Inr (mk_finding (JStr ''SBS-ACS-004'') ''fail'' ''high''
                [num count, Lit '' profiles have both ModifyAllData and ManageUsers '',
                 Lit em_dash, Lit '' super admin equivalent.'']
                [Lit ''Reduce to '', Lit le_sign,
                 Lit ''2 super-admin-equivalent profiles with documented justification.''])
        else if count > 0 then
          Inr (mk_finding (JStr ''SBS-ACS-004'') ''partial'' ''high''
                [num count, Lit '' super admin'', Lit en_dash, Lit ''equivalent profile(s) '',
                 Lit em_dash, Lit '' verify documented justification exists.'']
                [Lit ''Document the business justification for each super-admin-equivalent profile.''])
        else
          Inr (mk_finding (JStr ''SBS-ACS-004'') ''pass'' ''high''
                [Lit ''No profiles found with both ModifyAllData and ManageUsers.''] []))))"

definition rule_acs_structural :: "string \<Rightarrow> string \<Rightarrow> dict \<Rightarrow> exn + Finding" where
  "rule_acs_structural cid sev raw =
     (let access = scope raw ''access'' in
      if \<not> truthy access then Inr (na (JStr cid) sev default_reason)
      else
        Inr (mk_finding (JStr cid) ''partial'' sev
              [Lit ''Access scope collected '', Lit em_dash,
               Lit '' full assessment requires detailed profile/permission set audit.'']
              [Lit ''Run a detailed permission audit for '', Val (JStr cid),
               Lit '' using Setup > Permission Set Analyzer.'']))"

subsection \<open>Integrations\<close>

definition rule_int_002 :: "dict \<Rightarrow> exn + Finding" where
  "rule_int_002 raw =
     (let integrations = scope raw ''integrations'' in
      if \<not> truthy integrations then Inr (na (JStr ''SBS-INT-002'') ''moderate'' default_reason)
      else
        bnd (py_get integrations ''remote_site_settings'' (JObj [])) (\<lambda>rss.
        bnd (records rss) (\<lambda>sites.
        let insecure = filter (\<lambda>s. flag ''DisableProtocolSecurity'' s \<and> flag ''IsActive'' s) sites;
            inactive_insecure =
              filter (\<lambda>s. flag ''DisableProtocolSecurity'' s \<and> \<not> flag ''IsActive'' s) sites in
        if insecure \<noteq> [] then
          Inr (mk_finding (JStr ''SBS-INT-002'') ''fail'' ''moderate''
                [num (length insecure),
                 Lit '' active remote site(s) have protocol security disabled.'']
                [Lit ''Enable protocol security on all active Remote Site Settings or remove unused entries.''])
        else if inactive_insecure \<noteq> [] then
          Inr (mk_finding (JStr ''SBS-INT-002'') ''partial'' ''moderate''
                [num (length inactive_insecure),
                 Lit '' inactive remote site(s) have protocol security disabled.'']
                [Lit ''Remove or remediate inactive remote sites with insecure protocol settings.''])
        else
          Inr (mk_finding (JStr ''SBS-INT-002'') ''pass'' ''moderate''
                [num (length sites), Lit '' remote site setting(s) '', Lit em_dash,
                 Lit '' none with protocol security disabled.''] []))))"

definition rule_int_003 :: "dict \<Rightarrow> exn + Finding" where
  "rule_int_003 raw =
     (let integrations = scope raw ''integrations'' in
      if \<not> truthy integrations then Inr (na (JStr ''SBS-INT-003'') ''moderate'' default_reason)
      else
        bnd (py_get integrations ''named_credentials'' (JObj [])) (\<lambda>nc.
        bnd (records nc) (\<lambda>creds.
        if creds = [] then
          Inr (mk_finding (JStr ''SBS-INT-003'') ''partial'' ''moderate''
                [Lit ''No Named Credentials found '', Lit em_dash,
                 Lit '' integrations may be using hardcoded credentials.'']
                [Lit ''Migrate integration credentials to Named Credentials to centralize and govern access.''])
        else
          Inr (mk_finding (JStr ''SBS-INT-003'') ''pass'' ''moderate''
                [num (length creds), Lit '' Named Credential(s) found '', Lit em_dash,
                 Lit '' managed integration credentials in use.''] []))))"

text \<open>\<open>SBS-INT-004\<close> collects the truthy \<open>EventType\<close> values into a set (a list or dict
  among them cannot be hashed), then calls \<open>upper()\<close> on each element (only a string has
  it). Once every element is a string, the set is the list of distinct names.\<close>

fun strs_of :: "json list \<Rightarrow> string list" where
  "strs_of [] = []"
| "strs_of (JStr s # xs) = s # strs_of xs"
| "strs_of (v # xs) = strs_of xs"

fun is_str :: "json \<Rightarrow> bool" where
  "is_str (JStr s) = True"
| "is_str v = False"

definition rule_int_004 :: "dict \<Rightarrow> exn + Finding" where
  "rule_int_004 raw =
     (let em = scope raw ''event-monitoring'' in
      if \<not> truthy em then Inr (na (JStr ''SBS-INT-004'') ''high'' default_reason)
      else
        bnd (py_get em ''event_log_types'' (JObj [])) (\<lambda>elt.
        bnd (records elt) (\<lambda>log_types.
        let vals = filter truthy (map (\<lambda>r. dict_get r ''EventType'' JNull) log_types) in
        if \<not> list_all hashable vals then Inl TypeError
        else if vals = [] then
          Inr (mk_finding (JStr ''SBS-INT-004'') ''fail'' ''high''
                [Lit ''No Event Log File types found in last 7 days '', Lit em_dash,
                 Lit '' API event monitoring not active.'']
                [Lit ''Enable Event Monitoring in Setup > Event Manager and ensure API event types are captured.''])
        else if \<not> list_all is_str vals then Inl AttributeError
        else
          let unique_types = remdups (strs_of vals);
              api_types = filter (\<lambda>t. contains ''API'' (upper t) \<or> contains ''REST'' (upper t))
                            unique_types in
          if api_types = [] then
            Inr (mk_finding (JStr ''SBS-INT-004'') ''partial'' ''high''
                  [num (length unique_types),
                   Lit '' event type(s) found but no API-specific event types detected.'']
                  [Lit ''Enable API event types (ApiEvent, RestApi) in Event Manager for full API telemetry.''])
          else
            Inr (mk_finding (JStr ''SBS-INT-004'') ''pass'' ''high''
                  [num (length api_types), Lit '' API event type(s) active: '',
                   Lit (join '', '' (sort api_types)), Lit ''.''] []))))"

subsection \<open>OAuth security\<close>

definition rule_oauth_001 :: "dict \<Rightarrow> exn + Finding" where
  "rule_oauth_001 raw =
     (let oauth = scope raw ''oauth'' in
      if \<not> truthy oauth then Inr (na (JStr ''SBS-OAUTH-001'') ''critical'' default_reason)
      else
        bnd (py_get oauth ''connected_app_oauth_policies'' (JObj [])) (\<lambda>cap.
        bnd (records cap) (\<lambda>policies.
        if policies = [] then
          Inr (mk_finding (JStr ''SBS-OAUTH-001'') ''pass'' ''critical''
                [Lit ''No OAuth-enabled connected apps found.''] [])
        else
          let open_access =
                filter (\<lambda>p. dict_get p ''PermittedUsersPolicyEnum'' (JStr []) \<in> {JStr ''AllUsers'', JStr []})
                  policies in
          if length open_access = length policies then
            Inr (mk_finding (JStr ''SBS-OAUTH-001'') ''fail'' ''critical''
                  [Lit ''All '', num (length policies), Lit '' connected app(s) allow all users '',
                   Lit em_dash, Lit '' no formal installation control.'']
                  [Lit ''Restrict all connected apps to admin-approved users or specific profiles/permission sets.''])
          else if open_access \<noteq> [] then
            Inr (mk_finding (JStr ''SBS-OAUTH-001'') ''partial'' ''critical''
                  [num (length open_access), Lit ''/'', num (length policies),
                   Lit '' connected app(s) permit all users.'']
                  [Lit ''Apply admin-approved-only policy to all connected apps.''])
          else
            Inr (mk_finding (JStr ''SBS-OAUTH-001'') ''pass'' ''critical''
                  [Lit ''All '', num (length policies),
                   Lit '' connected app(s) have controlled access policies.''] []))))"

definition rule_oauth_002 :: "dict \<Rightarrow> exn + Finding" where
  "rule_oauth_002 raw =
     (let oauth = scope raw ''oauth'' in
      if \<not> truthy oauth then Inr (na (JStr ''SBS-OAUTH-002'') ''critical'' default_reason)
      else
        bnd (py_get oauth ''connected_app_oauth_policies'' (JObj [])) (\<lambda>cap.
        bnd (records cap) (\<lambda>policies.
        if policies = [] then
          Inr (mk_finding (JStr ''SBS-OAUTH-002'') ''pass'' ''critical''
                [Lit ''No OAuth-enabled connected apps found.''] [])
        else
          let unrestricted =
                filter (\<lambda>p. \<not> flag ''OptionsAllowAdminApprovedUsersOnly'' p) policies in
          if length unrestricted = length policies then
            Inr (mk_finding (JStr ''SBS-OAUTH-002'') ''fail'' ''critical''
                  [Lit ''All '', num (length policies),
                   Lit '' connected app(s) not restricted to admin-approved users.'']
                  [Lit ''Enable 'Admin approved users are pre-authorized' on all connected apps.''])
          else if unrestricted \<noteq> [] then
            Inr (mk_finding (JStr ''SBS-OAUTH-002'') ''partial'' ''critical''
                  [num (length unrestricted), Lit ''/'', num (length policies),
                   Lit '' connected app(s) lack admin-approved restriction.'']
                  [Lit ''Apply admin-approved-users policy to all remaining connected apps.''])
          else
            Inr (mk_finding (JStr ''SBS-OAUTH-002'') ''pass'' ''critical''
                  [Lit ''All '', num (length policies),
                   Lit '' connected app(s) restricted to admin-approved users.''] []))))"

definition rule_oauth_structural :: "string \<Rightarrow> string \<Rightarrow> dict \<Rightarrow> exn + Finding" where
  "rule_oauth_structural cid sev raw =
     (let oauth = scope raw ''oauth'' in
      if \<not> truthy oauth then Inr (na (JStr cid) sev default_reason)
      else
        Inr (mk_finding (JStr cid) ''partial'' sev
              [Lit ''OAuth scope collected '', Lit em_dash,
               Lit '' full assessment requires manual classification and documentation.'']
              [Lit ''Complete manual assessment for '', Val (JStr cid),
               Lit '' per the SBS runbook.'']))"

subsection \<open>Data security\<close>

definition rule_data_004 :: "dict \<Rightarrow> exn + Finding" where
  "rule_data_004 raw =
     (let em = scope raw ''event-monitoring'' in
      if \<not> truthy em then Inr (na (JStr ''SBS-DATA-004'') ''high'' default_reason)
      else
        bnd (py_get em ''field_history_retention'' (JObj [])) (\<lambda>fhr.
        bnd (total fhr) (\<lambda>tracked.
        if tracked = 0 then
          Inr (mk_finding (JStr ''SBS-DATA-004'') ''fail'' ''high''
                [Lit ''No fields with history tracking enabled found.'']
                [Lit ''Enable Field History Tracking on sensitive fields in object field settings.''])
        else if tracked < 10 then
          Inr (mk_finding (JStr ''SBS-DATA-004'') ''partial'' ''high''
                [Lit ''Only '', Val (JInt tracked), Lit '' tracked field(s) '', Lit em_dash,
                 Lit '' coverage may be insufficient for sensitive data.'']
                [Lit ''Review all objects containing PII/regulated data and enable Field History Tracking.''])
        else
          Inr (mk_finding (JStr ''SBS-DATA-004'') ''pass'' ''high''
                [Val (JInt tracked), Lit '' field(s) with history tracking enabled.''] []))))"

definition rule_data_structural :: "string \<Rightarrow> string \<Rightarrow> dict \<Rightarrow> exn + Finding" where
  "rule_data_structural cid sev raw =
     Inr (mk_finding (JStr cid) ''partial'' sev
           [Lit ''Data security controls require field-level inventory '', Lit em_dash,
            Lit '' not available via sfdc-connect.'']
           [Lit ''Complete '', Val (JStr cid),
            Lit '' assessment via Setup > Data Classification or a custom SOQL audit.''])"

subsection \<open>Security configuration\<close>

definition rule_secconf_001 :: "dict \<Rightarrow> exn + Finding" where
  "rule_secconf_001 raw =
     (let secconf = scope raw ''secconf'' in
      if \<not> truthy secconf then Inr (na (JStr ''SBS-SECCONF-001'') ''high'' default_reason)
      else
        bnd (py_get secconf ''health_check'' (JObj [])) (\<lambda>hc.
        if (case hc of JObj d \<Rightarrow> map_of d ''note'' \<noteq> None | _ \<Rightarrow> False) then
          Inr (mk_finding (JStr ''SBS-SECCONF-001'') ''partial'' ''high''
                [Lit ''Health Check not available via SOQL '', Lit em_dash,
                 Lit '' check manually in Setup > Security Health Check.'']
                [Lit ''Review Security Health Check in the Salesforce UI and establish a documented baseline.''])
        else
          bnd (records hc) (\<lambda>recs.
          if recs = [] then
            Inr (mk_finding (JStr ''SBS-SECCONF-001'') ''partial'' ''high''
                  [Lit ''Health Check score could not be retrieved via API.'']
                  [Lit ''Verify Health Check is accessible and document the baseline score.''])
          else
            let score = dict_get (hd recs) ''Score'' (JInt 0) in
            bnd (py_less score 50) (\<lambda>below50.
            if below50 then
              Inr (mk_finding (JStr ''SBS-SECCONF-001'') ''fail'' ''high''
                    [Lit ''Health Check score: '', Val score, Lit ''/100 '', Lit em_dash,
                     Lit '' critically below baseline.'']
                    [Lit ''Address all Health Check findings in Setup > Security Health Check immediately.''])
            else
              bnd (py_less score 80) (\<lambda>below80.
              if below80 then
                Inr (mk_finding (JStr ''SBS-SECCONF-001'') ''partial'' ''high''
                      [Lit ''Health Check score: '', Val score, Lit ''/100 '', Lit em_dash,
                       Lit '' below recommended 80% threshold.'']
                      [Lit ''Remediate Health Check findings to reach '', Lit ge_sign,
                       Lit ''80% score.''])
              else
                Inr (mk_finding (JStr ''SBS-SECCONF-001'') ''pass'' ''high''
                      [Lit ''Health Check score: '', Val score, Lit ''/100.''] []))))))"

definition rule_secconf_002 :: "dict \<Rightarrow> exn + Finding" where
  "rule_secconf_002 raw =
     (let secconf = scope raw ''secconf'' in
      if \<not> truthy secconf then Inr (na (JStr ''SBS-SECCONF-002'') ''high'' default_reason)
      else
        bnd (py_get secconf ''health_check'' (JObj [])) (\<lambda>hc.
        bnd (records hc) (\<lambda>recs.
        if recs = [] then
          Inr (mk_finding (JStr ''SBS-SECCONF-002'') ''partial'' ''high''
                [Lit ''Health Check deviations cannot be enumerated via API '', Lit em_dash,
                 Lit '' manual review required.'']
                [Lit ''Review and remediate each Health Check deviation in Setup > Security Health Check.''])
        else
          let score = dict_get (hd recs) ''Score'' (JInt 0) in
          bnd (py_less score 50) (\<lambda>below50.
          if below50 then
            Inr (mk_finding (JStr ''SBS-SECCONF-002'') ''fail'' ''high''
                  [Lit ''Health Check score '', Val score,
                   Lit ''/100 indicates unaddressed critical deviations.'']
                  [Lit ''Resolve all failing Health Check items '', Lit em_dash,
                   Lit '' prioritise Critical and High risk items.''])
          else
            bnd (py_less score 80) (\<lambda>below80.
            if below80 then
              Inr (mk_finding (JStr ''SBS-SECCONF-002'') ''partial'' ''high''
                    [Lit ''Health Check score '', Val score, Lit ''/100 '', Lit em_dash,
                     Lit '' some deviations remain unaddressed.'']
                    [Lit ''Continue remediating Health Check findings until score reaches '',
                     Lit ge_sign, Lit ''80%.''])
            else
              Inr (mk_finding (JStr ''SBS-SECCONF-002'') ''pass'' ''high''
                    [Lit ''Health Check score '', Val score, Lit ''/100 '', Lit em_dash,
                     Lit '' deviations within acceptable range.''] []))))))"

subsection \<open>Transaction security and deployments\<close>

definition rule_dep_003 :: "dict \<Rightarrow> exn + Finding" where
  "rule_dep_003 raw =
     (let ts = scope raw ''transaction-security'' in
      if \<not> truthy ts then Inr (na (JStr ''SBS-DEP-003'') ''high'' default_reason)
      else
        bnd (py_get ts ''policies'' (JObj [])) (\<lambda>ps.
        bnd (records ps) (\<lambda>policies.
        if policies = [] then
          Inr (mk_finding (JStr ''SBS-DEP-003'') ''fail'' ''high''
                [Lit ''No Transaction Security Policies found '', Lit em_dash,
                 Lit '' no automated threat response configured.'']
                [Lit ''Create Transaction Security Policies in Setup > Transaction Security to monitor high-risk events.''])
        else
          let enabled = filter (flag ''IsEnabled'') policies in
          if enabled = [] then
            Inr (mk_finding (JStr ''SBS-DEP-003'') ''partial'' ''high''
                  [num (length policies),
                   Lit '' Transaction Security Polic(ies) found but none enabled.'']
                  [Lit ''Enable relevant Transaction Security Policies to enforce automated threat response.''])
          else
            Inr (mk_finding (JStr ''SBS-DEP-003'') ''pass'' ''high''
                  [num (length enabled), Lit ''/'', num (length policies),
                   Lit '' Transaction Security Polic(ies) active.''] []))))"

definition rule_not_collectable :: "string \<Rightarrow> string \<Rightarrow> string \<Rightarrow> dict \<Rightarrow> exn + Finding" where
  "rule_not_collectable cid sev reason raw = Inr (na (JStr cid) sev reason)"

subsection \<open>Rule registry\<close>

definition CODE_NA :: string where
  "CODE_NA = ''Requires source code review '' @ em_dash @ '' not assessable via Salesforce API''"

definition PORTAL_NA :: string where
  "PORTAL_NA = ''Requires Apex/LWC code audit '' @ em_dash @ '' not assessable via Salesforce API''"

definition DEP_NA :: string where
  "DEP_NA = ''Requires CI/CD and source repository audit '' @ em_dash
            @ '' not assessable via Salesforce API''"

definition FILE_NA :: string where
  "FILE_NA = ''Requires manual content link review '' @ em_dash
             @ '' not assessable via Salesforce API''"

definition FDNS_NA :: string where
  "FDNS_NA = ''Foundational governance control '' @ em_dash @ '' requires manual programme review''"

type_synonym rule = "dict \<Rightarrow> exn + Finding"

definition RULES_table :: "(string \<times> rule) list" where
  "RULES_table =
    [(''SBS-AUTH-001'', rule_auth_001),
     (''SBS-AUTH-002'', rule_auth_002),
     (''SBS-AUTH-003'', rule_auth_003),
     (''SBS-AUTH-004'', rule_auth_004),
     (''SBS-ACS-001'', rule_acs_001),
     (''SBS-ACS-002'', rule_acs_002),
     (''SBS-ACS-003'', rule_acs_003),
     (''SBS-ACS-004'', rule_acs_004),
     (''SBS-ACS-005'', rule_acs_structural ''SBS-ACS-005'' ''high''),
     (''SBS-ACS-006'', rule_acs_structural ''SBS-ACS-006'' ''critical''),
     (''SBS-ACS-007'', rule_acs_structural ''SBS-ACS-007'' ''high''),
     (''SBS-ACS-008'', rule_acs_structural ''SBS-ACS-008'' ''high''),
     (''SBS-ACS-009'', rule_acs_structural ''SBS-ACS-009'' ''moderate''),
     (''SBS-ACS-010'', rule_acs_structural ''SBS-ACS-010'' ''moderate''),
     (''SBS-ACS-011'', rule_acs_structural ''SBS-ACS-011'' ''high''),
     (''SBS-ACS-012'', rule_acs_structural ''SBS-ACS-012'' ''moderate''),
     (''SBS-INT-001'', rule_not_collectable ''SBS-INT-001'' ''moderate''
                         ''Browser extension inventory requires manual review''),
     (''SBS-INT-002'', rule_int_002),
     (''SBS-INT-003'', rule_int_003),
     (''SBS-INT-004'', rule_int_004),
     (''SBS-OAUTH-001'', rule_oauth_001),
     (''SBS-OAUTH-002'', rule_oauth_002),
     (''SBS-OAUTH-003'', rule_oauth_structural ''SBS-OAUTH-003'' ''high''),
     (''SBS-OAUTH-004'', rule_oauth_structural ''SBS-OAUTH-004'' ''moderate''),
     (''SBS-DATA-001'', rule_data_structural ''SBS-DATA-001'' ''high''),
     (''SBS-DATA-002'', rule_data_structural ''SBS-DATA-002'' ''moderate''),
     (''SBS-DATA-003'', rule_data_structural ''SBS-DATA-003'' ''high''),
     (''SBS-DATA-004'', rule_data_004),
     (''SBS-SECCONF-001'', rule_secconf_001),
     (''SBS-SECCONF-002'', rule_secconf_002),
     (''SBS-DEP-001'', rule_not_collectable ''SBS-DEP-001'' ''high'' DEP_NA),
     (''SBS-DEP-002'', rule_not_collectable ''SBS-DEP-002'' ''high'' DEP_NA),
     (''SBS-DEP-003'', rule_dep_003),
     (''SBS-DEP-005'', rule_not_collectable ''SBS-DEP-005'' ''critical'' DEP_NA),
     (''SBS-DEP-006'', rule_not_collectable ''SBS-DEP-006'' ''high'' DEP_NA),
     (''SBS-CODE-001'', rule_not_collectable ''SBS-CODE-001'' ''moderate'' CODE_NA),
     (''SBS-CODE-002'', rule_not_collectable ''SBS-CODE-002'' ''moderate'' CODE_NA),
     (''SBS-CODE-003'', rule_not_collectable ''SBS-CODE-003'' ''high'' CODE_NA),
     (''SBS-CODE-004'', rule_not_collectable ''SBS-CODE-004'' ''critical'' CODE_NA),
     (''SBS-CPORTAL-001'', rule_not_collectable ''SBS-CPORTAL-001'' ''critical'' PORTAL_NA),
     (''SBS-CPORTAL-002'', rule_not_collectable ''SBS-CPORTAL-002'' ''critical'' PORTAL_NA),
     (''SBS-FILE-001'', rule_not_collectable ''SBS-FILE-001'' ''moderate'' FILE_NA),
     (''SBS-FILE-002'', rule_not_collectable ''SBS-FILE-002'' ''moderate'' FILE_NA),
     (''SBS-FILE-003'', rule_not_collectable ''SBS-FILE-003'' ''moderate'' FILE_NA),
     (''SBS-FDNS-001'', rule_not_collectable ''SBS-FDNS-001'' ''moderate'' FDNS_NA)]"

definition RULES :: "string \<Rightarrow> rule option" where
  "RULES = map_of RULES_table"

subsection \<open>Dry-run stub data\<close>

text \<open>Each override is (status, observed_value, remediation).\<close>

definition DRY_RUN_OVERRIDES_table :: "(string \<times> string \<times> ftext \<times> ftext) list" where
  "DRY_RUN_OVERRIDES_table =
    [(''SBS-AUTH-001'', ''fail'', [Lit ''No SSO providers configured [dry-run]''],
        [Lit ''Configure org-wide SSO.'']),
     (''SBS-AUTH-002'', ''partial'',
        [Lit ''SSO not configured '', Lit em_dash, Lit '' bypass governance N/A [dry-run]''], []),
     (''SBS-AUTH-003'', ''fail'', [Lit ''No Login IP Ranges found [dry-run]''],
        [Lit ''Add Login IP Ranges to privileged profiles.'']),
     (''SBS-AUTH-004'', ''partial'', [Lit ''MFA org settings unconfirmed [dry-run]''],
        [Lit ''Verify MFA in Setup > Identity Verification.'']),
     (''SBS-ACS-001'', ''fail'', [Lit ''8 admin profiles with ModifyAllData [dry-run]''],
        [Lit ''Reduce to '', Lit le_sign, Lit ''2 admin profiles.'']),
     (''SBS-ACS-002'', ''partial'', [Lit ''6 elevated permission sets [dry-run]''],
        [Lit ''Document justification for all elevated sets.'']),
     (''SBS-ACS-003'', ''fail'', [Lit ''All 4 connected apps allow all users [dry-run]''],
        [Lit ''Apply admin-approved policy.'']),
     (''SBS-ACS-004'', ''partial'', [Lit ''2 super admin-equivalent profiles [dry-run]''],
        [Lit ''Document justification.'']),
     (''SBS-ACS-005'', ''partial'', [Lit ''Requires profile audit [dry-run]''],
        [Lit ''Run detailed profile review.'']),
     (''SBS-ACS-006'', ''partial'', [Lit ''Requires permission set audit [dry-run]''],
        [Lit ''Audit Use Any API Client grants.'']),
     (''SBS-ACS-007'', ''partial'', [Lit ''Non-human identity inventory required [dry-run]''],
        [Lit ''Build NHI inventory.'']),
     (''SBS-ACS-008'', ''partial'', [Lit ''NHI privilege scope requires audit [dry-run]''],
        [Lit ''Restrict NHI permissions.'']),
     (''SBS-ACS-009'', ''partial'',
        [Lit ''Compensating controls require manual review [dry-run]''], []),
     (''SBS-ACS-010'', ''fail'', [Lit ''No access review process evidence found [dry-run]''],
        [Lit ''Implement quarterly access reviews.'']),
     (''SBS-ACS-011'', ''partial'',
        [Lit ''Change governance process requires verification [dry-run]''], []),
     (''SBS-ACS-012'', ''partial'',
        [Lit ''Login hour restrictions require profile audit [dry-run]''], []),
     (''SBS-INT-002'', ''fail'',
        [Lit ''3 active remote sites have protocol security disabled [dry-run]''],
        [Lit ''Enable protocol security.'']),
     (''SBS-INT-003'', ''pass'', [Lit ''12 Named Credentials found [dry-run]''], []),
     (''SBS-INT-004'', ''partial'',
        [Lit ''5 event types found but no API-specific types [dry-run]''],
        [Lit ''Enable ApiEvent type.'']),
     (''SBS-OAUTH-001'', ''fail'', [Lit ''3 connected apps allow all users [dry-run]''],
        [Lit ''Restrict to admin-approved.'']),
     (''SBS-OAUTH-002'', ''partial'', [Lit ''2/5 apps lack admin-approved restriction [dry-run]''],
        [Lit ''Apply policy to all apps.'']),
     (''SBS-OAUTH-003'', ''partial'', [Lit ''Criticality classification not documented [dry-run]''],
        [Lit ''Classify all connected apps.'']),
     (''SBS-OAUTH-004'', ''partial'', [Lit ''Vendor due diligence documentation missing [dry-run]''],
        [Lit ''Complete vendor assessments.'']),
     (''SBS-DATA-001'', ''partial'', [Lit ''Field scan required [dry-run]''],
        [Lit ''Run data classification scan.'']),
     (''SBS-DATA-002'', ''partial'', [Lit ''Field inventory requires SOQL audit [dry-run]''], []),
     (''SBS-DATA-003'', ''partial'', [Lit ''Backup process not verifiable via API [dry-run]''],
        [Lit ''Verify backup schedule.'']),
     (''SBS-DATA-004'', ''fail'', [Lit ''0 fields with history tracking enabled [dry-run]''],
        [Lit ''Enable field history tracking.'']),
     (''SBS-SECCONF-001'', ''partial'', [Lit ''Health Check score: 64/100 [dry-run]''],
        [Lit ''Remediate to reach '', Lit ge_sign, Lit ''80%.'']),
     (''SBS-SECCONF-002'', ''partial'',
        [Lit ''Score 64/100 '', Lit em_dash, Lit '' deviations remain [dry-run]''],
        [Lit ''Address all failing items.'']),
     (''SBS-DEP-003'', ''fail'', [Lit ''No Transaction Security Policies found [dry-run]''],
        [Lit ''Create TSPs for high-risk events.'']),
     (''SBS-CODE-003'', ''partial'', [Lit ''Apex logging requires code audit [dry-run]''], []),
     (''SBS-CODE-004'', ''fail'', [Lit ''Sensitive data in logs cannot be ruled out [dry-run]''],
        [Lit ''Audit all Apex log statements.''])]"

definition DRY_RUN_OVERRIDES :: "string \<Rightarrow> (string \<times> ftext \<times> ftext) option" where
  "DRY_RUN_OVERRIDES = map_of DRY_RUN_OVERRIDES_table"

subsection \<open>Core assessment logic\<close>

text \<open>The serialised finding (\<open>Finding.to_dict\<close>).\<close>

record finding_dict =
  fd_control_id :: json
  fd_status :: string
  fd_severity :: string
  fd_owner :: string
  fd_due_date :: string
  fd_observed_value :: ftext
  fd_remediation :: ftext
  fd_evidence_ref :: ftext

definition to_dict :: "Finding \<Rightarrow> string \<Rightarrow> string \<Rightarrow> string \<Rightarrow> finding_dict" where
  "to_dict f org env date_str =
     \<lparr>fd_control_id = control_id f, fd_status = status f, fd_severity = severity f,
      fd_owner = owner f, fd_due_date = due_date f, fd_observed_value = observed_value f,
      fd_remediation = remediation f,
      fd_evidence_ref = [Lit ''collector://salesforce/'', Lit env, Lit ''/'', Val (control_id f),
                         Lit ''/snapshot-'', Lit date_str]\<rparr>"

text \<open>\<open>RULES.get(cid)\<close>: the key is hashed first; only a string can be a registered key.\<close>

definition rules_get :: "json \<Rightarrow> exn + rule option" where
  "rules_get cid =
     (if \<not> hashable cid then Inl TypeError
      else (case cid of JStr s \<Rightarrow> Inr (RULES s) | _ \<Rightarrow> Inr None))"

definition overrides_get :: "json \<Rightarrow> (string \<times> ftext \<times> ftext) option" where
  "overrides_get cid = (case cid of JStr s \<Rightarrow> DRY_RUN_OVERRIDES s | _ \<Rightarrow> None)"

definition py_lower :: "json \<Rightarrow> exn + string" where
  "py_lower v = (case v of JStr s \<Rightarrow> Inr (lower s) | _ \<Rightarrow> Inl AttributeError)"

text \<open>The body of the loop of \<open>run_assessment\<close> for one catalog entry. \<open>date_str\<close> is the
  current UTC date, read from the clock once before the loop.\<close>

definition assess_control ::
  "dict option \<Rightarrow> bool \<Rightarrow> string \<Rightarrow> string \<Rightarrow> string \<Rightarrow> json \<Rightarrow> exn + finding_dict" where
  "assess_control raw dry_run org env date_str control =
     bnd (py_get control ''control_id'' (JStr [])) (\<lambda>cid.
     bnd (py_get control ''risk_level'' JNull) (\<lambda>risk_level.
     bnd (py_lower (if truthy risk_level then risk_level else JStr ''moderate'')) (\<lambda>sev.
     bnd (rules_get cid) (\<lambda>rule.
     bnd (case rule of
            None \<Rightarrow> Inr (na cid sev ''No assessment rule defined'')
          | Some r \<Rightarrow>
              (if dry_run then
                 (case overrides_get cid of
                    Some (st, observed, remed) \<Rightarrow> Inr (mk_finding cid st sev observed remed)
                  | None \<Rightarrow> r [])
               else r (case raw of None \<Rightarrow> [] | Some d \<Rightarrow> d)))
       (\<lambda>finding. Inr (to_dict finding org env date_str))))))"

definition run_assessment ::
  "dict option \<Rightarrow> json list \<Rightarrow> bool \<Rightarrow> string \<Rightarrow> string \<Rightarrow> string \<Rightarrow> exn + finding_dict list" where
  "run_assessment raw controls dry_run org env date_str =
     mapM (assess_control raw dry_run org env date_str) controls"

section \<open>The control mapper (scripts/oscal_gap_map.py)\<close>

text \<open>\<open>str(v)\<close>: a string is itself. The rendering of every other value is Python's, taken
  as the parameter \<open>repr\<close>.\<close>

definition py_str :: "(json \<Rightarrow> string) \<Rightarrow> json \<Rightarrow> string" where
  "py_str repr v = (case v of JStr s \<Rightarrow> s | _ \<Rightarrow> repr v)"

definition findings_of :: "dict \<Rightarrow> exn + dict list" where
  "findings_of gap =
     (case dict_get gap ''findings'' (JArr []) of
        JArr fs \<Rightarrow> Inr (dicts_of fs)
      | _ \<Rightarrow> Inl ValueError)"

text \<open>The lookup tables \<open>main\<close> builds before its loop. Findings are looked up by strings
  only, so a table is a partial function on strings.\<close>

record mapper_cfg =
  controls_by_id :: "string \<Rightarrow> dict option"
  map_by_legacy :: "string \<Rightarrow> dict option"
  sscf_overrides :: json
  sscf_defaults_by_category :: json

fun index_controls :: "json list \<Rightarrow> (string \<Rightarrow> dict option) \<Rightarrow> exn + (string \<Rightarrow> dict option)" where
  "index_controls [] m = Inr m"
| "index_controls (c # cs) m =
     (case c of
        JObj d \<Rightarrow>
          (let k = dict_get d ''control_id'' JNull in
           if \<not> hashable k then Inl TypeError
           else (case k of JStr s \<Rightarrow> index_controls cs (m(s \<mapsto> d))
                 | _ \<Rightarrow> index_controls cs m))
      | _ \<Rightarrow> index_controls cs m)"

fun index_mappings :: "(json \<Rightarrow> string) \<Rightarrow> json list \<Rightarrow> (string \<Rightarrow> dict option) \<Rightarrow> (string \<Rightarrow> dict option)" where
  "index_mappings repr [] m = m"
| "index_mappings repr (row # rows) m =
     (case row of
        JObj d \<Rightarrow>
          (let legacy = strip (py_str repr (dict_get d ''legacy_control_id'' (JStr []))) in
           if legacy \<noteq> [] then index_mappings repr rows (m(legacy \<mapsto> d))
           else index_mappings repr rows m)
      | _ \<Rightarrow> index_mappings repr rows m)"

definition load_cfg :: "(json \<Rightarrow> string) \<Rightarrow> dict \<Rightarrow> dict \<Rightarrow> dict \<Rightarrow> exn + mapper_cfg" where
  "load_cfg repr controls_payload mapping_cfg sscf_map_cfg =
     bnd (py_iter (dict_get controls_payload ''controls'' (JArr []))) (\<lambda>controls.
     bnd (index_controls controls Map.empty) (\<lambda>by_id.
     bnd (py_iter (dict_get mapping_cfg ''mappings'' (JArr []))) (\<lambda>mappings.
     Inr \<lparr>controls_by_id = by_id,
          map_by_legacy = index_mappings repr mappings Map.empty,
          sscf_overrides = dict_get sscf_map_cfg ''control_overrides'' (JObj []),
          sscf_defaults_by_category = dict_get sscf_map_cfg ''defaults_by_category'' (JObj [])\<rparr>)))"

text \<open>\<open>d.get(k)\<close> where the key is an arbitrary value: it is hashed, and only a string
  can be a key of a loaded table.\<close>

definition py_get_key :: "json \<Rightarrow> json \<Rightarrow> exn + json" where
  "py_get_key tbl k =
     (case tbl of
        JObj d \<Rightarrow>
          (if \<not> hashable k then Inl TypeError
           else (case k of JStr s \<Rightarrow> Inr (dict_get d s JNull) | _ \<Rightarrow> Inr JNull))
      | _ \<Rightarrow> Inl AttributeError)"

text \<open>\<open>sscf_overrides.get(id) or sscf_defaults_by_category.get(category) or []\<close>.\<close>

definition sscf_mappings_for :: "mapper_cfg \<Rightarrow> string \<Rightarrow> dict \<Rightarrow> exn + json" where
  "sscf_mappings_for cfg sbs_control_id sbs =
     bnd (py_get (sscf_overrides cfg) sbs_control_id JNull) (\<lambda>a.
     if truthy a then Inr a
     else
       bnd (py_get_key (sscf_defaults_by_category cfg) (dict_get sbs ''category'' (JStr []))) (\<lambda>b.
       if truthy b then Inr b else Inr (JArr [])))"

definition mapped_item :: "string \<Rightarrow> string \<Rightarrow> dict \<Rightarrow> dict \<Rightarrow> json \<Rightarrow> json \<Rightarrow> json \<Rightarrow> dict" where
  "mapped_item legacy_control_id sbs_control_id sbs finding notes confidence mappings =
     [(''legacy_control_id'', JStr legacy_control_id),
      (''sbs_control_id'', JStr sbs_control_id),
      (''sbs_title'', dict_get sbs ''title'' (JStr [])),
      (''status'', dict_get finding ''status'' (JStr [])),
      (''severity'', dict_get finding ''severity'' (JStr [])),
      (''owner'', dict_get finding ''owner'' (JStr [])),
      (''due_date'', dict_get finding ''due_date'' (JStr [])),
      (''remediation'', dict_get finding ''remediation'' (JStr [])),
      (''evidence_ref'', dict_get finding ''evidence_ref'' (JStr [])),
      (''mapping_notes'', notes),
      (''mapping_confidence'', confidence),
      (''sscf_mappings'', mappings)]"

text \<open>The body of the loop over the findings: every path through it appends one entry to
  one of the three lists and moves on to the next finding.\<close>

datatype placement = Mapped dict | Unmapped dict | Invalid string

definition route :: "(json \<Rightarrow> string) \<Rightarrow> mapper_cfg \<Rightarrow> dict \<Rightarrow> exn + placement" where
  "route repr cfg finding =
     (let legacy_control_id = strip (py_str repr (dict_get finding ''control_id'' (JStr []))) in
      if startswith legacy_control_id ''SBS-'' then
        (let sbs_control_id = legacy_control_id in
         case controls_by_id cfg sbs_control_id of
           None \<Rightarrow> Inr (Invalid (legacy_control_id @ '' -> '' @ sbs_control_id
                                  @ '' (SBS control not found in imported catalog)''))
         | Some sbs \<Rightarrow>
             if sbs = [] then
               Inr (Invalid (legacy_control_id @ '' -> '' @ sbs_control_id
                             @ '' (SBS control not found in imported catalog)''))
             else
               bnd (sscf_mappings_for cfg sbs_control_id sbs) (\<lambda>mappings.
               Inr (Mapped (mapped_item legacy_control_id sbs_control_id sbs finding
                     (JStr ''Direct collector mapping (SBS control ID emitted by collector).'')
                     (JStr ''high'') mappings))))
      else
        (case map_by_legacy cfg legacy_control_id of
           None \<Rightarrow> Inr (Unmapped [(''legacy_control_id'', JStr legacy_control_id),
                                  (''status'', dict_get finding ''status'' (JStr [])),
                                  (''severity'', dict_get finding ''severity'' (JStr []))])
         | Some map_row \<Rightarrow>
             if map_row = [] then
               Inr (Unmapped [(''legacy_control_id'', JStr legacy_control_id),
                              (''status'', dict_get finding ''status'' (JStr [])),
                              (''severity'', dict_get finding ''severity'' (JStr []))])
             else
               (let sbs_control_id = strip (py_str repr (dict_get map_row ''sbs_control_id'' (JStr []))) in
                case controls_by_id cfg sbs_control_id of
                  None \<Rightarrow> Inr (Invalid (legacy_control_id @ '' -> '' @ sbs_control_id
                                         @ '' (not found in imported catalog)''))
                | Some sbs \<Rightarrow>
                    if sbs = [] then
                      Inr (Invalid (legacy_control_id @ '' -> '' @ sbs_control_id
                                    @ '' (not found in imported catalog)''))
                    else
                      bnd (sscf_mappings_for cfg sbs_control_id sbs) (\<lambda>mappings.
                      Inr (Mapped (mapped_item legacy_control_id sbs_control_id sbs finding
                            (dict_get map_row ''notes'' (JStr []))
                            (dict_get map_row ''mapping_confidence'' (JStr ''unrated''))
                            mappings))))))"

text \<open>The three output lists: mapped_items, unmapped_items, invalid_mapping_entries.\<close>

type_synonym buckets = "dict list \<times> dict list \<times> string list"

fun place :: "placement \<Rightarrow> buckets \<Rightarrow> buckets" where
  "place (Mapped item) (m, u, i) = (m @ [item], u, i)"
| "place (Unmapped item) (m, u, i) = (m, u @ [item], i)"
| "place (Invalid entry) (m, u, i) = (m, u, i @ [entry])"

fun map_findings :: "(json \<Rightarrow> string) \<Rightarrow> mapper_cfg \<Rightarrow> dict list \<Rightarrow> buckets \<Rightarrow> exn + buckets" where
  "map_findings repr cfg [] b = Inr b"
| "map_findings repr cfg (finding # findings) b =
     bnd (route repr cfg finding) (\<lambda>p. map_findings repr cfg findings (place p b))"

text \<open>The second loop adds \<open>sscf_control_ids\<close> to every mapped item.\<close>

definition sscf_ids :: "json \<Rightarrow> exn + json list" where
  "sscf_ids mappings =
     bnd (py_iter mappings) (\<lambda>ms.
     Inr (map (\<lambda>d. dict_get d ''sscf_control_id'' JNull)
            (filter (flag ''sscf_control_id'') (dicts_of ms))))"

definition add_sscf_control_ids :: "dict \<Rightarrow> exn + dict" where
  "add_sscf_control_ids item =
     bnd (sscf_ids (dict_get item ''sscf_mappings'' (JArr []))) (\<lambda>ids.
     Inr (item @ [(''sscf_control_ids'', JArr ids)]))"

text \<open>The mapping part of \<open>main\<close>: from the loaded documents to the three lists of the
  backlog.\<close>

definition gap_map :: "(json \<Rightarrow> string) \<Rightarrow> mapper_cfg \<Rightarrow> dict \<Rightarrow> exn + buckets" where
  "gap_map repr cfg gap =
     bnd (findings_of gap) (\<lambda>findings.
     bnd (map_findings repr cfg findings ([], [], [])) (\<lambda>(m, u, i).
     bnd (mapM add_sscf_control_ids m) (\<lambda>m'. Inr (m', u, i))))"

section \<open>The domain scorer (skills/sscf_benchmark/sscf_benchmark.py)\<close>

text \<open>
  A score is a double; it is modelled by the rational number it denotes, so comparisons
  are exact. The sum \<open>pass * 1.0 + partial * 0.5\<close> is exact on doubles. The quotient is
  rounded by the hardware: the float division is the parameter \<open>fdiv\<close>, and every result
  below holds for every such function. \<open>round(x, 4)\<close> rounds the exact value of \<open>x\<close> to
  four decimals, a tie going to the even neighbour.
\<close>

definition domain_status :: "rat \<Rightarrow> rat \<Rightarrow> string" where
  "domain_status score threshold =
     (if score \<ge> threshold then ''green''
      else if score \<ge> 1 / 2 then ''amber''
      else ''red'')"

definition round_half_even :: "rat \<Rightarrow> int" where
  "round_half_even r =
     (let f = \<lfloor>r\<rfloor>; d = r - of_int f in
      if d < 1 / 2 then f
      else if d > 1 / 2 then f + 1
      else if even f then f else f + 1)"

definition round4 :: "rat \<Rightarrow> rat" where
  "round4 r = of_int (round_half_even (r * 10000)) / 10000"

text \<open>The counting loop of \<open>_score_findings\<close>; the counters are (pass, partial, fail,
  not_applicable). \<open>status in counts\<close> hashes the status.\<close>

type_synonym counts = "nat \<times> nat \<times> nat \<times> nat"

definition count_item :: "dict \<Rightarrow> counts \<Rightarrow> exn + counts" where
  "count_item item c =
     (case c of (p, r, f, n) \<Rightarrow>
        (let st = dict_get item ''status'' (JStr []) in
         if \<not> hashable st then Inl TypeError
         else if st = JStr ''pass'' then Inr (p + 1, r, f, n)
         else if st = JStr ''partial'' then Inr (p, r + 1, f, n)
         else if st = JStr ''fail'' then Inr (p, r, f + 1, n)
         else if st = JStr ''not_applicable'' then Inr (p, r, f, n + 1)
         else Inr (p, r, f, n)))"

fun count_items :: "dict list \<Rightarrow> counts \<Rightarrow> exn + counts" where
  "count_items [] c = Inr c"
| "count_items (item # items) c = bnd (count_item item c) (count_items items)"

definition score_findings ::
  "(rat \<Rightarrow> rat \<Rightarrow> rat) \<Rightarrow> dict list \<Rightarrow> exn + (nat \<times> nat \<times> nat \<times> nat \<times> rat)" where
  "score_findings fdiv items =
     bnd (count_items items (0, 0, 0, 0)) (\<lambda>(p, r, f, n).
     let scoreable = p + r + f;
         score = (if scoreable = 0 then 1
                  else fdiv (of_nat p * 1 + of_nat r * (1 / 2)) (of_nat scoreable))
     in Inr (p, r, f, n, round4 score))"

subsection \<open>The control index and the grouping by domain\<close>

text \<open>The control index as \<open>_load_sscf_index\<close> delivers it from a well-formed index file:
  the controls in file order, each with a string id and a string domain, no id twice.\<close>

record sscf_control =
  sscf_control_id :: string
  domain :: string
  title :: json
  owner_team :: json

definition index_get :: "sscf_control list \<Rightarrow> string \<Rightarrow> sscf_control option" where
  "index_get idx cid = find (\<lambda>c. sscf_control_id c = cid) idx"

text \<open>A Python dict that is iterated is an association list in insertion order.
  \<open>upd k f dflt\<close> is \<open>d.setdefault(k, dflt)\<close> followed by replacing the value \<open>v\<close> stored
  under \<open>k\<close> by \<open>f v\<close>.\<close>

fun upd :: "'k \<Rightarrow> ('v \<Rightarrow> 'v) \<Rightarrow> 'v \<Rightarrow> ('k \<times> 'v) list \<Rightarrow> ('k \<times> 'v) list" where
  "upd k f dflt [] = [(k, f dflt)]"
| "upd k f dflt ((k', v) # kvs) =
     (if k = k' then (k', f v) # kvs else (k', v) # upd k f dflt kvs)"

type_synonym domain_controls = "(string \<times> (string \<times> dict list) list) list"

fun init_domains :: "sscf_control list \<Rightarrow> domain_controls \<Rightarrow> domain_controls" where
  "init_domains [] dc = dc"
| "init_domains (c # cs) dc =
     init_domains cs (upd (domain c) (upd (sscf_control_id c) (\<lambda>items. []) []) [] dc)"

text \<open>The inner loop over the \<open>sscf_control_ids\<close> of one item; the flag is \<open>placed\<close>.\<close>

fun place_item ::
  "sscf_control list \<Rightarrow> dict \<Rightarrow> json list \<Rightarrow> domain_controls \<times> bool \<Rightarrow> exn + (domain_controls \<times> bool)" where
  "place_item idx item [] acc = Inr acc"
| "place_item idx item (sscf_cid # ids) (dc, placed) =
     (if \<not> hashable sscf_cid then Inl TypeError
      else
        (case (case sscf_cid of JStr s \<Rightarrow> index_get idx s | _ \<Rightarrow> None) of
           Some ctrl_meta \<Rightarrow>
             place_item idx item ids
               (upd (domain ctrl_meta)
                  (upd (sscf_control_id ctrl_meta) (\<lambda>items. items @ [item]) []) [] dc, True)
         | None \<Rightarrow> place_item idx item ids (dc, placed)))"

fun distribute ::
  "sscf_control list \<Rightarrow> json list \<Rightarrow> domain_controls \<times> dict list \<Rightarrow> exn + (domain_controls \<times> dict list)" where
  "distribute idx [] acc = Inr acc"
| "distribute idx (item # items) (dc, unmatched_items) =
     (case item of
        JObj d \<Rightarrow>
          bnd (py_iter (dict_get d ''sscf_control_ids'' (JArr []))) (\<lambda>ids.
          bnd (place_item idx d ids (dc, False)) (\<lambda>(dc', placed).
          distribute idx items
            (dc', if placed then unmatched_items else unmatched_items @ [d])))
      | _ \<Rightarrow> Inl AttributeError)"

subsection \<open>Scoring\<close>

record control_detail =
  cd_sscf_control_id :: string
  cd_title :: json
  cd_owner_team :: json
  cd_findings :: "json list"
  cd_worst_status :: string

record domain_result =
  dr_domain :: string
  dr_sscf_controls :: "string list"
  dr_findings_count :: nat
  dr_pass :: nat
  dr_partial :: nat
  dr_fail :: nat
  dr_not_applicable :: nat
  dr_score :: rat
  dr_status :: string
  dr_controls :: "control_detail list"

definition worst_status :: "dict list \<Rightarrow> string" where
  "worst_status items =
     (let statuses = map (\<lambda>i. dict_get i ''status'' (JStr [])) items;
          worst = (if JStr ''fail'' \<in> set statuses then ''fail''
                   else if JStr ''partial'' \<in> set statuses then ''partial''
                   else if JStr ''pass'' \<in> set statuses then ''pass''
                   else ''not_applicable'')
      in if items \<noteq> [] then worst else ''not_applicable'')"

definition detail_of :: "sscf_control list \<Rightarrow> string \<times> dict list \<Rightarrow> control_detail" where
  "detail_of idx entry =
     (case entry of (sscf_cid, items) \<Rightarrow>
        \<lparr>cd_sscf_control_id = sscf_cid,
         cd_title = (case index_get idx sscf_cid of Some m \<Rightarrow> title m | None \<Rightarrow> JStr []),
         cd_owner_team = (case index_get idx sscf_cid of Some m \<Rightarrow> owner_team m | None \<Rightarrow> JStr []),
         cd_findings = map (\<lambda>i. dict_get i ''sbs_control_id''
                                   (dict_get i ''legacy_control_id'' (JStr []))) items,
         cd_worst_status = worst_status items\<rparr>)"

definition score_domain ::
  "(rat \<Rightarrow> rat \<Rightarrow> rat) \<Rightarrow> sscf_control list \<Rightarrow> rat \<Rightarrow> string \<times> (string \<times> dict list) list
     \<Rightarrow> exn + domain_result" where
  "score_domain fdiv idx threshold entry =
     (case entry of (dname, controls) \<Rightarrow>
        (let domain_items = concat (map snd controls) in
         bnd (score_findings fdiv domain_items) (\<lambda>(passes, partials, fails, nas, score).
         Inr \<lparr>dr_domain = dname,
              dr_sscf_controls = sort (map fst controls),
              dr_findings_count = length domain_items,
              dr_pass = passes, dr_partial = partials, dr_fail = fails,
              dr_not_applicable = nas,
              dr_score = score,
              dr_status = domain_status score threshold,
              dr_controls = map (detail_of idx) (sort_key fst controls)\<rparr>)))"

record report =
  benchmark_id :: ftext
  generated_at_utc :: string
  source_assessment_id :: json
  framework :: string
  rp_threshold :: rat
  overall_score :: rat
  overall_status :: string
  domains :: "domain_result list"
  total_domains :: nat
  domains_green :: nat
  domains_amber :: nat
  domains_red :: nat
  unmatched_findings :: nat

text \<open>\<open>run_benchmark\<close>; \<open>now\<close> is the time stamp read from the clock.\<close>

definition run_benchmark ::
  "(rat \<Rightarrow> rat \<Rightarrow> rat) \<Rightarrow> string \<Rightarrow> dict \<Rightarrow> sscf_control list \<Rightarrow> rat \<Rightarrow> exn + report" where
  "run_benchmark fdiv now backlog sscf_index threshold =
     bnd (py_iter (dict_get backlog ''mapped_items'' (JArr []))) (\<lambda>mapped_items.
     bnd (distribute sscf_index mapped_items (init_domains sscf_index [], [])) (\<lambda>(dc, unmatched_items).
     bnd (mapM (score_domain fdiv sscf_index threshold) (sort_key fst dc)) (\<lambda>domain_results.
     bnd (score_findings fdiv (concat (map (\<lambda>e. concat (map snd (snd e))) dc)))
       (\<lambda>(p, r, f, n, overall).
     Inr \<lparr>benchmark_id = [Lit ''sscf-benchmark-'',
                           Val (dict_get backlog ''assessment_id'' (JStr ''unknown''))],
          generated_at_utc = now,
          source_assessment_id = dict_get backlog ''assessment_id'' (JStr []),
          framework = ''CSA_SSCF'',
          rp_threshold = threshold,
          overall_score = round4 overall,
          overall_status = domain_status overall threshold,
          domains = domain_results,
          total_domains = length domain_results,
          domains_green = length (filter (\<lambda>d. dr_status d = ''green'') domain_results),
          domains_amber = length (filter (\<lambda>d. dr_status d = ''amber'') domain_results),
          domains_red = length (filter (\<lambda>d. dr_status d = ''red'') domain_results),
          unmatched_findings = length unmatched_items\<rparr>))))"

section \<open>The orchestration loop (harness/loop.py)\<close>

text \<open>
  A string that is handled as JSON text is either the serialisation of a value
  (\<open>json.dumps\<close>) or text that \<open>json.loads\<close> rejects. The file system maps a path to its
  file, if there is one; reading a file can fail.
\<close>

datatype jtext = Dumps json | NotJson string

fun json_loads :: "jtext \<Rightarrow> json option" where
  "json_loads (Dumps v) = Some v"
| "json_loads (NotJson s) = None"

datatype stored = Unreadable | Readable jtext

type_synonym fs = "string \<Rightarrow> stored option"

definition MAX_TURNS :: nat where "MAX_TURNS = 20"

subsection \<open>Critical/fail gate helpers\<close>

text \<open>\<open>v[k]\<close> with a string key.\<close>

definition py_index :: "json \<Rightarrow> string \<Rightarrow> exn + json" where
  "py_index v k =
     (case v of
        JObj d \<Rightarrow> (case map_of d k of None \<Rightarrow> Inl KeyError | Some x \<Rightarrow> Inr x)
      | _ \<Rightarrow> Inl TypeError)"

text \<open>The list comprehension of \<open>_extract_critical_fails\<close>.\<close>

fun critical_ids :: "json list \<Rightarrow> exn + json list" where
  "critical_ids [] = Inr []"
| "critical_ids (f # fs) =
     bnd (py_get f ''status'' JNull) (\<lambda>st.
     if st = JStr ''fail'' then
       bnd (py_get f ''severity'' JNull) (\<lambda>sev.
       if sev = JStr ''critical'' then
         bnd (py_index f ''control_id'') (\<lambda>cid.
         bnd (critical_ids fs) (\<lambda>rest. Inr (cid # rest)))
       else critical_ids fs)
     else critical_ids fs)"

text \<open>The body of the \<open>try\<close> block, and the function: every exception inside the block
  gives the empty list. \<open>Path(p)\<close> stands before the block and accepts a string only.\<close>

definition read_critical :: "stored \<Rightarrow> exn + json list" where
  "read_critical fl =
     (case fl of
        Unreadable \<Rightarrow> Inl (External ''read_text'')
      | Readable t \<Rightarrow>
          (case json_loads t of
             None \<Rightarrow> Inl ValueError
           | Some data \<Rightarrow>
               bnd (py_get data ''findings'' (JArr [])) (\<lambda>fv.
               bnd (py_iter fv) critical_ids)))"

definition extract_critical_fails :: "fs \<Rightarrow> json \<Rightarrow> exn + json list" where
  "extract_critical_fails w gap_analysis_path =
     (if \<not> truthy gap_analysis_path then Inr []
      else
        (case gap_analysis_path of
           JStr path \<Rightarrow>
             (case w path of
                None \<Rightarrow> Inr []
              | Some fl \<Rightarrow> (case read_critical fl of Inl e \<Rightarrow> Inr [] | Inr ids \<Rightarrow> Inr ids))
         | _ \<Rightarrow> Inl TypeError))"

text \<open>\<open>_extract_score\<close>. \<open>py_float\<close> is Python's \<open>float()\<close> on a JSON value, \<open>None\<close>
  where it raises.\<close>

definition extract_score :: "(json \<Rightarrow> rat option) \<Rightarrow> fs \<Rightarrow> json \<Rightarrow> exn + rat" where
  "extract_score py_float w sscf_report_path =
     (if \<not> truthy sscf_report_path then Inr 0
      else
        (case sscf_report_path of
           JStr path \<Rightarrow>
             (case w path of
                None \<Rightarrow> Inr 0
              | Some Unreadable \<Rightarrow> Inr 0
              | Some (Readable t) \<Rightarrow>
                  (case json_loads t of
                     Some (JObj d) \<Rightarrow>
                       (case py_float (dict_get d ''overall_score'' (JFloat 0)) of
                          None \<Rightarrow> Inr 0
                        | Some x \<Rightarrow> Inr x)
                   | _ \<Rightarrow> Inr 0))
         | _ \<Rightarrow> Inl TypeError))"

subsection \<open>Tool error handler\<close>

definition CRITICAL_TOOLS :: "string set" where
  "CRITICAL_TOOLS = {''sfdc_connect_collect'', ''oscal_assess_assess''}"

text \<open>\<open>error\<close> is \<open>str()\<close> of the exception that \<open>dispatch\<close> raised.\<close>

definition handle_tool_error :: "string \<Rightarrow> json \<Rightarrow> string \<Rightarrow> exn + jtext" where
  "handle_tool_error tool_name tool_input error =
     (if tool_name \<in> CRITICAL_TOOLS then
        Inl (RuntimeError (''Critical tool '' @ [CHR 0x27] @ tool_name @ [CHR 0x27]
                           @ '' failed '' @ em_dash
                           @ '' aborting to prevent false-pass assessment.'' @ [CHR 0x0A] @ error))
      else
        Inr (Dumps (JObj [(''status'', JStr ''error''), (''tool'', JStr tool_name),
                          (''message'', JStr error)])))"

subsection \<open>Message loop\<close>

datatype block = TextBlock string | ToolUse string string json | OtherBlock

record response =
  stop_reason :: string
  content :: "block list"

type_synonym tool_result = "string \<times> jtext"

datatype message = UserText string | AssistantTurn "block list" | ToolResults "tool_result list"

text \<open>The collaborators: the model API (\<open>client.messages.create\<close> on the conversation so
  far, an exception given by its text) and \<open>harness.tools.dispatch\<close>, which runs a tool
  on the file system and returns its result string or raises.\<close>

type_synonym client = "message list \<Rightarrow> string + response"
type_synonym dispatch = "fs \<Rightarrow> string \<Rightarrow> json \<Rightarrow> (string + jtext) \<times> fs"

record loop_state =
  gap_analysis :: json
  backlog :: json
  sscf_report :: json
  turns :: nat
  summary :: "string option"

definition initial_state :: loop_state where
  "initial_state = \<lparr>gap_analysis = JNull, backlog = JNull, sscf_report = JNull,
                     turns = 0, summary = None\<rparr>"

text \<open>Tracking of output files after a tool call; a result that does not parse, or is not
  an object, changes nothing.\<close>

definition track :: "loop_state \<Rightarrow> string \<Rightarrow> jtext \<Rightarrow> loop_state" where
  "track st name result_str =
     (case json_loads result_str of
        Some (JObj d) \<Rightarrow>
          (let out_file = dict_get d ''output_file'' JNull in
           if truthy out_file then
             (if name = ''oscal_assess_assess'' then st\<lparr>gap_analysis := out_file\<rparr>
              else if name = ''oscal_gap_map'' then st\<lparr>backlog := out_file\<rparr>
              else if name = ''sscf_benchmark_benchmark'' then st\<lparr>sscf_report := out_file\<rparr>
              else st)
           else st)
      | _ \<Rightarrow> st)"

text \<open>The loop over the content blocks of one response.\<close>

fun process_blocks ::
  "dispatch \<Rightarrow> block list \<Rightarrow> loop_state \<times> fs \<times> tool_result list
     \<Rightarrow> exn + (loop_state \<times> fs \<times> tool_result list)" where
  "process_blocks disp [] acc = Inr acc"
| "process_blocks disp (ToolUse bid name inp # bs) (st, w, tool_results) =
     (case disp w name inp of
        (res, w') \<Rightarrow>
          bnd (case res of
                 Inr result_str \<Rightarrow> Inr result_str
               | Inl err \<Rightarrow> handle_tool_error name inp err) (\<lambda>result_str.
          process_blocks disp bs
            (track st name result_str, w', tool_results @ [(bid, result_str)])))"
| "process_blocks disp (b # bs) acc = process_blocks disp bs acc"

fun block_texts :: "block list \<Rightarrow> string list" where
  "block_texts [] = []"
| "block_texts (TextBlock t # bs) = t # block_texts bs"
| "block_texts (b # bs) = block_texts bs"

text \<open>\<open>for turn in range(_MAX_TURNS)\<close> with its \<open>else\<close> branch: \<open>n\<close> iterations remain,
  \<open>turn\<close> is the loop variable.\<close>

fun run_turns ::
  "client \<Rightarrow> dispatch \<Rightarrow> nat \<Rightarrow> nat \<Rightarrow> loop_state \<Rightarrow> fs \<Rightarrow> message list
     \<Rightarrow> exn + (loop_state \<times> fs)" where
  "run_turns cl disp 0 turn st w messages =
     Inr (st\<lparr>summary := Some ''[max_turns=20 exceeded]''\<rparr>, w)"
| "run_turns cl disp (Suc n) turn st w messages =
     (let st1 = st\<lparr>turns := turn + 1\<rparr> in
      case cl messages of
        Inl err \<Rightarrow> Inl (External err)
      | Inr resp \<Rightarrow>
          if stop_reason resp = ''end_turn'' then
            Inr (st1\<lparr>summary := Some (join '' '' (block_texts (content resp)))\<rparr>, w)
          else if stop_reason resp = ''max_tokens'' then
            Inr (st1\<lparr>summary := Some ''[truncated]''\<rparr>, w)
          else if stop_reason resp \<noteq> ''tool_use'' then
            Inr (st1\<lparr>summary := Some (''[stop: '' @ stop_reason resp @ '']'')\<rparr>, w)
          else
            bnd (process_blocks disp (content resp) (st1, w, [])) (\<lambda>(st2, w2, tool_results).
            run_turns cl disp n (turn + 1) st2 w2
              (messages @ [AssistantTurn (content resp), ToolResults tool_results])))"

subsection \<open>\<open>_run_loop\<close> and the \<open>run\<close> command\<close>

text \<open>What the run finds in its environment: whether the \<open>anthropic\<close> package can be
  imported, and the memory store: \<open>None\<close> when \<open>build_client\<close> raised, otherwise the
  text \<open>load_memories\<close> returned.\<close>

record run_env =
  anthropic_installed :: bool
  memory :: "string option"

record final_state = loop_state +
  score :: rat
  critical_fails :: "json list"

text \<open>\<open>save_assessment(mem_client, org, assessment_id, score, critical_fails)\<close> of
  harness/memory.py. The summary text is built before the \<open>try\<close> block: joining the
  first five critical fails raises unless they are strings. A failure of the store itself
  is caught there and only warned about; the entry is what is handed to the store.\<close>

record mem_entry =
  me_org :: string
  me_assessment_id :: string
  me_score :: rat
  me_critical_fails :: "json list"

definition save_assessment :: "string \<Rightarrow> string \<Rightarrow> rat \<Rightarrow> json list \<Rightarrow> exn + mem_entry" where
  "save_assessment org assessment_id sc cfs =
     (if cfs \<noteq> [] \<and> \<not> list_all is_str (take 5 cfs) then Inl TypeError
      else Inr \<lparr>me_org = org, me_assessment_id = assessment_id,
                me_score = sc, me_critical_fails = cfs\<rparr>)"

datatype 'a ending = Raise exn | Exit nat | Return 'a

definition nl :: string where "nl = [CHR 0x0A]"

text \<open>The first user message: the task, after the memory context if there is one.\<close>

definition user_content :: "run_env \<Rightarrow> string \<Rightarrow> string" where
  "user_content e task =
     (let memory_context = (case memory e of None \<Rightarrow> [] | Some ctx \<Rightarrow> ctx)
      in if memory_context \<noteq> []
         then memory_context @ nl @ nl @ ''---'' @ nl @ nl @ task
         else task)"

definition run_loop ::
  "(json \<Rightarrow> rat option) \<Rightarrow> run_env \<Rightarrow> client \<Rightarrow> dispatch \<Rightarrow> fs
     \<Rightarrow> string \<Rightarrow> string \<Rightarrow> string \<Rightarrow> bool \<Rightarrow> bool
     \<Rightarrow> (final_state \<times> mem_entry option) ending" where
  "run_loop py_float e cl disp w task env org dry_run approve_critical =
     (if \<not> anthropic_installed e then
        Raise (RuntimeError ''anthropic package not installed. Run: pip install anthropic'')
      else
        (case run_turns cl disp MAX_TURNS 0 initial_state w [UserText (user_content e task)] of
           Inl ex \<Rightarrow> Raise ex
         | Inr (st, w') \<Rightarrow>
             (case extract_critical_fails w' (gap_analysis st) of
                Inl ex \<Rightarrow> Raise ex
              | Inr cfs \<Rightarrow>
                  (case extract_score py_float w' (sscf_report st) of
                     Inl ex \<Rightarrow> Raise ex
                   | Inr sc \<Rightarrow>
                       if cfs \<noteq> [] \<and> \<not> dry_run \<and> \<not> approve_critical then Exit 2
                       else
                         (let final = loop_state.extend st \<lparr>score = sc, critical_fails = cfs\<rparr>
                          in case memory e of
                               None \<Rightarrow> Return (final, None)
                             | Some ctx \<Rightarrow>
                                 (case save_assessment org
                                         (''sfdc-assess-'' @ org @ ''-'' @ env @ ''-loop'') sc cfs of
                                    Inl ex \<Rightarrow> Raise ex
                                  | Inr saved \<Rightarrow> Return (final, Some saved)))))))"

definition default_task :: "string \<Rightarrow> string \<Rightarrow> bool \<Rightarrow> string" where
  "default_task org env dry_run =
     ''Run a full OSCAL/SSCF security assessment for Salesforce org '' @ [CHR 0x27] @ org
     @ [CHR 0x27] @ '' in environment '' @ [CHR 0x27] @ env @ [CHR 0x27] @ ''.''
     @ (if dry_run
        then '' Use dry_run=true for all tool calls (no real Salesforce connection).''
        else [])
     @ nl @ nl @ ''Pipeline:'' @ nl
     @ ''1. Call sfdc_connect_collect (scope='all') to gather org configuration.'' @ nl
     @ ''2. Call oscal_assess_assess to produce gap_analysis.json.'' @ nl
     @ ''3. Call oscal_gap_map with the gap_analysis output to produce backlog.json.'' @ nl
     @ ''4. Call sscf_benchmark_benchmark with the backlog to produce the SSCF scorecard.''
     @ nl @ nl
     @ ''Return a final summary with: overall_score, overall_status (red/amber/green), ''
     @ ''count of critical/fail findings, and the top 3 remediation priorities.''"

text \<open>The consolidated result record written to \<open>loop_result.json\<close>.\<close>

record loop_result_doc =
  lr_org :: string
  lr_env :: string
  lr_dry_run :: bool
  lr_turns :: nat
  lr_overall_score :: rat
  lr_critical_fails :: "json list"
  lr_gap_analysis :: json
  lr_backlog :: json
  lr_sscf_report :: json
  lr_summary :: string

text \<open>How the process ends, and what the run persisted: the memory summary and the
  result file (its path and content). Creating the output directory and writing the file
  are taken to succeed.\<close>

datatype outcome = Completed | SysExit nat | Uncaught exn

fun exit_code :: "outcome \<Rightarrow> nat" where
  "exit_code Completed = 0"
| "exit_code (SysExit n) = n"
| "exit_code (Uncaught ex) = 1"

record run_result =
  outcome :: outcome
  memory_written :: "mem_entry option"
  loop_result_json :: "(string \<times> loop_result_doc) option"

definition run ::
  "(json \<Rightarrow> rat option) \<Rightarrow> run_env \<Rightarrow> client \<Rightarrow> dispatch \<Rightarrow> fs
     \<Rightarrow> string \<Rightarrow> string \<Rightarrow> bool \<Rightarrow> bool \<Rightarrow> string option \<Rightarrow> run_result" where
  "run py_float e cl disp w env org dry_run approve_critical task =
     (let task' = (case task of None \<Rightarrow> default_task org env dry_run | Some t \<Rightarrow> t) in
      case run_loop py_float e cl disp w task' env org dry_run approve_critical of
        Raise ex \<Rightarrow> \<lparr>outcome = Uncaught ex, memory_written = None, loop_result_json = None\<rparr>
      | Exit n \<Rightarrow> \<lparr>outcome = SysExit n, memory_written = None, loop_result_json = None\<rparr>
      | Return (state, saved) \<Rightarrow>
          \<lparr>outcome = Completed,
           memory_written = saved,
           loop_result_json =
             Some (''docs/oscal-salesforce-poc/generated/'' @ org @ ''/loop_result.json'',
                   \<lparr>lr_org = org, lr_env = env, lr_dry_run = dry_run,
                    lr_turns = turns state,
                    lr_overall_score = score state,
                    lr_critical_fails = critical_fails state,
                    lr_gap_analysis = gap_analysis state,
                    lr_backlog = backlog state,
                    lr_sscf_report = sscf_report state,
                    lr_summary = (case summary state of None \<Rightarrow> [] | Some s \<Rightarrow> s)\<rparr>)\<rparr>)"

section \<open>Notions used to state the properties\<close>

subsection \<open>Rule engine\<close>

text \<open>The finding a registered rule returns is keyed by the id it is registered under and
  carries a status of the closed enumeration.\<close>

definition finding_ok :: "string \<Rightarrow> Finding \<Rightarrow> bool" where
  "finding_ok cid f = (control_id f = JStr cid \<and> status f \<in> VALID_STATUSES)"

text \<open>The status a registered rule yields on an input, for stating examples.\<close>

definition rule_status :: "string \<Rightarrow> dict \<Rightarrow> (exn + string) option" where
  "rule_status cid raw =
     (case RULES cid of
        None \<Rightarrow> None
      | Some r \<Rightarrow> Some (case r raw of Inl e \<Rightarrow> Inl e | Inr f \<Rightarrow> Inr (status f)))"

definition statuses_of :: "exn + finding_dict list \<Rightarrow> exn + string list" where
  "statuses_of res = (case res of Inl e \<Rightarrow> Inl e | Inr fs \<Rightarrow> Inr (map fd_status fs))"

text \<open>The scope each data-driven rule reads, by control id (from the \<open>_scope\<close> call at the
  head of the rule).\<close>

definition rule_scope_table :: "(string \<times> string) list" where
  "rule_scope_table =
    [(''SBS-AUTH-001'', ''auth''), (''SBS-AUTH-002'', ''auth''),
     (''SBS-AUTH-003'', ''auth''), (''SBS-AUTH-004'', ''auth''),
     (''SBS-ACS-001'', ''access''), (''SBS-ACS-002'', ''access''),
     (''SBS-ACS-003'', ''access''), (''SBS-ACS-004'', ''access''),
     (''SBS-ACS-005'', ''access''), (''SBS-ACS-006'', ''access''),
     (''SBS-ACS-007'', ''access''), (''SBS-ACS-008'', ''access''),
     (''SBS-ACS-009'', ''access''), (''SBS-ACS-010'', ''access''),
     (''SBS-ACS-011'', ''access''), (''SBS-ACS-012'', ''access''),
     (''SBS-INT-002'', ''integrations''), (''SBS-INT-003'', ''integrations''),
     (''SBS-INT-004'', ''event-monitoring''),
     (''SBS-OAUTH-001'', ''oauth''), (''SBS-OAUTH-002'', ''oauth''),
     (''SBS-OAUTH-003'', ''oauth''), (''SBS-OAUTH-004'', ''oauth''),
     (''SBS-DATA-004'', ''event-monitoring''),
     (''SBS-SECCONF-001'', ''secconf''), (''SBS-SECCONF-002'', ''secconf''),
     (''SBS-DEP-003'', ''transaction-security'')]"

text \<open>The controls registered through \<open>_rule_not_collectable\<close>, those registered through
  \<open>_rule_data_structural\<close>, and the not-collectable controls that have a dry-run override.\<close>

definition NOT_COLLECTABLE :: "string list" where
  "NOT_COLLECTABLE =
    [''SBS-INT-001'', ''SBS-DEP-001'', ''SBS-DEP-002'', ''SBS-DEP-005'', ''SBS-DEP-006'',
     ''SBS-CODE-001'', ''SBS-CODE-002'', ''SBS-CODE-003'', ''SBS-CODE-004'',
     ''SBS-CPORTAL-001'', ''SBS-CPORTAL-002'', ''SBS-FILE-001'', ''SBS-FILE-002'',
     ''SBS-FILE-003'', ''SBS-FDNS-001'']"

definition DATA_STRUCTURAL :: "string list" where
  "DATA_STRUCTURAL = [''SBS-DATA-001'', ''SBS-DATA-002'', ''SBS-DATA-003'']"

definition DRY_RUN_SIMULATED :: "string list" where
  "DRY_RUN_SIMULATED = [''SBS-CODE-003'', ''SBS-CODE-004'']"

text \<open>Well-typed inputs. A catalog entry is an object whose \<open>control_id\<close> can be hashed
  and whose \<open>risk_level\<close> is a string, empty or absent.\<close>

definition catalog_entry_ok :: "json \<Rightarrow> bool" where
  "catalog_entry_ok c =
     (case c of
        JObj d \<Rightarrow>
          hashable (dict_get d ''control_id'' (JStr []))
          \<and> (let rl = dict_get d ''risk_level'' JNull in \<not> truthy rl \<or> is_str rl)
      | _ \<Rightarrow> False)"

definition entry_id :: "json \<Rightarrow> json" where
  "entry_id c = (case c of JObj d \<Rightarrow> dict_get d ''control_id'' (JStr []) | _ \<Rightarrow> JNull)"

text \<open>A SOQL result is well typed when its \<open>totalSize\<close> converts to an integer, its
  \<open>records\<close> can be iterated, and in every record the \<open>Score\<close> is a number and the
  \<open>EventType\<close> a string (or empty). A value that is not an object counts as no result.\<close>

definition int_like :: "json \<Rightarrow> bool" where
  "int_like v = (case py_int v of Inl e \<Rightarrow> False | Inr n \<Rightarrow> True)"

definition number_like :: "json \<Rightarrow> bool" where
  "number_like v = (case v of JInt n \<Rightarrow> True | JFloat r \<Rightarrow> True | JBool b \<Rightarrow> True | _ \<Rightarrow> False)"

definition record_ok :: "dict \<Rightarrow> bool" where
  "record_ok r =
     (number_like (dict_get r ''Score'' (JInt 0))
      \<and> (let t = dict_get r ''EventType'' JNull in \<not> truthy t \<or> is_str t))"

definition soql_ok :: "json \<Rightarrow> bool" where
  "soql_ok v =
     (case v of
        JObj d \<Rightarrow>
          int_like (dict_get d ''totalSize'' (JInt 0))
          \<and> (case py_iter (dict_get d ''records'' (JArr [])) of
                Inl e \<Rightarrow> False
              | Inr rs \<Rightarrow> list_all record_ok (dicts_of rs))
      | _ \<Rightarrow> True)"

text \<open>The data of one scope: empty, or an object of well-typed SOQL results. In the raw
  collector output every value is the data of a scope (the \<open>--scope all\<close> shape) and can be
  read as a SOQL result (the single-scope shape).\<close>

definition scope_ok :: "json \<Rightarrow> bool" where
  "scope_ok v =
     (\<not> truthy v \<or> (case v of JObj d \<Rightarrow> list_all (\<lambda>kv. soql_ok (snd kv)) d | _ \<Rightarrow> False))"

definition raw_ok :: "dict \<Rightarrow> bool" where
  "raw_ok raw = list_all (\<lambda>kv. scope_ok (snd kv) \<and> soql_ok (snd kv)) raw"

definition raw_input_ok :: "dict option \<Rightarrow> bool" where
  "raw_input_ok raw = (case raw of None \<Rightarrow> True | Some d \<Rightarrow> raw_ok d)"

text \<open>Properties of a single rule: its findings are keyed and typed; it returns on
  well-typed data; it reads its input through one scope only, degrades to not_applicable
  when that scope has no data and does not when it has; it yields not_applicable always.\<close>

definition rule_ok :: "string \<Rightarrow> rule \<Rightarrow> bool" where
  "rule_ok cid r = (\<forall>raw f. r raw = Inr f \<longrightarrow> finding_ok cid f)"

definition rule_total :: "rule \<Rightarrow> bool" where
  "rule_total r = (\<forall>raw. raw_ok raw \<longrightarrow> (\<exists>f. r raw = Inr f))"

definition scope_rule :: "string \<Rightarrow> string \<Rightarrow> rule \<Rightarrow> bool" where
  "scope_rule cid s r =
     (\<forall>raw.
        (\<not> truthy (scope raw s) \<longrightarrow> (\<exists>sev. r raw = Inr (na (JStr cid) sev default_reason)))
        \<and> (truthy (scope raw s) \<longrightarrow>
             (\<forall>f. r raw = Inr f \<longrightarrow> status f \<in> {''pass'', ''fail'', ''partial''}))
        \<and> (\<forall>raw'. scope raw' s = scope raw s \<longrightarrow> r raw' = r raw))"

definition always_na :: "string \<Rightarrow> rule \<Rightarrow> bool" where
  "always_na cid r =
     (\<forall>raw. \<exists>sev reason. reason \<noteq> [] \<and> r raw = Inr (na (JStr cid) sev reason))"

definition always_partial :: "string \<Rightarrow> rule \<Rightarrow> bool" where
  "always_partial cid r =
     (\<forall>raw. \<exists>f. r raw = Inr f \<and> control_id f = JStr cid \<and> status f = ''partial'')"

definition rule_scope :: "string \<Rightarrow> string option" where
  "rule_scope = map_of rule_scope_table"

text \<open>The collected data holds nothing for the scope the control's rule reads.\<close>

definition no_scope_data :: "string \<Rightarrow> dict \<Rightarrow> bool" where
  "no_scope_data cid raw =
     (case rule_scope cid of None \<Rightarrow> True | Some s \<Rightarrow> \<not> truthy (scope raw s))"

text \<open>What the registry holds under an id: a rule on a scope, a data-structural rule or a
  not-collectable rule.\<close>

definition registered_as :: "string \<Rightarrow> rule \<Rightarrow> bool" where
  "registered_as cid r =
     (case rule_scope cid of
        Some s \<Rightarrow> scope_rule cid s r
      | None \<Rightarrow>
          (if cid \<in> set DATA_STRUCTURAL then always_partial cid r
           else cid \<in> set NOT_COLLECTABLE \<and> always_na cid r))"

text \<open>A small catalog and a small collector output, used in examples: one control with a
  rule on the \<open>auth\<close> scope and one without a rule; the \<open>auth\<close> scope with one enabled SSO
  provider.\<close>

definition example_catalog :: "json list" where
  "example_catalog =
     [JObj [(''control_id'', JStr ''SBS-AUTH-001''), (''risk_level'', JStr ''Critical'')],
      JObj [(''control_id'', JStr ''SBS-XYZ-999'')]]"

definition example_raw :: dict where
  "example_raw =
     [(''auth'', JObj [(''sso_providers'',
         JObj [(''totalSize'', JInt 1),
               (''records'', JArr [JObj [(''IsEnabled'', JBool True)]])])])]"

definition access_only_raw :: dict where
  "access_only_raw =
     [(''access'', JObj [(''admin_profiles'', JObj [(''totalSize'', JInt 9), (''records'', JArr [])])])]"

definition code_catalog :: "json list" where
  "code_catalog = [JObj [(''control_id'', JStr ''SBS-CODE-001'')]]"

subsection \<open>Control mapper\<close>

text \<open>The entries of each kind among a list of placements, in order.\<close>

fun mapped_of :: "placement list \<Rightarrow> dict list" where
  "mapped_of [] = []"
| "mapped_of (Mapped item # ps) = item # mapped_of ps"
| "mapped_of (p # ps) = mapped_of ps"

fun unmapped_of :: "placement list \<Rightarrow> dict list" where
  "unmapped_of [] = []"
| "unmapped_of (Unmapped item # ps) = item # unmapped_of ps"
| "unmapped_of (p # ps) = unmapped_of ps"

fun invalid_of :: "placement list \<Rightarrow> string list" where
  "invalid_of [] = []"
| "invalid_of (Invalid entry # ps) = entry # invalid_of ps"
| "invalid_of (p # ps) = invalid_of ps"

text \<open>Well-typed mapper configuration: both framework tables are objects whose non-empty
  values can be iterated, and the category of every catalog control can be hashed.\<close>

definition iterable :: "json \<Rightarrow> bool" where
  "iterable v = (case py_iter v of Inl e \<Rightarrow> False | Inr xs \<Rightarrow> True)"

definition table_ok :: "json \<Rightarrow> bool" where
  "table_ok t =
     (case t of
        JObj d \<Rightarrow> list_all (\<lambda>kv. \<not> truthy (snd kv) \<or> iterable (snd kv)) d
      | _ \<Rightarrow> False)"

definition cfg_ok :: "mapper_cfg \<Rightarrow> bool" where
  "cfg_ok cfg =
     (table_ok (sscf_overrides cfg) \<and> table_ok (sscf_defaults_by_category cfg)
      \<and> (\<forall>k sbs. controls_by_id cfg k = Some sbs \<longrightarrow>
             hashable (dict_get sbs ''category'' (JStr []))))"

text \<open>An example configuration and gap analysis: one catalog control, one crosswalk row
  to it and one to a control that is not in the catalog; four findings.\<close>

definition example_cfg :: mapper_cfg where
  "example_cfg =
     \<lparr>controls_by_id =
        [''SBS-AUTH-001'' \<mapsto> [(''control_id'', JStr ''SBS-AUTH-001''),
                              (''title'', JStr ''SSO''), (''category'', JStr ''Authentication'')]],
      map_by_legacy =
        [''LEG-1'' \<mapsto> [(''legacy_control_id'', JStr ''LEG-1''),
                       (''sbs_control_id'', JStr ''SBS-AUTH-001'')],
         ''LEG-2'' \<mapsto> [(''legacy_control_id'', JStr ''LEG-2''),
                       (''sbs_control_id'', JStr ''SBS-NONE-000'')]],
      sscf_overrides = JObj [],
      sscf_defaults_by_category =
        JObj [(''Authentication'', JArr [JObj [(''sscf_control_id'', JStr ''SSCF-IAM-001'')]])]\<rparr>"

definition example_gap :: dict where
  "example_gap =
     [(''assessment_id'', JStr ''a-1''),
      (''findings'',
         JArr [JObj [(''control_id'', JStr ''SBS-AUTH-001''), (''status'', JStr ''fail'')],
               JObj [(''control_id'', JStr ''LEG-1''), (''status'', JStr ''pass'')],
               JObj [(''control_id'', JStr ''LEG-2''), (''status'', JStr ''partial'')],
               JObj [(''control_id'', JStr ''LEG-9''), (''status'', JStr ''fail'')]])]"

text \<open>A mapped placement whose item the second loop can extend.\<close>

definition placed_ok :: "placement \<Rightarrow> bool" where
  "placed_ok p = (case p of Mapped item \<Rightarrow> (\<exists>item'. add_sscf_control_ids item = Inr item') | _ \<Rightarrow> True)"

subsection \<open>Domain scorer\<close>

text \<open>The number of items with a given status.\<close>

definition count_status :: "string \<Rightarrow> dict list \<Rightarrow> nat" where
  "count_status s items =
     length (filter (\<lambda>item. dict_get item ''status'' (JStr []) = JStr s) items)"

text \<open>Well-typed items: the status of a scored item can be hashed; a mapped item of the
  backlog is such an object whose \<open>sscf_control_ids\<close> are an iterable of hashable ids.\<close>

definition status_ok :: "dict \<Rightarrow> bool" where
  "status_ok item = hashable (dict_get item ''status'' (JStr []))"

definition item_ok :: "json \<Rightarrow> bool" where
  "item_ok v =
     (case v of
        JObj d \<Rightarrow>
          status_ok d
          \<and> (case py_iter (dict_get d ''sscf_control_ids'' (JArr [])) of
                Inl e \<Rightarrow> False
              | Inr ids \<Rightarrow> list_all hashable ids)
      | _ \<Rightarrow> False)"

definition backlog_ok :: "dict \<Rightarrow> bool" where
  "backlog_ok bl =
     (case py_iter (dict_get bl ''mapped_items'' (JArr [])) of
        Inl e \<Rightarrow> False
      | Inr items \<Rightarrow> list_all item_ok items)"

text \<open>All items stored in the grouping.\<close>

definition dc_items :: "domain_controls \<Rightarrow> dict list" where
  "dc_items dc = concat (map (\<lambda>e. concat (map snd (snd e))) dc)"

text \<open>An example: two pass, one partial and one fail finding mapped to one framework
  control of the domain IAM; the domain LOG has a control and no findings.\<close>

definition example_items :: "dict list" where
  "example_items =
     [[(''sbs_control_id'', JStr ''A''), (''status'', JStr ''pass''),
       (''sscf_control_ids'', JArr [JStr ''SSCF-IAM-001''])],
      [(''sbs_control_id'', JStr ''B''), (''status'', JStr ''pass''),
       (''sscf_control_ids'', JArr [JStr ''SSCF-IAM-001''])],
      [(''sbs_control_id'', JStr ''C''), (''status'', JStr ''partial''),
       (''sscf_control_ids'', JArr [JStr ''SSCF-IAM-001''])],
      [(''sbs_control_id'', JStr ''D''), (''status'', JStr ''fail''),
       (''sscf_control_ids'', JArr [JStr ''SSCF-IAM-001''])]]"

definition example_backlog :: dict where
  "example_backlog =
     [(''assessment_id'', JStr ''a-1''), (''mapped_items'', JArr (map JObj example_items))]"

definition example_index :: "sscf_control list" where
  "example_index =
     [\<lparr>sscf_control_id = ''SSCF-IAM-001'', domain = ''IAM'', title = JStr ''Identity'',
       owner_team = JStr ''IAM team''\<rparr>,
      \<lparr>sscf_control_id = ''SSCF-LOG-001'', domain = ''LOG'', title = JStr ''Logging'',
       owner_team = JStr ''SecOps''\<rparr>]"

text \<open>The items of one domain of the grouping, and the number of scoreable items (the
  items whose status is pass, partial or fail).\<close>

definition domain_items :: "string \<times> (string \<times> dict list) list \<Rightarrow> dict list" where
  "domain_items entry = concat (map snd (snd entry))"

definition scoreable :: "dict list \<Rightarrow> nat" where
  "scoreable items =
     count_status ''pass'' items + count_status ''partial'' items + count_status ''fail'' items"

text \<open>A grouping all of whose items have a hashable status.\<close>

definition dc_ok :: "domain_controls \<Rightarrow> bool" where
  "dc_ok dc = list_all (\<lambda>e. list_all (\<lambda>c. list_all status_ok (snd c)) (snd e)) dc"

text \<open>A backlog whose only finding is not applicable.\<close>

definition na_item :: dict where
  "na_item = [(''sbs_control_id'', JStr ''A''), (''status'', JStr ''not_applicable''),
              (''sscf_control_ids'', JArr [JStr ''SSCF-IAM-001''])]"

definition na_backlog :: dict where
  "na_backlog = [(''assessment_id'', JStr ''a-2''), (''mapped_items'', JArr [JObj na_item])]"

subsection \<open>Orchestration loop\<close>

text \<open>A finding that is critical and failed, and a well-formed entry of the findings
  list: an object that, when it is critical and failed, has a \<open>control_id\<close>.\<close>

definition is_critical_fail :: "json \<Rightarrow> bool" where
  "is_critical_fail f =
     (case f of
        JObj d \<Rightarrow> dict_get d ''status'' JNull = JStr ''fail''
                  \<and> dict_get d ''severity'' JNull = JStr ''critical''
      | _ \<Rightarrow> False)"

definition has_control_id :: "json \<Rightarrow> bool" where
  "has_control_id f = (case f of JObj d \<Rightarrow> map_of d ''control_id'' \<noteq> None | _ \<Rightarrow> False)"

definition entry_ok :: "json \<Rightarrow> bool" where
  "entry_ok f =
     (case f of
        JObj d \<Rightarrow> if is_critical_fail f then has_control_id f else True
      | _ \<Rightarrow> False)"

definition control_id_of :: "json \<Rightarrow> json" where
  "control_id_of f = (case f of JObj d \<Rightarrow> dict_get d ''control_id'' JNull | _ \<Rightarrow> JNull)"

text \<open>The findings of a well-formed artifact: the document is an object whose
  \<open>findings\<close> can be iterated and are well-formed entries. There are none otherwise.\<close>

definition artifact_findings :: "json \<Rightarrow> json list option" where
  "artifact_findings data =
     (case data of
        JObj d \<Rightarrow>
          (case py_iter (dict_get d ''findings'' (JArr [])) of
             Inl e \<Rightarrow> None
           | Inr fs \<Rightarrow> if list_all entry_ok fs then Some fs else None)
      | _ \<Rightarrow> None)"

definition well_formed :: "stored \<Rightarrow> bool" where
  "well_formed fl =
     (case fl of
        Readable (Dumps data) \<Rightarrow> artifact_findings data \<noteq> None
      | _ \<Rightarrow> False)"

text \<open>The tracked path is unset, or names no file, or names a file that cannot be read,
  does not parse or lacks well-formed findings entries.\<close>

definition artifact_unusable :: "fs \<Rightarrow> json \<Rightarrow> bool" where
  "artifact_unusable w p =
     (case p of
        JNull \<Rightarrow> True
      | JStr path \<Rightarrow>
          (if path = [] then True
           else case w path of None \<Rightarrow> True | Some fl \<Rightarrow> \<not> well_formed fl)
      | _ \<Rightarrow> False)"

text \<open>A tracked path that \<open>Path\<close> accepts: unset, or a string.\<close>

definition path_like :: "json \<Rightarrow> bool" where
  "path_like p = (case p of JNull \<Rightarrow> True | JStr path \<Rightarrow> True | _ \<Rightarrow> False)"

text \<open>The conversation a run starts with.\<close>

definition first_messages :: "run_env \<Rightarrow> string \<Rightarrow> string \<Rightarrow> bool \<Rightarrow> string option \<Rightarrow> message list" where
  "first_messages e env org dry_run task =
     [UserText (user_content e
        (case task of None \<Rightarrow> default_task org env dry_run | Some t \<Rightarrow> t))]"

text \<open>The iterations of the message loop. A configuration is the number of iterations that
  remain, the loop variable, the tracked state, the file system and the conversation;
  \<open>loop_reaches cl disp c c'\<close> holds when the loop started in \<open>c\<close> stands in \<open>c'\<close> at the
  head of an iteration.\<close>

type_synonym config = "nat \<times> nat \<times> loop_state \<times> fs \<times> message list"

inductive loop_reaches :: "client \<Rightarrow> dispatch \<Rightarrow> config \<Rightarrow> config \<Rightarrow> bool"
  for cl :: client and disp :: dispatch and c :: config where
  start: "loop_reaches cl disp c c"
| turn: "loop_reaches cl disp c (Suc n, t, st, w, messages) \<Longrightarrow>
         cl messages = Inr resp \<Longrightarrow>
         stop_reason resp = ''tool_use'' \<Longrightarrow>
         process_blocks disp (content resp) (st\<lparr>turns := t + 1\<rparr>, w, []) = Inr (st2, w2, tool_results) \<Longrightarrow>
         loop_reaches cl disp c
           (n, t + 1, st2, w2,
            messages @ [AssistantTurn (content resp), ToolResults tool_results])"

definition run_from :: "client \<Rightarrow> dispatch \<Rightarrow> config \<Rightarrow> exn + (loop_state \<times> fs)" where
  "run_from cl disp c = (case c of (n, t, st, w, messages) \<Rightarrow> run_turns cl disp n t st w messages)"

text \<open>The error payload handed to the model for a failed downstream tool.\<close>

definition error_payload :: "string \<Rightarrow> string \<Rightarrow> jtext" where
  "error_payload tool_name error =
     Dumps (JObj [(''status'', JStr ''error''), (''tool'', JStr tool_name),
                  (''message'', JStr error)])"

text \<open>Example runs. The model asks for one tool and ends its turn once it has the result;
  the tool writes a file and reports its path, or fails.\<close>

definition asking_client :: "string \<Rightarrow> client" where
  "asking_client tool_name messages =
     (if length messages = 1
      then Inr \<lparr>stop_reason = ''tool_use'', content = [ToolUse ''call-1'' tool_name (JObj [])]\<rparr>
      else Inr \<lparr>stop_reason = ''end_turn'', content = [TextBlock ''done'']\<rparr>)"

definition writing_dispatch :: "stored \<Rightarrow> dispatch" where
  "writing_dispatch fl w tool_name tool_input =
     (Inr (Dumps (JObj [(''output_file'', JStr ''gap_analysis.json'')])),
      w(''gap_analysis.json'' \<mapsto> fl))"

definition failing_dispatch :: dispatch where
  "failing_dispatch w tool_name tool_input = (Inl ''exit 1'', w)"

definition empty_fs :: fs where
  "empty_fs = (\<lambda>path. None)"

definition example_env :: run_env where
  "example_env = \<lparr>anthropic_installed = True, memory = None\<rparr>"

definition critical_finding :: json where
  "critical_finding =
     JObj [(''control_id'', JStr ''SBS-AUTH-001''), (''status'', JStr ''fail''),
           (''severity'', JStr ''critical'')]"

definition good_artifact :: json where
  "good_artifact = JObj [(''findings'', JArr [critical_finding])]"

definition bad_artifact :: json where
  "bad_artifact = JObj [(''findings'', JArr [critical_finding, JNull])]"

section \<open>Lemmas: the exception monad and the rules\<close>

lemma bnd_Inr_simp [simp]: "bnd (Inr x) f = f x"
  by (simp add: bnd_def)

lemma bnd_Inl_simp [simp]: "bnd (Inl e) f = Inl e"
  by (simp add: bnd_def)

lemma bnd_eq_Inr: "bnd m f = Inr y \<Longrightarrow> \<exists>x. m = Inr x \<and> f x = Inr y"
  by (cases m) auto

lemma mapM_Inr_length: "mapM f xs = Inr ys \<Longrightarrow> length ys = length xs"
  by (induction xs arbitrary: ys) (auto dest!: bnd_eq_Inr)

lemma mapM_Inr_nth: "mapM f xs = Inr ys \<Longrightarrow> i < length xs \<Longrightarrow> f (xs ! i) = Inr (ys ! i)"
proof (induction xs arbitrary: ys i)
  case Nil
  then show ?case by simp
next
  case (Cons x xs)
  from Cons.prems(1) obtain y ys' where y: "f x = Inr y" and ys': "mapM f xs = Inr ys'"
    and ys: "ys = y # ys'"
    by (auto dest!: bnd_eq_Inr)
  show ?case
  proof (cases i)
    case 0
    then show ?thesis using y ys by simp
  next
    case (Suc j)
    then show ?thesis using Cons.IH[OF ys', of j] Cons.prems(2) ys by simp
  qed
qed

lemma mapM_total: "(\<And>x. x \<in> set xs \<Longrightarrow> \<exists>y. f x = Inr y) \<Longrightarrow> \<exists>ys. mapM f xs = Inr ys"
proof (induction xs)
  case Nil
  then show ?case by simp
next
  case (Cons x xs)
  then obtain y where "f x = Inr y" by force
  moreover from Cons obtain ys where "mapM f xs = Inr ys" by force
  ultimately show ?case by simp
qed

lemma valid_simps: "''pass'' \<in> VALID_STATUSES" "''fail'' \<in> VALID_STATUSES"
  "''partial'' \<in> VALID_STATUSES" "''not_applicable'' \<in> VALID_STATUSES"
  by (simp_all add: VALID_STATUSES_def)

lemma finding_ok_mk: "st \<in> VALID_STATUSES \<Longrightarrow> finding_ok cid (mk_finding (JStr cid) st sev obs rem)"
  by (simp add: finding_ok_def mk_finding_def)

lemma finding_ok_na: "finding_ok cid (na (JStr cid) sev reason)"
  by (simp add: finding_ok_def na_def mk_finding_def valid_simps)

lemmas ok_simps = Let_def finding_ok_mk finding_ok_na valid_simps

lemma ok_auth_001: "rule_ok ''SBS-AUTH-001'' rule_auth_001"
  unfolding rule_ok_def rule_auth_001_def
  by (auto simp: ok_simps dest!: bnd_eq_Inr split: if_splits)
lemma ok_auth_002: "rule_ok ''SBS-AUTH-002'' rule_auth_002"
  unfolding rule_ok_def rule_auth_002_def
  by (auto simp: ok_simps dest!: bnd_eq_Inr split: if_splits)
lemma ok_auth_003: "rule_ok ''SBS-AUTH-003'' rule_auth_003"
  unfolding rule_ok_def rule_auth_003_def
  by (auto simp: ok_simps dest!: bnd_eq_Inr split: if_splits)
lemma ok_auth_004: "rule_ok ''SBS-AUTH-004'' rule_auth_004"
  unfolding rule_ok_def rule_auth_004_def
  by (auto simp: ok_simps dest!: bnd_eq_Inr split: if_splits)
lemma ok_acs_001: "rule_ok ''SBS-ACS-001'' rule_acs_001"
  unfolding rule_ok_def rule_acs_001_def
  by (auto simp: ok_simps dest!: bnd_eq_Inr split: if_splits)
lemma ok_acs_002: "rule_ok ''SBS-ACS-002'' rule_acs_002"
  unfolding rule_ok_def rule_acs_002_def
  by (auto simp: ok_simps dest!: bnd_eq_Inr split: if_splits)
lemma ok_acs_003: "rule_ok ''SBS-ACS-003'' rule_acs_003"
  unfolding rule_ok_def rule_acs_003_def
  by (auto simp: ok_simps dest!: bnd_eq_Inr split: if_splits)
lemma ok_acs_004: "rule_ok ''SBS-ACS-004'' rule_acs_004"
  unfolding rule_ok_def rule_acs_004_def
  by (auto simp: ok_simps dest!: bnd_eq_Inr split: if_splits)
lemma ok_acs_structural: "rule_ok cid (rule_acs_structural cid sev)"
  unfolding rule_ok_def rule_acs_structural_def
  by (auto simp: ok_simps dest!: bnd_eq_Inr split: if_splits)
lemma ok_int_002: "rule_ok ''SBS-INT-002'' rule_int_002"
  unfolding rule_ok_def rule_int_002_def
  by (auto simp: ok_simps dest!: bnd_eq_Inr split: if_splits)
lemma ok_int_003: "rule_ok ''SBS-INT-003'' rule_int_003"
  unfolding rule_ok_def rule_int_003_def
  by (auto simp: ok_simps dest!: bnd_eq_Inr split: if_splits)
lemma ok_int_004: "rule_ok ''SBS-INT-004'' rule_int_004"
  unfolding rule_ok_def rule_int_004_def
  by (auto simp: ok_simps dest!: bnd_eq_Inr split: if_splits)
lemma ok_oauth_001: "rule_ok ''SBS-OAUTH-001'' rule_oauth_001"
  unfolding rule_ok_def rule_oauth_001_def
  by (auto simp: ok_simps dest!: bnd_eq_Inr split: if_splits)
lemma ok_oauth_002: "rule_ok ''SBS-OAUTH-002'' rule_oauth_002"
  unfolding rule_ok_def rule_oauth_002_def
  by (auto simp: ok_simps dest!: bnd_eq_Inr split: if_splits)
lemma ok_oauth_structural: "rule_ok cid (rule_oauth_structural cid sev)"
  unfolding rule_ok_def rule_oauth_structural_def
  by (auto simp: ok_simps dest!: bnd_eq_Inr split: if_splits)
lemma ok_data_004: "rule_ok ''SBS-DATA-004'' rule_data_004"
  unfolding rule_ok_def rule_data_004_def
  by (auto simp: ok_simps dest!: bnd_eq_Inr split: if_splits)
lemma ok_data_structural: "rule_ok cid (rule_data_structural cid sev)"
  unfolding rule_ok_def rule_data_structural_def
  by (auto simp: ok_simps dest!: bnd_eq_Inr split: if_splits)
lemma ok_secconf_001: "rule_ok ''SBS-SECCONF-001'' rule_secconf_001"
  unfolding rule_ok_def rule_secconf_001_def
  by (auto simp: ok_simps dest!: bnd_eq_Inr split: if_splits)
lemma ok_secconf_002: "rule_ok ''SBS-SECCONF-002'' rule_secconf_002"
  unfolding rule_ok_def rule_secconf_002_def
  by (auto simp: ok_simps dest!: bnd_eq_Inr split: if_splits)
lemma ok_dep_003: "rule_ok ''SBS-DEP-003'' rule_dep_003"
  unfolding rule_ok_def rule_dep_003_def
  by (auto simp: ok_simps dest!: bnd_eq_Inr split: if_splits)
lemma ok_not_collectable: "rule_ok cid (rule_not_collectable cid sev reason)"
  unfolding rule_ok_def rule_not_collectable_def
  by (auto simp: ok_simps)

lemmas rule_oks = ok_auth_001 ok_auth_002 ok_auth_003 ok_auth_004 ok_acs_001 ok_acs_002
  ok_acs_003 ok_acs_004 ok_acs_structural ok_int_002 ok_int_003 ok_int_004 ok_oauth_001
  ok_oauth_002 ok_oauth_structural ok_data_004 ok_data_structural ok_secconf_001
  ok_secconf_002 ok_dep_003 ok_not_collectable

lemma RULES_table_ok: "list_all (\<lambda>kr. rule_ok (fst kr) (snd kr)) RULES_table"
  unfolding RULES_table_def by (simp add: rule_oks)

lemma RULES_ok: "RULES cid = Some r \<Longrightarrow> rule_ok cid r"
proof -
  assume "RULES cid = Some r"
  then have "(cid, r) \<in> set RULES_table"
    unfolding RULES_def by (rule map_of_SomeD)
  with RULES_table_ok show ?thesis
    by (auto simp: list_all_iff)
qed

lemma soql_ok_empty: "soql_ok (JObj [])"
  by (simp add: soql_ok_def dict_get_def int_like_def)

lemma dict_get_in: "dict_get d k dflt = dflt \<or> (k, dict_get d k dflt) \<in> set d"
  by (auto simp: dict_get_def dest: map_of_SomeD split: option.splits)

lemma scope_cases:
  assumes "raw_ok raw"
  shows "\<not> truthy (scope raw s)
         \<or> (\<exists>d. scope raw s = JObj d \<and> (\<forall>k. soql_ok (dict_get d k (JObj []))))"
proof (cases "map_of raw s")
  case None
  show ?thesis
  proof (cases "raw = []")
    case True
    with None show ?thesis by (simp add: scope_def)
  next
    case False
    have "soql_ok (dict_get raw k (JObj []))" for k
      using dict_get_in[of raw k "JObj []"] assms soql_ok_empty
      by (auto simp: raw_ok_def list_all_iff)
    with None False show ?thesis by (simp add: scope_def)
  qed
next
  case (Some v)
  then have "(s, v) \<in> set raw" by (rule map_of_SomeD)
  with assms have sv: "scope_ok v" by (auto simp: raw_ok_def list_all_iff)
  show ?thesis
  proof (cases "truthy v")
    case False
    with Some show ?thesis by (simp add: scope_def)
  next
    case True
    with sv obtain d where d: "v = JObj d" and all: "list_all (\<lambda>kv. soql_ok (snd kv)) d"
      by (auto simp: scope_ok_def split: json.splits)
    have "soql_ok (dict_get d k (JObj []))" for k
      using dict_get_in[of d k "JObj []"] all soql_ok_empty
      by (auto simp: list_all_iff)
    with Some d show ?thesis by (simp add: scope_def)
  qed
qed

lemma total_ok: "soql_ok v \<Longrightarrow> \<exists>n. total v = Inr n"
  by (auto simp: soql_ok_def total_def int_like_def split: json.splits sum.splits)

lemma records_ok: "soql_ok v \<Longrightarrow> \<exists>rs. records v = Inr rs \<and> list_all record_ok rs"
  by (auto simp: soql_ok_def records_def split: json.splits sum.splits)

lemma py_less_ok: "number_like v \<Longrightarrow> \<exists>b. py_less v k = Inr b"
  by (cases v) (auto simp: number_like_def)

lemma score_less_ok:
  "list_all record_ok rs \<Longrightarrow> rs \<noteq> [] \<Longrightarrow> \<exists>b. py_less (dict_get (hd rs) ''Score'' (JInt 0)) k = Inr b"
  by (cases rs) (auto simp: record_ok_def intro: py_less_ok)

lemma is_str_hashable: "is_str v \<Longrightarrow> hashable v"
  by (cases v) auto

lemma event_types_str:
  "list_all record_ok rs \<Longrightarrow>
   list_all is_str (filter truthy (map (\<lambda>r. dict_get r ''EventType'' JNull) rs))"
  by (induction rs) (auto simp: record_ok_def Let_def)

lemma event_types_hashable:
  "list_all record_ok rs \<Longrightarrow>
   list_all hashable (filter truthy (map (\<lambda>r. dict_get r ''EventType'' JNull) rs))"
  using event_types_str[of rs] by (auto simp: list_all_iff intro: is_str_hashable)

lemma rule_total_scope:
  assumes absent: "\<And>raw. \<not> truthy (scope raw s) \<Longrightarrow> \<exists>f. r raw = Inr f"
  assumes present: "\<And>raw d. scope raw s = JObj d \<Longrightarrow>
      (\<And>k. \<exists>n. total (dict_get d k (JObj [])) = Inr n) \<Longrightarrow>
      (\<And>k. \<exists>rs. records (dict_get d k (JObj [])) = Inr rs \<and> list_all record_ok rs) \<Longrightarrow>
      \<exists>f. r raw = Inr f"
  shows "rule_total r"
  unfolding rule_total_def
proof (intro allI impI)
  fix raw assume "raw_ok raw"
  from scope_cases[OF this, of s] show "\<exists>f. r raw = Inr f"
  proof
    assume "\<not> truthy (scope raw s)"
    then show ?thesis by (rule absent)
  next
    assume "\<exists>d. scope raw s = JObj d \<and> (\<forall>k. soql_ok (dict_get d k (JObj [])))"
    then obtain d where d: "scope raw s = JObj d"
      and ok: "\<And>k. soql_ok (dict_get d k (JObj []))" by blast
    show ?thesis
      by (rule present[OF d]) (use ok total_ok records_ok in blast)+
  qed
qed

lemma scope_rule_auth_001: "scope_rule ''SBS-AUTH-001'' ''auth'' rule_auth_001"
  unfolding scope_rule_def rule_auth_001_def
  by (auto simp: Let_def mk_finding_def dest!: bnd_eq_Inr split: if_splits)

lemma total_auth_001: "rule_total rule_auth_001"
proof (rule rule_total_scope[where s = "''auth''"])
  fix raw assume "\<not> truthy (scope raw ''auth'')"
  then show "\<exists>f. rule_auth_001 raw = Inr f" by (simp add: rule_auth_001_def)
next
  fix raw d
  assume d: "scope raw ''auth'' = JObj d"
    and tot: "\<And>k. \<exists>n. total (dict_get d k (JObj [])) = Inr n"
    and recs: "\<And>k. \<exists>rs. records (dict_get d k (JObj [])) = Inr rs \<and> list_all record_ok rs"
  from recs[of "''sso_providers''"] d show "\<exists>f. rule_auth_001 raw = Inr f"
    by (auto simp: rule_auth_001_def Let_def)
qed

lemma scope_rule_auth_002: "scope_rule ''SBS-AUTH-002'' ''auth'' rule_auth_002"
  unfolding scope_rule_def rule_auth_002_def
  by (auto simp: Let_def mk_finding_def dest!: bnd_eq_Inr split: if_splits)

lemma total_auth_002: "rule_total rule_auth_002"
proof (rule rule_total_scope[where s = "''auth''"])
  fix raw assume "\<not> truthy (scope raw ''auth'')"
  then show "\<exists>f. rule_auth_002 raw = Inr f" by (simp add: rule_auth_002_def)
next
  fix raw d
  assume d: "scope raw ''auth'' = JObj d"
    and tot: "\<And>k. \<exists>n. total (dict_get d k (JObj [])) = Inr n"
    and recs: "\<And>k. \<exists>rs. records (dict_get d k (JObj [])) = Inr rs \<and> list_all record_ok rs"
  from recs[of "''sso_providers''"] tot[of "''login_ip_ranges''"] d show "\<exists>f. rule_auth_002 raw = Inr f"
    by (auto simp: rule_auth_002_def Let_def)
qed

lemma scope_rule_auth_003: "scope_rule ''SBS-AUTH-003'' ''auth'' rule_auth_003"
  unfolding scope_rule_def rule_auth_003_def
  by (auto simp: Let_def mk_finding_def dest!: bnd_eq_Inr split: if_splits)

lemma total_auth_003: "rule_total rule_auth_003"
proof (rule rule_total_scope[where s = "''auth''"])
  fix raw assume "\<not> truthy (scope raw ''auth'')"
  then show "\<exists>f. rule_auth_003 raw = Inr f" by (simp add: rule_auth_003_def)
next
  fix raw d
  assume d: "scope raw ''auth'' = JObj d"
    and tot: "\<And>k. \<exists>n. total (dict_get d k (JObj [])) = Inr n"
    and recs: "\<And>k. \<exists>rs. records (dict_get d k (JObj [])) = Inr rs \<and> list_all record_ok rs"
  from tot[of "''login_ip_ranges''"] d show "\<exists>f. rule_auth_003 raw = Inr f"
    by (auto simp: rule_auth_003_def Let_def)
qed

lemma scope_rule_auth_004: "scope_rule ''SBS-AUTH-004'' ''auth'' rule_auth_004"
  unfolding scope_rule_def rule_auth_004_def
  by (auto simp: Let_def mk_finding_def dest!: bnd_eq_Inr split: if_splits)

lemma total_auth_004: "rule_total rule_auth_004"
proof (rule rule_total_scope[where s = "''auth''"])
  fix raw assume "\<not> truthy (scope raw ''auth'')"
  then show "\<exists>f. rule_auth_004 raw = Inr f" by (simp add: rule_auth_004_def)
next
  fix raw d
  assume d: "scope raw ''auth'' = JObj d"
    and tot: "\<And>k. \<exists>n. total (dict_get d k (JObj [])) = Inr n"
    and recs: "\<And>k. \<exists>rs. records (dict_get d k (JObj [])) = Inr rs \<and> list_all record_ok rs"
  from recs[of "''mfa_org_settings''"] d show "\<exists>f. rule_auth_004 raw = Inr f"
    by (auto simp: rule_auth_004_def Let_def)
qed

lemma scope_rule_acs_001: "scope_rule ''SBS-ACS-001'' ''access'' rule_acs_001"
  unfolding scope_rule_def rule_acs_001_def
  by (auto simp: Let_def mk_finding_def dest!: bnd_eq_Inr split: if_splits)

lemma total_acs_001: "rule_total rule_acs_001"
proof (rule rule_total_scope[where s = "''access''"])
  fix raw assume "\<not> truthy (scope raw ''access'')"
  then show "\<exists>f. rule_acs_001 raw = Inr f" by (simp add: rule_acs_001_def)
next
  fix raw d
  assume d: "scope raw ''access'' = JObj d"
    and tot: "\<And>k. \<exists>n. total (dict_get d k (JObj [])) = Inr n"
    and recs: "\<And>k. \<exists>rs. records (dict_get d k (JObj [])) = Inr rs \<and> list_all record_ok rs"
  from tot[of "''admin_profiles''"] d show "\<exists>f. rule_acs_001 raw = Inr f"
    by (auto simp: rule_acs_001_def Let_def)
qed

lemma scope_rule_acs_002: "scope_rule ''SBS-ACS-002'' ''access'' rule_acs_002"
  unfolding scope_rule_def rule_acs_002_def
  by (auto simp: Let_def mk_finding_def dest!: bnd_eq_Inr split: if_splits)

lemma total_acs_002: "rule_total rule_acs_002"
proof (rule rule_total_scope[where s = "''access''"])
  fix raw assume "\<not> truthy (scope raw ''access'')"
  then show "\<exists>f. rule_acs_002 raw = Inr f" by (simp add: rule_acs_002_def)
next
  fix raw d
  assume d: "scope raw ''access'' = JObj d"
    and tot: "\<And>k. \<exists>n. total (dict_get d k (JObj [])) = Inr n"
    and recs: "\<And>k. \<exists>rs. records (dict_get d k (JObj [])) = Inr rs \<and> list_all record_ok rs"
  from tot[of "''elevated_permission_sets''"] d show "\<exists>f. rule_acs_002 raw = Inr f"
    by (auto simp: rule_acs_002_def Let_def)
qed

lemma scope_rule_acs_003: "scope_rule ''SBS-ACS-003'' ''access'' rule_acs_003"
  unfolding scope_rule_def rule_acs_003_def
  by (auto simp: Let_def mk_finding_def dest!: bnd_eq_Inr split: if_splits)

lemma total_acs_003: "rule_total rule_acs_003"
proof (rule rule_total_scope[where s = "''access''"])
  fix raw assume "\<not> truthy (scope raw ''access'')"
  then show "\<exists>f. rule_acs_003 raw = Inr f" by (simp add: rule_acs_003_def)
next
  fix raw d
  assume d: "scope raw ''access'' = JObj d"
    and tot: "\<And>k. \<exists>n. total (dict_get d k (JObj [])) = Inr n"
    and recs: "\<And>k. \<exists>rs. records (dict_get d k (JObj [])) = Inr rs \<and> list_all record_ok rs"
  from recs[of "''connected_apps''"] d show "\<exists>f. rule_acs_003 raw = Inr f"
    by (auto simp: rule_acs_003_def Let_def)
qed

lemma scope_rule_acs_004: "scope_rule ''SBS-ACS-004'' ''access'' rule_acs_004"
  unfolding scope_rule_def rule_acs_004_def
  by (auto simp: Let_def mk_finding_def dest!: bnd_eq_Inr split: if_splits)

lemma total_acs_004: "rule_total rule_acs_004"
proof (rule rule_total_scope[where s = "''access''"])
  fix raw assume "\<not> truthy (scope raw ''access'')"
  then show "\<exists>f. rule_acs_004 raw = Inr f" by (simp add: rule_acs_004_def)
next
  fix raw d
  assume d: "scope raw ''access'' = JObj d"
    and tot: "\<And>k. \<exists>n. total (dict_get d k (JObj [])) = Inr n"
    and recs: "\<And>k. \<exists>rs. records (dict_get d k (JObj [])) = Inr rs \<and> list_all record_ok rs"
  from recs[of "''admin_profiles''"] d show "\<exists>f. rule_acs_004 raw = Inr f"
    by (auto simp: rule_acs_004_def Let_def)
qed

lemma scope_rule_int_002: "scope_rule ''SBS-INT-002'' ''integrations'' rule_int_002"
  unfolding scope_rule_def rule_int_002_def
  by (auto simp: Let_def mk_finding_def dest!: bnd_eq_Inr split: if_splits)

lemma total_int_002: "rule_total rule_int_002"
proof (rule rule_total_scope[where s = "''integrations''"])
  fix raw assume "\<not> truthy (scope raw ''integrations'')"
  then show "\<exists>f. rule_int_002 raw = Inr f" by (simp add: rule_int_002_def)
next
  fix raw d
  assume d: "scope raw ''integrations'' = JObj d"
    and tot: "\<And>k. \<exists>n. total (dict_get d k (JObj [])) = Inr n"
    and recs: "\<And>k. \<exists>rs. records (dict_get d k (JObj [])) = Inr rs \<and> list_all record_ok rs"
  from recs[of "''remote_site_settings''"] d show "\<exists>f. rule_int_002 raw = Inr f"
    by (auto simp: rule_int_002_def Let_def)
qed

lemma scope_rule_int_003: "scope_rule ''SBS-INT-003'' ''integrations'' rule_int_003"
  unfolding scope_rule_def rule_int_003_def
  by (auto simp: Let_def mk_finding_def dest!: bnd_eq_Inr split: if_splits)

lemma total_int_003: "rule_total rule_int_003"
proof (rule rule_total_scope[where s = "''integrations''"])
  fix raw assume "\<not> truthy (scope raw ''integrations'')"
  then show "\<exists>f. rule_int_003 raw = Inr f" by (simp add: rule_int_003_def)
next
  fix raw d
  assume d: "scope raw ''integrations'' = JObj d"
    and tot: "\<And>k. \<exists>n. total (dict_get d k (JObj [])) = Inr n"
    and recs: "\<And>k. \<exists>rs. records (dict_get d k (JObj [])) = Inr rs \<and> list_all record_ok rs"
  from recs[of "''named_credentials''"] d show "\<exists>f. rule_int_003 raw = Inr f"
    by (auto simp: rule_int_003_def Let_def)
qed

lemma scope_rule_int_004: "scope_rule ''SBS-INT-004'' ''event-monitoring'' rule_int_004"
  unfolding scope_rule_def rule_int_004_def
  by (auto simp: Let_def mk_finding_def dest!: bnd_eq_Inr split: if_splits)

lemma total_int_004: "rule_total rule_int_004"
proof (rule rule_total_scope[where s = "''event-monitoring''"])
  fix raw assume "\<not> truthy (scope raw ''event-monitoring'')"
  then show "\<exists>f. rule_int_004 raw = Inr f" by (simp add: rule_int_004_def)
next
  fix raw d
  assume d: "scope raw ''event-monitoring'' = JObj d"
    and tot: "\<And>k. \<exists>n. total (dict_get d k (JObj [])) = Inr n"
    and recs: "\<And>k. \<exists>rs. records (dict_get d k (JObj [])) = Inr rs \<and> list_all record_ok rs"
  from recs[of "''event_log_types''"] d show "\<exists>f. rule_int_004 raw = Inr f"
    by (auto simp: rule_int_004_def Let_def simp: event_types_str event_types_hashable)
qed

lemma scope_rule_oauth_001: "scope_rule ''SBS-OAUTH-001'' ''oauth'' rule_oauth_001"
  unfolding scope_rule_def rule_oauth_001_def
  by (auto simp: Let_def mk_finding_def dest!: bnd_eq_Inr split: if_splits)

lemma total_oauth_001: "rule_total rule_oauth_001"
proof (rule rule_total_scope[where s = "''oauth''"])
  fix raw assume "\<not> truthy (scope raw ''oauth'')"
  then show "\<exists>f. rule_oauth_001 raw = Inr f" by (simp add: rule_oauth_001_def)
next
  fix raw d
  assume d: "scope raw ''oauth'' = JObj d"
    and tot: "\<And>k. \<exists>n. total (dict_get d k (JObj [])) = Inr n"
    and recs: "\<And>k. \<exists>rs. records (dict_get d k (JObj [])) = Inr rs \<and> list_all record_ok rs"
  from recs[of "''connected_app_oauth_policies''"] d show "\<exists>f. rule_oauth_001 raw = Inr f"
    by (auto simp: rule_oauth_001_def Let_def)
qed

lemma scope_rule_oauth_002: "scope_rule ''SBS-OAUTH-002'' ''oauth'' rule_oauth_002"
  unfolding scope_rule_def rule_oauth_002_def
  by (auto simp: Let_def mk_finding_def dest!: bnd_eq_Inr split: if_splits)

lemma total_oauth_002: "rule_total rule_oauth_002"
proof (rule rule_total_scope[where s = "''oauth''"])
  fix raw assume "\<not> truthy (scope raw ''oauth'')"
  then show "\<exists>f. rule_oauth_002 raw = Inr f" by (simp add: rule_oauth_002_def)
next
  fix raw d
  assume d: "scope raw ''oauth'' = JObj d"
    and tot: "\<And>k. \<exists>n. total (dict_get d k (JObj [])) = Inr n"
    and recs: "\<And>k. \<exists>rs. records (dict_get d k (JObj [])) = Inr rs \<and> list_all record_ok rs"
  from recs[of "''connected_app_oauth_policies''"] d show "\<exists>f. rule_oauth_002 raw = Inr f"
    by (auto simp: rule_oauth_002_def Let_def)
qed

lemma scope_rule_data_004: "scope_rule ''SBS-DATA-004'' ''event-monitoring'' rule_data_004"
  unfolding scope_rule_def rule_data_004_def
  by (auto simp: Let_def mk_finding_def dest!: bnd_eq_Inr split: if_splits)

lemma total_data_004: "rule_total rule_data_004"
proof (rule rule_total_scope[where s = "''event-monitoring''"])
  fix raw assume "\<not> truthy (scope raw ''event-monitoring'')"
  then show "\<exists>f. rule_data_004 raw = Inr f" by (simp add: rule_data_004_def)
next
  fix raw d
  assume d: "scope raw ''event-monitoring'' = JObj d"
    and tot: "\<And>k. \<exists>n. total (dict_get d k (JObj [])) = Inr n"
    and recs: "\<And>k. \<exists>rs. records (dict_get d k (JObj [])) = Inr rs \<and> list_all record_ok rs"
  from tot[of "''field_history_retention''"] d show "\<exists>f. rule_data_004 raw = Inr f"
    by (auto simp: rule_data_004_def Let_def)
qed

lemma scope_rule_secconf_001: "scope_rule ''SBS-SECCONF-001'' ''secconf'' rule_secconf_001"
  unfolding scope_rule_def rule_secconf_001_def
  by (auto simp: Let_def mk_finding_def dest!: bnd_eq_Inr split: if_splits)

lemma total_secconf_001: "rule_total rule_secconf_001"
proof (rule rule_total_scope[where s = "''secconf''"])
  fix raw assume "\<not> truthy (scope raw ''secconf'')"
  then show "\<exists>f. rule_secconf_001 raw = Inr f" by (simp add: rule_secconf_001_def)
next
  fix raw d
  assume d: "scope raw ''secconf'' = JObj d"
    and recs: "\<And>k. \<exists>rs. records (dict_get d k (JObj [])) = Inr rs \<and> list_all record_ok rs"
  from recs[of "''health_check''"] obtain rs where
    rs: "records (dict_get d ''health_check'' (JObj [])) = Inr rs" and ok: "list_all record_ok rs"
    by blast
  show "\<exists>f. rule_secconf_001 raw = Inr f"
  proof (cases "rs = []")
    case True
    with d rs show ?thesis by (auto simp: rule_secconf_001_def Let_def)
  next
    case False
    from score_less_ok[OF ok False, of 50] obtain b50 where
      b50: "py_less (dict_get (hd rs) ''Score'' (JInt 0)) 50 = Inr b50" by blast
    from score_less_ok[OF ok False, of 80] obtain b80 where
      b80: "py_less (dict_get (hd rs) ''Score'' (JInt 0)) 80 = Inr b80" by blast
    from d rs False b50 b80 show ?thesis by (auto simp: rule_secconf_001_def Let_def)
  qed
qed

lemma scope_rule_secconf_002: "scope_rule ''SBS-SECCONF-002'' ''secconf'' rule_secconf_002"
  unfolding scope_rule_def rule_secconf_002_def
  by (auto simp: Let_def mk_finding_def dest!: bnd_eq_Inr split: if_splits)

lemma total_secconf_002: "rule_total rule_secconf_002"
proof (rule rule_total_scope[where s = "''secconf''"])
  fix raw assume "\<not> truthy (scope raw ''secconf'')"
  then show "\<exists>f. rule_secconf_002 raw = Inr f" by (simp add: rule_secconf_002_def)
next
  fix raw d
  assume d: "scope raw ''secconf'' = JObj d"
    and recs: "\<And>k. \<exists>rs. records (dict_get d k (JObj [])) = Inr rs \<and> list_all record_ok rs"
  from recs[of "''health_check''"] obtain rs where
    rs: "records (dict_get d ''health_check'' (JObj [])) = Inr rs" and ok: "list_all record_ok rs"
    by blast
  show "\<exists>f. rule_secconf_002 raw = Inr f"
  proof (cases "rs = []")
    case True
    with d rs show ?thesis by (auto simp: rule_secconf_002_def Let_def)
  next
    case False
    from score_less_ok[OF ok False, of 50] obtain b50 where
      b50: "py_less (dict_get (hd rs) ''Score'' (JInt 0)) 50 = Inr b50" by blast
    from score_less_ok[OF ok False, of 80] obtain b80 where
      b80: "py_less (dict_get (hd rs) ''Score'' (JInt 0)) 80 = Inr b80" by blast
    from d rs False b50 b80 show ?thesis by (auto simp: rule_secconf_002_def Let_def)
  qed
qed

lemma scope_rule_dep_003: "scope_rule ''SBS-DEP-003'' ''transaction-security'' rule_dep_003"
  unfolding scope_rule_def rule_dep_003_def
  by (auto simp: Let_def mk_finding_def dest!: bnd_eq_Inr split: if_splits)

lemma total_dep_003: "rule_total rule_dep_003"
proof (rule rule_total_scope[where s = "''transaction-security''"])
  fix raw assume "\<not> truthy (scope raw ''transaction-security'')"
  then show "\<exists>f. rule_dep_003 raw = Inr f" by (simp add: rule_dep_003_def)
next
  fix raw d
  assume d: "scope raw ''transaction-security'' = JObj d"
    and tot: "\<And>k. \<exists>n. total (dict_get d k (JObj [])) = Inr n"
    and recs: "\<And>k. \<exists>rs. records (dict_get d k (JObj [])) = Inr rs \<and> list_all record_ok rs"
  from recs[of "''policies''"] d show "\<exists>f. rule_dep_003 raw = Inr f"
    by (auto simp: rule_dep_003_def Let_def)
qed

lemma scope_rule_acs_structural: "scope_rule cid ''access'' (rule_acs_structural cid sev)"
  unfolding scope_rule_def rule_acs_structural_def
  by (auto simp: Let_def mk_finding_def)

lemma total_acs_structural: "rule_total (rule_acs_structural cid sev)"
  unfolding rule_total_def rule_acs_structural_def by (simp add: Let_def)

lemma scope_rule_oauth_structural: "scope_rule cid ''oauth'' (rule_oauth_structural cid sev)"
  unfolding scope_rule_def rule_oauth_structural_def
  by (auto simp: Let_def mk_finding_def)

lemma total_oauth_structural: "rule_total (rule_oauth_structural cid sev)"
  unfolding rule_total_def rule_oauth_structural_def by (simp add: Let_def)

lemma total_data_structural: "rule_total (rule_data_structural cid sev)"
  unfolding rule_total_def rule_data_structural_def by simp

lemma total_not_collectable: "rule_total (rule_not_collectable cid sev reason)"
  unfolding rule_total_def rule_not_collectable_def by simp

lemma always_na_not_collectable: "reason \<noteq> [] \<Longrightarrow> always_na cid (rule_not_collectable cid sev reason)"
  unfolding always_na_def rule_not_collectable_def by blast

lemma always_partial_data_structural: "always_partial cid (rule_data_structural cid sev)"
  unfolding always_partial_def rule_data_structural_def by (simp add: mk_finding_def)

lemma reasons_nonempty: "CODE_NA \<noteq> []" "PORTAL_NA \<noteq> []" "DEP_NA \<noteq> []" "FILE_NA \<noteq> []" "FDNS_NA \<noteq> []"
  by (simp_all add: CODE_NA_def PORTAL_NA_def DEP_NA_def FILE_NA_def FDNS_NA_def)

lemmas scope_rules = scope_rule_auth_001 scope_rule_auth_002 scope_rule_auth_003
  scope_rule_auth_004 scope_rule_acs_001 scope_rule_acs_002 scope_rule_acs_003
  scope_rule_acs_004 scope_rule_acs_structural scope_rule_int_002 scope_rule_int_003
  scope_rule_int_004 scope_rule_oauth_001 scope_rule_oauth_002 scope_rule_oauth_structural
  scope_rule_data_004 scope_rule_secconf_001 scope_rule_secconf_002 scope_rule_dep_003

lemmas rule_totals = total_auth_001 total_auth_002 total_auth_003 total_auth_004
  total_acs_001 total_acs_002 total_acs_003 total_acs_004 total_acs_structural
  total_int_002 total_int_003 total_int_004 total_oauth_001 total_oauth_002
  total_oauth_structural total_data_004 total_data_structural total_secconf_001
  total_secconf_002 total_dep_003 total_not_collectable

lemma RULES_table_total: "list_all (\<lambda>kr. rule_total (snd kr)) RULES_table"
  unfolding RULES_table_def by (simp add: rule_totals)

text \<open>Table look-ups are computed once, by evaluation.\<close>

lemma scope_lookup: "list_all (\<lambda>e. rule_scope (fst e) = Some (snd e)) rule_scope_table"
  by code_simp

lemma data_structural_lookup:
  "list_all (\<lambda>cid. rule_scope cid = None) DATA_STRUCTURAL"
  by code_simp

lemma not_collectable_lookup:
  "list_all (\<lambda>cid. rule_scope cid = None \<and> cid \<notin> set DATA_STRUCTURAL) NOT_COLLECTABLE"
  by code_simp

lemma not_collectable_overrides:
  "list_all (\<lambda>cid. map_option fst (DRY_RUN_OVERRIDES cid) =
               (if cid = ''SBS-CODE-003'' then Some ''partial''
                else if cid = ''SBS-CODE-004'' then Some ''fail'' else None)) NOT_COLLECTABLE"
  by code_simp

lemmas kind_lookups =
  scope_lookup[unfolded rule_scope_table_def, simplified]
  data_structural_lookup[unfolded DATA_STRUCTURAL_def, simplified]
  not_collectable_lookup[unfolded NOT_COLLECTABLE_def, simplified]

lemma RULES_table_registered: "list_all (\<lambda>kr. registered_as (fst kr) (snd kr)) RULES_table"
  unfolding RULES_table_def
  by (simp add: registered_as_def kind_lookups scope_rules always_na_not_collectable
      always_partial_data_structural reasons_nonempty NOT_COLLECTABLE_def DATA_STRUCTURAL_def)

lemma RULES_in_table: "RULES cid = Some r \<Longrightarrow> (cid, r) \<in> set RULES_table"
  unfolding RULES_def by (rule map_of_SomeD)

lemma RULES_total: "RULES cid = Some r \<Longrightarrow> rule_total r"
  using RULES_table_total by (auto simp: list_all_iff dest!: RULES_in_table)

lemma RULES_registered: "RULES cid = Some r \<Longrightarrow> registered_as cid r"
  using RULES_table_registered by (auto simp: list_all_iff dest!: RULES_in_table)

lemma overrides_valid:
  "list_all (\<lambda>e. fst (snd e) \<in> VALID_STATUSES) DRY_RUN_OVERRIDES_table"
  unfolding DRY_RUN_OVERRIDES_table_def by (simp add: valid_simps)

lemma override_status_valid: "DRY_RUN_OVERRIDES cid = Some (st, obs, rem) \<Longrightarrow> st \<in> VALID_STATUSES"
proof -
  assume "DRY_RUN_OVERRIDES cid = Some (st, obs, rem)"
  then have "(cid, st, obs, rem) \<in> set DRY_RUN_OVERRIDES_table"
    unfolding DRY_RUN_OVERRIDES_def by (rule map_of_SomeD)
  with overrides_valid show ?thesis by (auto simp: list_all_iff)
qed

lemma raw_ok_empty: "raw_ok []"
  by (simp add: raw_ok_def)

text \<open>Whenever the loop body returns a finding, it is keyed by the entry's id and its
  status is valid.\<close>

lemma assess_control_sound:
  assumes "assess_control raw dry_run org env date_str c = Inr fd"
  shows "fd_control_id fd = entry_id c \<and> fd_status fd \<in> VALID_STATUSES"
proof -
  from assms obtain d where c: "c = JObj d"
    by (cases c) (auto simp: assess_control_def)
  define cid where "cid = dict_get d ''control_id'' (JStr [])"
  from assms c obtain sev rule f where
    rg: "rules_get cid = Inr rule"
    and f: "(case rule of
            None \<Rightarrow> Inr (na cid sev ''No assessment rule defined'')
          | Some r \<Rightarrow>
              (if dry_run then
                 (case overrides_get cid of
                    Some (st, observed, remed) \<Rightarrow> Inr (mk_finding cid st sev observed remed)
                  | None \<Rightarrow> r [])
               else r (case raw of None \<Rightarrow> [] | Some d \<Rightarrow> d))) = Inr f"
    and fd: "fd = to_dict f org env date_str"
    unfolding assess_control_def cid_def
    by (auto dest!: bnd_eq_Inr)
  have "control_id f = cid \<and> status f \<in> VALID_STATUSES"
  proof (cases rule)
    case None
    with f show ?thesis by (auto simp: na_def mk_finding_def valid_simps)
  next
    case (Some r)
    with rg obtain s where s: "cid = JStr s" and r: "RULES s = Some r"
      by (auto simp: rules_get_def split: if_splits json.splits)
    from RULES_ok[OF r] have ok: "\<And>raw f. r raw = Inr f \<Longrightarrow> finding_ok s f"
      by (auto simp: rule_ok_def)
    show ?thesis
    proof (cases "dry_run \<and> overrides_get cid \<noteq> None")
      case True
      then obtain st obs rem where ov: "overrides_get cid = Some (st, obs, rem)"
        by (cases "overrides_get cid") auto
      with s have "st \<in> VALID_STATUSES"
        by (auto simp: overrides_get_def dest: override_status_valid)
      with f Some True ov show ?thesis by (auto simp: mk_finding_def)
    next
      case False
      with f Some obtain raw' where "r raw' = Inr f"
        by (auto split: if_splits option.splits)
      from ok[OF this] s show ?thesis by (simp add: finding_ok_def)
    qed
  qed
  with fd c show ?thesis by (simp add: to_dict_def entry_id_def cid_def)
qed

lemma assess_control_total:
  assumes c: "catalog_entry_ok c" and raw: "dry_run \<or> raw_input_ok raw"
  shows "\<exists>fd. assess_control raw dry_run org env date_str c = Inr fd"
proof -
  from c obtain d where cd: "c = JObj d"
    and h: "hashable (dict_get d ''control_id'' (JStr []))"
    and rl: "\<not> truthy (dict_get d ''risk_level'' JNull) \<or> is_str (dict_get d ''risk_level'' JNull)"
    by (cases c) (auto simp: catalog_entry_ok_def Let_def)
  define cid where "cid = dict_get d ''control_id'' (JStr [])"
  from rl have "\<exists>sev. py_lower (if truthy (dict_get d ''risk_level'' JNull)
                               then dict_get d ''risk_level'' JNull
                               else JStr ''moderate'') = Inr sev"
    by (cases "dict_get d ''risk_level'' JNull") (simp_all add: py_lower_def)
  then obtain sev where sev:
    "py_lower (if truthy (dict_get d ''risk_level'' JNull) then dict_get d ''risk_level'' JNull
               else JStr ''moderate'') = Inr sev" ..
  from h have "\<exists>rule. rules_get cid = Inr rule"
    unfolding cid_def by (cases "dict_get d ''control_id'' (JStr [])") (simp_all add: rules_get_def)
  then obtain rule where rg: "rules_get cid = Inr rule" ..
  have "\<exists>f. (case rule of
            None \<Rightarrow> Inr (na cid sev ''No assessment rule defined'')
          | Some r \<Rightarrow>
              (if dry_run then
                 (case overrides_get cid of
                    Some (st, observed, remed) \<Rightarrow> Inr (mk_finding cid st sev observed remed)
                  | None \<Rightarrow> r [])
               else r (case raw of None \<Rightarrow> [] | Some d \<Rightarrow> d))) = Inr f"
  proof (cases rule)
    case None
    then show ?thesis by simp
  next
    case (Some r)
    with rg obtain s where "RULES s = Some r"
      by (auto simp: rules_get_def split: if_splits json.splits)
    from RULES_total[OF this] have tot: "\<And>raw. raw_ok raw \<Longrightarrow> \<exists>f. r raw = Inr f"
      by (auto simp: rule_total_def)
    show ?thesis
    proof (cases dry_run)
      case True
      with Some tot[OF raw_ok_empty] show ?thesis by (auto split: option.splits)
    next
      case False
      with raw have "raw_ok (case raw of None \<Rightarrow> [] | Some d \<Rightarrow> d)"
        by (auto simp: raw_input_ok_def raw_ok_empty split: option.splits)
      from tot[OF this] Some False show ?thesis by simp
    qed
  qed
  then obtain f where "(case rule of
            None \<Rightarrow> Inr (na cid sev ''No assessment rule defined'')
          | Some r \<Rightarrow>
              (if dry_run then
                 (case overrides_get cid of
                    Some (st, observed, remed) \<Rightarrow> Inr (mk_finding cid st sev observed remed)
                  | None \<Rightarrow> r [])
               else r (case raw of None \<Rightarrow> [] | Some d \<Rightarrow> d))) = Inr f" ..
  with cd sev rg show ?thesis
    unfolding assess_control_def cid_def by simp
qed

section \<open>The rule engine: one finding per control (C3)\<close>

text \<open>
  Claim C3, as amended. For every catalog list of well-typed entries and every raw scope
  input that is \<open>None\<close>, empty or made of well-typed SOQL results, and for every raw
  input in dry-run mode, \<open>run_assessment\<close> returns without raising exactly one finding
  per catalog entry, in catalog order, keyed by the entry's \<open>control_id\<close>, and every
  status is one of pass, fail, partial, not_applicable.
\<close>

theorem run_assessment_one_finding_per_control:
  assumes cat: "list_all catalog_entry_ok controls"
    and raw: "dry_run \<or> raw_input_ok raw"
  shows "\<exists>fs. run_assessment raw controls dry_run org env date_str = Inr fs
              \<and> length fs = length controls
              \<and> map fd_control_id fs = map entry_id controls
              \<and> list_all (\<lambda>f. fd_status f \<in> VALID_STATUSES) fs"
proof -
  let ?step = "assess_control raw dry_run org env date_str"
  have "\<exists>fd. ?step c = Inr fd" if "c \<in> set controls" for c
    using that cat raw by (auto simp: list_all_iff intro: assess_control_total)
  then obtain fs where fs: "mapM ?step controls = Inr fs"
    using mapM_total[of controls ?step] by blast
  have len: "length fs = length controls"
    using fs by (rule mapM_Inr_length)
  have nth: "fd_control_id (fs ! i) = entry_id (controls ! i) \<and> fd_status (fs ! i) \<in> VALID_STATUSES"
    if "i < length controls" for i
    using mapM_Inr_nth[OF fs that] by (rule assess_control_sound)
  have ids: "map fd_control_id fs = map entry_id controls"
    using len nth by (auto intro: nth_equalityI)
  have sts: "list_all (\<lambda>f. fd_status f \<in> VALID_STATUSES) fs"
    using len nth by (auto simp: list_all_length)
  from fs len ids sts show ?thesis
    by (simp add: run_assessment_def)
qed

text \<open>The claim as stated quantifies over every raw input. On a SOQL result whose
  \<open>totalSize\<close> is \<open>null\<close> the conversion \<open>int(None)\<close> raises and no finding is
  returned.\<close>

lemmas string_evals = lower_def lower_char_def upper_letters_def lower_letters_def
  upper_def upper_char_def

lemmas assess_evals = run_assessment_def assess_control_def rules_get_def overrides_get_def
  py_lower_def dict_get_def RULES_def RULES_table_def DRY_RUN_OVERRIDES_def
  DRY_RUN_OVERRIDES_table_def to_dict_def na_def mk_finding_def scope_def total_def
  records_def flag_def statuses_of_def

theorem run_assessment_raises_on_null_totalSize:
  "run_assessment
     (Some [(''access'', JObj [(''admin_profiles'', JObj [(''totalSize'', JNull)])])])
     [JObj [(''control_id'', JStr ''SBS-ACS-001'')]] False ''org'' ''dev'' ''2026-01-01''
   = Inl TypeError"
  by (simp add: assess_evals string_evals rule_acs_001_def)

theorem run_assessment_one_finding_per_control_witness:
  "list_all catalog_entry_ok example_catalog
   \<and> raw_input_ok (Some example_raw)
   \<and> (\<exists>fs. run_assessment (Some example_raw) example_catalog False ''org'' ''dev'' ''2026-01-01'' = Inr fs
            \<and> length fs = length example_catalog
            \<and> map fd_control_id fs = map entry_id example_catalog
            \<and> list_all (\<lambda>f. fd_status f \<in> VALID_STATUSES) fs)"
proof -
  have c: "list_all catalog_entry_ok example_catalog"
    by (simp add: example_catalog_def catalog_entry_ok_def dict_get_def)
  have r: "raw_input_ok (Some example_raw)"
    by (simp add: example_raw_def raw_input_ok_def raw_ok_def scope_ok_def soql_ok_def
        int_like_def record_ok_def number_like_def dict_get_def)
  from run_assessment_one_finding_per_control[OF c, of False "Some example_raw"] c r
  show ?thesis by simp
qed

lemma example_run:
  "statuses_of (run_assessment (Some example_raw) example_catalog False ''org'' ''dev'' ''2026-01-01'')
   = Inr [''pass'', ''not_applicable'']"
  by (simp add: assess_evals string_evals rule_auth_001_def example_raw_def example_catalog_def)

lemma no_scope_data_empty: "no_scope_data cid []"
  by (simp add: no_scope_data_def scope_def split: option.splits)

lemma registered_na:
  assumes reg: "registered_as cid r" and nds: "cid \<notin> set DATA_STRUCTURAL"
    and absent: "no_scope_data cid raw"
  shows "\<exists>f reason. r raw = Inr f \<and> control_id f = JStr cid \<and> status f = ''not_applicable''
                    \<and> reason \<noteq> [] \<and> observed_value f = [Lit reason]"
proof (cases "rule_scope cid")
  case (Some s)
  with reg have "scope_rule cid s r" by (simp add: registered_as_def)
  moreover from absent Some have "\<not> truthy (scope raw s)" by (simp add: no_scope_data_def)
  ultimately obtain sev where "r raw = Inr (na (JStr cid) sev default_reason)"
    unfolding scope_rule_def by blast
  then show ?thesis
    by (simp add: na_def mk_finding_def default_reason_def)
next
  case None
  with reg nds have "always_na cid r" by (simp add: registered_as_def)
  then obtain sev reason where "reason \<noteq> []" "r raw = Inr (na (JStr cid) sev reason)"
    unfolding always_na_def by blast
  then show ?thesis
    by (simp add: na_def mk_finding_def)
qed

section \<open>The rule engine: missing scope data (C4)\<close>

text \<open>
  Claim C4, as amended. For every control with a registered rule other than the three
  data-structural controls: when the collected data holds nothing for the scope the rule
  reads (the raw dict is empty, or its entry under the scope name is empty), the rule returns
  without raising a finding keyed by the control, with status not_applicable and a non-empty
  explanatory observed_value; in particular on the empty input dict. A not-collectable rule
  does so on every input.
\<close>

theorem rule_not_applicable_without_scope_data:
  assumes "RULES cid = Some r" and "cid \<notin> set DATA_STRUCTURAL"
  shows "(no_scope_data cid raw \<longrightarrow>
            (\<exists>f reason. r raw = Inr f \<and> control_id f = JStr cid
                \<and> status f = ''not_applicable'' \<and> reason \<noteq> [] \<and> observed_value f = [Lit reason]))
         \<and> (\<exists>f reason. r [] = Inr f \<and> control_id f = JStr cid
                \<and> status f = ''not_applicable'' \<and> reason \<noteq> [] \<and> observed_value f = [Lit reason])"
  using registered_na[OF RULES_registered[OF assms(1)] assms(2)] no_scope_data_empty
  by blast

text \<open>The claim as stated covers every registered rule. A data-structural rule never reads
  its input and returns partial, also on the empty dict.\<close>

theorem data_structural_rule_partial_on_empty_input:
  "rule_status ''SBS-DATA-001'' [] = Some (Inr ''partial'')"
  by (simp add: rule_status_def RULES_def RULES_table_def rule_data_structural_def mk_finding_def)

lemma RULES_auth_001: "RULES ''SBS-AUTH-001'' = Some rule_auth_001"
  by (simp add: RULES_def RULES_table_def)

theorem rule_not_applicable_without_scope_data_witness:
  "RULES ''SBS-AUTH-001'' = Some rule_auth_001
   \<and> ''SBS-AUTH-001'' \<notin> set DATA_STRUCTURAL
   \<and> no_scope_data ''SBS-AUTH-001'' [(''auth'', JObj [])]
   \<and> (\<exists>f reason. rule_auth_001 [(''auth'', JObj [])] = Inr f \<and> control_id f = JStr ''SBS-AUTH-001''
          \<and> status f = ''not_applicable'' \<and> reason \<noteq> [] \<and> observed_value f = [Lit reason])
   \<and> (\<exists>f reason. rule_auth_001 [] = Inr f \<and> control_id f = JStr ''SBS-AUTH-001''
          \<and> status f = ''not_applicable'' \<and> reason \<noteq> [] \<and> observed_value f = [Lit reason])"
proof -
  have a: "''SBS-AUTH-001'' \<notin> set DATA_STRUCTURAL"
    by (simp add: DATA_STRUCTURAL_def)
  have b: "no_scope_data ''SBS-AUTH-001'' [(''auth'', JObj [])]"
    by (simp add: no_scope_data_def rule_scope_def rule_scope_table_def scope_def)
  from rule_not_applicable_without_scope_data[OF RULES_auth_001 a, of "[(''auth'', JObj [])]"]
    RULES_auth_001 a b
  show ?thesis by blast
qed

section \<open>The rule engine: the single-scope input shape (C10)\<close>

text \<open>
  Claim C10. For every non-empty raw dict that does not hold the requested scope name as a
  key, \<open>_scope\<close> returns the whole dict as the data of that scope. Consequently every
  rule that reads this scope evaluates the dict exactly as if it had been stored under the
  scope name, and whatever finding it returns is not not_applicable.
\<close>

theorem scope_returns_whole_dict:
  assumes "raw \<noteq> []" and "map_of raw s = None"
  shows "scope raw s = JObj raw
         \<and> (\<forall>cid r. rule_scope cid = Some s \<and> RULES cid = Some r \<longrightarrow>
               r raw = r [(s, JObj raw)]
               \<and> (\<forall>f. r raw = Inr f \<longrightarrow> status f \<noteq> ''not_applicable''))"
proof -
  from assms have sc: "scope raw s = JObj raw"
    by (simp add: scope_def)
  have sc': "scope [(s, JObj raw)] s = JObj raw"
    by (simp add: scope_def)
  have "r raw = r [(s, JObj raw)] \<and> (\<forall>f. r raw = Inr f \<longrightarrow> status f \<noteq> ''not_applicable'')"
    if "rule_scope cid = Some s" and "RULES cid = Some r" for cid r
  proof -
    from RULES_registered[OF that(2)] that(1) have sr: "scope_rule cid s r"
      by (simp add: registered_as_def)
    from sr sc sc' have "r raw = r [(s, JObj raw)]"
      unfolding scope_rule_def by metis
    moreover from sr
    have "truthy (scope raw s) \<longrightarrow>
            (\<forall>f. r raw = Inr f \<longrightarrow> status f \<in> {''pass'', ''fail'', ''partial''})"
      unfolding scope_rule_def by blast
    with sc assms(1)
    have "\<forall>f. r raw = Inr f \<longrightarrow> status f \<in> {''pass'', ''fail'', ''partial''}"
      by simp
    then have "\<forall>f. r raw = Inr f \<longrightarrow> status f \<noteq> ''not_applicable''"
      by auto
    ultimately show ?thesis by blast
  qed
  with sc show ?thesis by blast
qed

theorem scope_returns_whole_dict_witness:
  "access_only_raw \<noteq> [] \<and> map_of access_only_raw ''auth'' = None
   \<and> scope access_only_raw ''auth'' = JObj access_only_raw
   \<and> rule_scope ''SBS-AUTH-001'' = Some ''auth''
   \<and> rule_auth_001 access_only_raw = rule_auth_001 [(''auth'', JObj access_only_raw)]
   \<and> rule_status ''SBS-AUTH-001'' access_only_raw = Some (Inr ''fail'')"
proof -
  have a: "access_only_raw \<noteq> []" and b: "map_of access_only_raw ''auth'' = None"
    by (simp_all add: access_only_raw_def)
  have c: "rule_scope ''SBS-AUTH-001'' = Some ''auth''"
    by (simp add: rule_scope_def rule_scope_table_def)
  have d: "rule_status ''SBS-AUTH-001'' access_only_raw = Some (Inr ''fail'')"
    by (simp add: rule_status_def RULES_auth_001 rule_auth_001_def access_only_raw_def
        scope_def records_def dict_get_def mk_finding_def)
  from scope_returns_whole_dict[OF a b] a b c d RULES_auth_001
  show ?thesis by blast
qed

lemma not_collectable_always_na:
  assumes nc: "cid \<in> set NOT_COLLECTABLE" and r: "RULES cid = Some r"
  shows "always_na cid r"
proof -
  from nc not_collectable_lookup have "rule_scope cid = None" "cid \<notin> set DATA_STRUCTURAL"
    by (auto simp: list_all_iff)
  with RULES_registered[OF r] show ?thesis
    by (simp add: registered_as_def)
qed

lemma not_collectable_keys:
  "list_all (\<lambda>cid. cid \<in> set (map fst RULES_table)) NOT_COLLECTABLE"
  by code_simp

lemma not_collectable_has_rule: "cid \<in> set NOT_COLLECTABLE \<Longrightarrow> RULES cid \<noteq> None"
  using not_collectable_keys
  by (auto simp: list_all_iff RULES_def map_of_eq_None_iff)

lemma assess_not_collectable:
  assumes ac: "assess_control raw dry_run org env date_str c = Inr fd"
    and cid: "entry_id c = JStr cid" and nc: "cid \<in> set NOT_COLLECTABLE"
  shows "fd_status fd =
           (if dry_run \<and> cid = ''SBS-CODE-003'' then ''partial''
            else if dry_run \<and> cid = ''SBS-CODE-004'' then ''fail''
            else ''not_applicable'')"
proof -
  from ac obtain d where c: "c = JObj d"
    by (cases c) (auto simp: assess_control_def)
  with cid have cid': "dict_get d ''control_id'' (JStr []) = JStr cid"
    by (simp add: entry_id_def)
  from nc not_collectable_overrides have ov:
    "map_option fst (DRY_RUN_OVERRIDES cid) =
       (if cid = ''SBS-CODE-003'' then Some ''partial''
        else if cid = ''SBS-CODE-004'' then Some ''fail'' else None)"
    by (auto simp: list_all_iff)
  have rg: "rules_get (JStr cid) = Inr (RULES cid)"
    by (simp add: rules_get_def)
  have ovg: "overrides_get (JStr cid) = DRY_RUN_OVERRIDES cid"
    by (simp add: overrides_get_def)
  from ac c cid' rg obtain sev f where
    f: "(case RULES cid of
            None \<Rightarrow> Inr (na (JStr cid) sev ''No assessment rule defined'')
          | Some r \<Rightarrow>
              (if dry_run then
                 (case overrides_get (JStr cid) of
                    Some (st, observed, remed) \<Rightarrow> Inr (mk_finding (JStr cid) st sev observed remed)
                  | None \<Rightarrow> r [])
               else r (case raw of None \<Rightarrow> [] | Some d \<Rightarrow> d))) = Inr f"
    and fd: "fd = to_dict f org env date_str"
    unfolding assess_control_def
    by (auto dest!: bnd_eq_Inr)
  have "status f =
           (if dry_run \<and> cid = ''SBS-CODE-003'' then ''partial''
            else if dry_run \<and> cid = ''SBS-CODE-004'' then ''fail''
            else ''not_applicable'')"
  proof (cases "RULES cid")
    case None
    with not_collectable_has_rule[OF nc] show ?thesis by simp
  next
    case (Some r)
    from not_collectable_always_na[OF nc Some] have na: "always_na cid r" .
    have na_status: "status g = ''not_applicable''" if "r x = Inr g" for x g
    proof -
      from na obtain sev' reason where "r x = Inr (na (JStr cid) sev' reason)"
        unfolding always_na_def by blast
      with that have "g = na (JStr cid) sev' reason" by simp
      then show ?thesis by (simp add: na_def mk_finding_def)
    qed
    show ?thesis
    proof (cases dry_run)
      case False
      with f Some show ?thesis by (auto intro: na_status)
    next
      case True
      show ?thesis
      proof (cases "DRY_RUN_OVERRIDES cid")
        case None
        with ov True f ovg Some show ?thesis by (auto intro: na_status split: if_splits)
      next
        case (Some t)
        obtain st obs rem where t: "t = (st, obs, rem)" by (cases t)
        with Some ov True f ovg \<open>RULES cid = Some r\<close> show ?thesis
          by (auto simp: mk_finding_def split: if_splits)
      qed
    qed
  qed
  with fd show ?thesis by (simp add: to_dict_def)
qed

section \<open>The rule engine: controls that cannot be collected (C5)\<close>

text \<open>
  Claim C5, as amended. For every control registered through \<open>_rule_not_collectable\<close>
  and every input of the assessment, the finding emitted for that control is keyed by the
  control and has status not_applicable, except in dry-run mode for the two controls that
  have a dry-run override: there SBS-CODE-003 is partial and SBS-CODE-004 is fail.
\<close>

theorem not_collectable_findings:
  assumes "run_assessment raw controls dry_run org env date_str = Inr fs"
    and "i < length controls"
    and "entry_id (controls ! i) = JStr cid"
    and "cid \<in> set NOT_COLLECTABLE"
  shows "fd_control_id (fs ! i) = JStr cid
         \<and> fd_status (fs ! i) =
             (if dry_run \<and> cid = ''SBS-CODE-003'' then ''partial''
              else if dry_run \<and> cid = ''SBS-CODE-004'' then ''fail''
              else ''not_applicable'')"
proof -
  from assms(1) have "mapM (assess_control raw dry_run org env date_str) controls = Inr fs"
    by (simp add: run_assessment_def)
  from mapM_Inr_nth[OF this assms(2)]
  have ac: "assess_control raw dry_run org env date_str (controls ! i) = Inr (fs ! i)" .
  from assess_control_sound[OF ac] assms(3) assess_not_collectable[OF ac assms(3) assms(4)]
  show ?thesis by simp
qed

text \<open>The claim as stated includes dry-run mode: there the override table decides before
  the rule is consulted.\<close>

theorem not_collectable_dry_run_override:
  "statuses_of (run_assessment None [JObj [(''control_id'', JStr ''SBS-CODE-004'')]] True
                  ''org'' ''dev'' ''2026-01-01'') = Inr [''fail'']"
  by (simp add: assess_evals string_evals)

lemma code_catalog_run:
  "\<exists>fs. run_assessment (Some example_raw) code_catalog False ''org'' ''dev'' ''2026-01-01'' = Inr fs"
  by (simp add: assess_evals string_evals code_catalog_def rule_not_collectable_def)

theorem not_collectable_findings_witness:
  "\<exists>fs. run_assessment (Some example_raw) code_catalog False ''org'' ''dev'' ''2026-01-01'' = Inr fs
        \<and> 0 < length code_catalog
        \<and> entry_id (code_catalog ! 0) = JStr ''SBS-CODE-001''
        \<and> ''SBS-CODE-001'' \<in> set NOT_COLLECTABLE
        \<and> fd_control_id (fs ! 0) = JStr ''SBS-CODE-001''
        \<and> fd_status (fs ! 0) = ''not_applicable''"
proof -
  from code_catalog_run obtain fs where
    fs: "run_assessment (Some example_raw) code_catalog False ''org'' ''dev'' ''2026-01-01'' = Inr fs"
    by blast
  have a: "0 < length code_catalog" and b: "entry_id (code_catalog ! 0) = JStr ''SBS-CODE-001''"
    by (simp_all add: code_catalog_def entry_id_def dict_get_def)
  have c: "''SBS-CODE-001'' \<in> set NOT_COLLECTABLE"
    by (simp add: NOT_COLLECTABLE_def)
  from not_collectable_findings[OF fs a b c] fs a b c show ?thesis by auto
qed

section \<open>Lemmas: the control mapper\<close>

lemma place_all:
  "foldl (\<lambda>b p. place p b) (m, u, i) ps = (m @ mapped_of ps, u @ unmapped_of ps, i @ invalid_of ps)"
proof (induction ps arbitrary: m u i)
  case Nil
  then show ?case by simp
next
  case (Cons p ps)
  then show ?case by (cases p) simp_all
qed

lemma map_findings_eq:
  "map_findings repr cfg fs b =
     (case mapM (route repr cfg) fs of
        Inl e \<Rightarrow> Inl e
      | Inr ps \<Rightarrow> Inr (foldl (\<lambda>b p. place p b) b ps))"
proof (induction fs arbitrary: b)
  case Nil
  then show ?case by simp
next
  case (Cons f fs)
  show ?case
  proof (cases "route repr cfg f")
    case (Inl e)
    then show ?thesis by simp
  next
    case (Inr p)
    then show ?thesis
      using Cons.IH[of "place p b"] by (cases "mapM (route repr cfg) fs") simp_all
  qed
qed

lemma buckets_length:
  "length (mapped_of ps) + length (unmapped_of ps) + length (invalid_of ps) = length ps"
proof (induction ps)
  case Nil
  then show ?case by simp
next
  case (Cons p ps)
  then show ?case by (cases p) simp_all
qed

lemma table_value:
  assumes "table_ok t"
  shows "\<exists>d. t = JObj d \<and> (\<forall>k. \<not> truthy (dict_get d k JNull) \<or> iterable (dict_get d k JNull))"
proof -
  from assms obtain d where d: "t = JObj d"
    and all: "list_all (\<lambda>kv. \<not> truthy (snd kv) \<or> iterable (snd kv)) d"
    by (cases t) (auto simp: table_ok_def)
  have "\<not> truthy (dict_get d k JNull) \<or> iterable (dict_get d k JNull)" for k
    using dict_get_in[of d k JNull] all by (auto simp: list_all_iff)
  with d show ?thesis by blast
qed

lemma sscf_mappings_for_ok:
  assumes "cfg_ok cfg" and "controls_by_id cfg k = Some sbs"
  shows "\<exists>v. sscf_mappings_for cfg sbs_id sbs = Inr v \<and> iterable v"
proof -
  from assms(1) have t1: "table_ok (sscf_overrides cfg)"
    and t2: "table_ok (sscf_defaults_by_category cfg)"
    by (simp_all add: cfg_ok_def)
  from assms have h: "hashable (dict_get sbs ''category'' (JStr []))"
    by (auto simp: cfg_ok_def)
  from table_value[OF t1] obtain d1 where d1: "sscf_overrides cfg = JObj d1"
    and v1: "\<And>k. \<not> truthy (dict_get d1 k JNull) \<or> iterable (dict_get d1 k JNull)" by blast
  from table_value[OF t2] obtain d2 where d2: "sscf_defaults_by_category cfg = JObj d2"
    and v2: "\<And>k. \<not> truthy (dict_get d2 k JNull) \<or> iterable (dict_get d2 k JNull)" by blast
  have empty: "iterable (JArr [])" by (simp add: iterable_def)
  show ?thesis
  proof (cases "truthy (dict_get d1 sbs_id JNull)")
    case True
    with v1[of sbs_id] d1 show ?thesis by (simp add: sscf_mappings_for_def)
  next
    case False
    show ?thesis
    proof (cases "dict_get sbs ''category'' (JStr [])")
      case (JStr c)
      with False d1 d2 h v2[of c] empty show ?thesis
        by (auto simp: sscf_mappings_for_def py_get_key_def)
    qed (use False d1 d2 h empty in \<open>auto simp: sscf_mappings_for_def py_get_key_def\<close>)
  qed
qed

lemma mapped_item_mappings:
  "dict_get (mapped_item l s sbs f notes conf mappings) ''sscf_mappings'' dflt = mappings"
  by (simp add: mapped_item_def dict_get_def)

lemma mapped_branch:
  assumes "cfg_ok cfg" and "controls_by_id cfg k = Some sbs"
  shows "\<exists>item item'.
           bnd (sscf_mappings_for cfg s sbs)
             (\<lambda>mappings. Inr (Mapped (mapped_item l s sbs f n c mappings))) = Inr (Mapped item)
           \<and> add_sscf_control_ids item = Inr item'"
proof -
  from sscf_mappings_for_ok[OF assms, of s] obtain v where
    v: "sscf_mappings_for cfg s sbs = Inr v" and it: "iterable v" by blast
  from it have "\<exists>item'. add_sscf_control_ids (mapped_item l s sbs f n c v) = Inr item'"
    by (auto simp: add_sscf_control_ids_def sscf_ids_def mapped_item_mappings iterable_def
        split: sum.splits)
  with v show ?thesis by simp
qed

lemma route_ok:
  assumes ok: "cfg_ok cfg"
  shows "\<exists>p. route repr cfg f = Inr p \<and> placed_ok p"
proof -
  define l where "l = strip (py_str repr (dict_get f ''control_id'' (JStr [])))"
  show ?thesis
  proof (cases "startswith l ''SBS-''")
    case True
    show ?thesis
    proof (cases "controls_by_id cfg l")
      case None
      with True show ?thesis
        by (simp add: route_def Let_def l_def[symmetric] placed_ok_def)
    next
      case (Some sbs)
      show ?thesis
      proof (cases "sbs = []")
        case True
        with Some \<open>startswith l ''SBS-''\<close> show ?thesis
          by (simp add: route_def Let_def l_def[symmetric] placed_ok_def)
      next
        case False
        from mapped_branch[OF ok Some] False Some True show ?thesis
          by (fastforce simp: route_def Let_def l_def[symmetric] placed_ok_def)
      qed
    qed
  next
    case nosbs: False
    show ?thesis
    proof (cases "map_by_legacy cfg l")
      case None
      with nosbs show ?thesis
        by (simp add: route_def Let_def l_def[symmetric] placed_ok_def)
    next
      case (Some map_row)
      show ?thesis
      proof (cases "map_row = []")
        case True
        with Some nosbs show ?thesis
          by (simp add: route_def Let_def l_def[symmetric] placed_ok_def)
      next
        case rowne: False
        define sid where "sid = strip (py_str repr (dict_get map_row ''sbs_control_id'' (JStr [])))"
        show ?thesis
        proof (cases "controls_by_id cfg sid")
          case None
          with Some nosbs rowne show ?thesis
            by (simp add: route_def Let_def l_def[symmetric] sid_def[symmetric] placed_ok_def)
        next
          case sbs: (Some sbs)
          show ?thesis
          proof (cases "sbs = []")
            case True
            with Some nosbs rowne sbs show ?thesis
              by (simp add: route_def Let_def l_def[symmetric] sid_def[symmetric] placed_ok_def)
          next
            case False
            from mapped_branch[OF ok sbs] False Some nosbs rowne sbs show ?thesis
              by (fastforce simp: route_def Let_def l_def[symmetric] sid_def[symmetric]
                  placed_ok_def)
          qed
        qed
      qed
    qed
  qed
qed

lemma mapM_Inr_set:
  assumes "mapM f xs = Inr ys" and "y \<in> set ys"
  shows "\<exists>x \<in> set xs. f x = Inr y"
proof -
  from assms(2) obtain i where i: "i < length ys" and y: "ys ! i = y"
    by (auto simp: in_set_conv_nth)
  from mapM_Inr_length[OF assms(1)] i have i': "i < length xs" by simp
  from mapM_Inr_nth[OF assms(1) i'] y i' show ?thesis by auto
qed

lemma mapped_of_set: "item \<in> set (mapped_of ps) \<Longrightarrow> Mapped item \<in> set ps"
proof (induction ps)
  case Nil
  then show ?case by simp
next
  case (Cons p ps)
  then show ?case by (cases p) auto
qed

section \<open>The control mapper: three disjoint buckets (C6)\<close>

text \<open>
  Claim C6. For every findings list routed through the mapper (the object entries of the
  gap analysis, under a well-typed configuration), the loop decides exactly one placement
  for every finding, in order, and the three output lists of the backlog are exactly the
  mapped, the unmapped and the invalid placements: their lengths add up to the number of
  findings, so no finding is dropped and none appears in two buckets.
\<close>

theorem mapper_buckets_partition:
  assumes ok: "cfg_ok cfg" and fs: "findings_of gap = Inr findings"
  shows "\<exists>ps m. mapM (route repr cfg) findings = Inr ps
           \<and> map_findings repr cfg findings ([], [], [])
               = Inr (mapped_of ps, unmapped_of ps, invalid_of ps)
           \<and> mapM add_sscf_control_ids (mapped_of ps) = Inr m
           \<and> gap_map repr cfg gap = Inr (m, unmapped_of ps, invalid_of ps)
           \<and> length m + length (unmapped_of ps) + length (invalid_of ps) = length findings"
proof -
  from route_ok[OF ok] obtain ps where ps: "mapM (route repr cfg) findings = Inr ps"
    using mapM_total[of findings "route repr cfg"] by blast
  have loop: "map_findings repr cfg findings ([], [], [])
                = Inr (mapped_of ps, unmapped_of ps, invalid_of ps)"
    by (simp add: map_findings_eq ps place_all)
  have "\<exists>item'. add_sscf_control_ids item = Inr item'" if "item \<in> set (mapped_of ps)" for item
  proof -
    from mapped_of_set[OF that] mapM_Inr_set[OF ps] obtain f where
      f: "route repr cfg f = Inr (Mapped item)" by blast
    from route_ok[OF ok, of repr f] f show ?thesis by (auto simp: placed_ok_def)
  qed
  then obtain m where m: "mapM add_sscf_control_ids (mapped_of ps) = Inr m"
    using mapM_total[of "mapped_of ps" add_sscf_control_ids] by blast
  have len: "length m + length (unmapped_of ps) + length (invalid_of ps) = length findings"
    using mapM_Inr_length[OF m] mapM_Inr_length[OF ps] buckets_length[of ps] by simp
  have "gap_map repr cfg gap = Inr (m, unmapped_of ps, invalid_of ps)"
    by (simp add: gap_map_def fs loop m)
  with ps loop m len show ?thesis by blast
qed

lemma example_cfg_ok: "cfg_ok example_cfg"
  by (auto simp: cfg_ok_def example_cfg_def table_ok_def iterable_def dict_get_def
      split: if_splits)

lemma example_findings:
  "findings_of example_gap =
     Inr [[(''control_id'', JStr ''SBS-AUTH-001''), (''status'', JStr ''fail'')],
          [(''control_id'', JStr ''LEG-1''), (''status'', JStr ''pass'')],
          [(''control_id'', JStr ''LEG-2''), (''status'', JStr ''partial'')],
          [(''control_id'', JStr ''LEG-9''), (''status'', JStr ''fail'')]]"
  by (simp add: findings_of_def example_gap_def dict_get_def)

theorem mapper_buckets_partition_witness:
  "cfg_ok example_cfg
   \<and> findings_of example_gap =
       Inr [[(''control_id'', JStr ''SBS-AUTH-001''), (''status'', JStr ''fail'')],
            [(''control_id'', JStr ''LEG-1''), (''status'', JStr ''pass'')],
            [(''control_id'', JStr ''LEG-2''), (''status'', JStr ''partial'')],
            [(''control_id'', JStr ''LEG-9''), (''status'', JStr ''fail'')]]
   \<and> (\<exists>ps m. gap_map (\<lambda>v. []) example_cfg example_gap = Inr (m, unmapped_of ps, invalid_of ps)
          \<and> mapM add_sscf_control_ids (mapped_of ps) = Inr m
          \<and> length m + length (unmapped_of ps) + length (invalid_of ps) = 4)"
proof -
  from mapper_buckets_partition[OF example_cfg_ok example_findings, of "\<lambda>v. []"]
  obtain ps m where
    a: "gap_map (\<lambda>v. []) example_cfg example_gap = Inr (m, unmapped_of ps, invalid_of ps)"
    and b: "mapM add_sscf_control_ids (mapped_of ps) = Inr m"
    and c: "length m + length (unmapped_of ps) + length (invalid_of ps) = 4"
    by auto
  with example_cfg_ok example_findings show ?thesis by blast
qed

section \<open>The score of an aggregation unit\<close>

lemma count_status_Cons:
  "count_status s (item # items) =
     (if dict_get item ''status'' (JStr []) = JStr s then 1 else 0) + count_status s items"
  by (simp add: count_status_def)

lemma count_status_Nil: "count_status s [] = 0"
  by (simp add: count_status_def)

lemma count_items_counts:
  "list_all status_ok items \<Longrightarrow>
   count_items items (p, r, f, n) =
     Inr (p + count_status ''pass'' items, r + count_status ''partial'' items,
          f + count_status ''fail'' items, n + count_status ''not_applicable'' items)"
proof (induction items arbitrary: p r f n)
  case Nil
  show ?case by (simp add: count_status_Nil)
next
  case (Cons item items)
  from Cons.prems have h: "hashable (dict_get item ''status'' (JStr []))"
    by (simp add: status_ok_def)
  from Cons.prems have rest: "list_all status_ok items" by simp
  show ?case
    using h by (simp add: count_item_def Let_def count_status_Cons Cons.IH[OF rest])
qed

lemma round_half_even_int: "round_half_even (of_int k) = k"
  by (simp add: round_half_even_def Let_def)

lemma round4_one: "round4 1 = 1"
proof -
  have "round_half_even (1 * 10000) = 10000"
    using round_half_even_int[of 10000] by simp
  then show ?thesis by (simp add: round4_def)
qed

lemma round4_idem: "round4 (round4 x) = round4 x"
proof -
  have "round4 x * 10000 = of_int (round_half_even (x * 10000))"
    by (simp add: round4_def)
  then show ?thesis
    by (simp add: round4_def[of "round4 x"] round_half_even_int)
qed

lemma round_half_even_near:
  "\<bar>of_int (round_half_even r) - r\<bar> \<le> 1 / 2"
proof -
  have a: "of_int \<lfloor>r\<rfloor> \<le> r" and b: "r < of_int \<lfloor>r\<rfloor> + 1" by linarith+
  show ?thesis
    unfolding round_half_even_def Let_def using a b by (auto simp: abs_le_iff)
qed

lemma round4_near: "\<bar>round4 x - x\<bar> \<le> 1 / 20000"
proof -
  have "\<bar>of_int (round_half_even (x * 10000)) - x * 10000\<bar> \<le> 1 / 2"
    by (rule round_half_even_near)
  then show ?thesis by (simp add: round4_def abs_le_iff field_simps)
qed

lemma score_findings_counts:
  assumes "list_all status_ok items"
  shows "score_findings fdiv items =
           Inr (count_status ''pass'' items, count_status ''partial'' items,
                count_status ''fail'' items, count_status ''not_applicable'' items,
                round4 (if scoreable items = 0 then 1
                        else fdiv (of_nat (count_status ''pass'' items)
                                   + of_nat (count_status ''partial'' items) * (1 / 2))
                                  (of_nat (scoreable items))))"
  using count_items_counts[OF assms, of 0 0 0 0]
  by (simp add: score_findings_def Let_def scoreable_def)
text \<open>
  Claim C7. For every list of items whose statuses can be hashed (strings, numbers, booleans
  or null; a list or an object as status makes \<open>status in counts\<close> raise),
  \<open>_score_findings\<close> returns the numbers P, R, F, N of items with status pass, partial,
  fail and not_applicable, and the score: 1 when P + R + F = 0, and otherwise
  (P * 1.0 + R * 0.5 + F * 0.0) / (P + R + F) rounded to four decimals. Items that are not
  applicable, and items with any other status, do not enter the quotient. The division is
  the float division of the platform, whatever it is.
\<close>

theorem score_findings_formula:
  assumes "list_all status_ok items"
  shows "score_findings fdiv items =
           Inr (count_status ''pass'' items, count_status ''partial'' items,
                count_status ''fail'' items, count_status ''not_applicable'' items,
                if count_status ''pass'' items + count_status ''partial'' items
                     + count_status ''fail'' items = 0
                then 1
                else round4 (fdiv (of_nat (count_status ''pass'' items) * 1
                                   + of_nat (count_status ''partial'' items) * (1 / 2)
                                   + of_nat (count_status ''fail'' items) * 0)
                                  (of_nat (count_status ''pass'' items
                                           + count_status ''partial'' items
                                           + count_status ''fail'' items))))"
  using score_findings_counts[OF assms, of fdiv]
  by (simp add: scoreable_def round4_one)

lemma example_items_ok: "list_all status_ok example_items"
  by (simp add: example_items_def status_ok_def dict_get_def)

lemma example_counts:
  "count_status ''pass'' example_items = 2"
  "count_status ''partial'' example_items = 1"
  "count_status ''fail'' example_items = 1"
  "count_status ''not_applicable'' example_items = 0"
  by (simp_all add: example_items_def count_status_def dict_get_def)

lemma round4_example: "round4 (5 / 8) = 5 / 8"
  by (simp add: round4_def round_half_even_def Let_def)

theorem score_findings_formula_witness:
  "list_all status_ok example_items
   \<and> score_findings (\<lambda>a b. a / b) example_items = Inr (2, 1, 1, 0, 5 / 8)"
  using score_findings_formula[OF example_items_ok, of "\<lambda>a b. a / b"] example_items_ok
  by (simp add: example_counts round4_example)

section \<open>Zero scoreable findings and banding\<close>

lemma upd_pres:
  assumes "list_all (\<lambda>e. P (snd e)) kvs" and "P (f dflt)" and "\<And>v. P v \<Longrightarrow> P (f v)"
  shows "list_all (\<lambda>e. P (snd e)) (upd k f dflt kvs)"
  using assms by (induction kvs) auto

lemma upd_upd_ok:
  assumes dc: "dc_ok dc" and g0: "list_all status_ok (g [])"
    and g: "\<And>items. list_all status_ok items \<Longrightarrow> list_all status_ok (g items)"
  shows "dc_ok (upd dname (upd cid g []) [] dc)"
  unfolding dc_ok_def
proof (rule upd_pres)
  show "list_all (\<lambda>e. list_all (\<lambda>c. list_all status_ok (snd c)) (snd e)) dc"
    using dc by (simp add: dc_ok_def)
  show "list_all (\<lambda>c. list_all status_ok (snd c)) (upd cid g [] [])"
    using g0 by simp
  show "list_all (\<lambda>c. list_all status_ok (snd c)) (upd cid g [] v)"
    if "list_all (\<lambda>c. list_all status_ok (snd c)) v" for v
    using that g0 g by (rule upd_pres)
qed

lemma init_domains_ok: "dc_ok dc \<Longrightarrow> dc_ok (init_domains cs dc)"
proof (induction cs arbitrary: dc)
  case Nil
  then show ?case by simp
next
  case (Cons c cs)
  have "dc_ok (upd (domain c) (upd (sscf_control_id c) (\<lambda>items. []) []) [] dc)"
    using Cons.prems by (rule upd_upd_ok) simp_all
  then show ?case by (simp add: Cons.IH)
qed

lemma dc_ok_Nil: "dc_ok []"
  by (simp add: dc_ok_def)

lemma place_item_ok:
  assumes "list_all hashable ids" and "status_ok item" and "dc_ok dc"
  shows "\<exists>dc' placed'. place_item idx item ids (dc, placed) = Inr (dc', placed') \<and> dc_ok dc'"
  using assms
proof (induction ids arbitrary: dc placed)
  case Nil
  then show ?case by simp
next
  case (Cons sscf_cid ids)
  from Cons.prems have h: "hashable sscf_cid" and rest: "list_all hashable ids" by simp_all
  show ?case
  proof (cases "case sscf_cid of JStr s \<Rightarrow> index_get idx s | _ \<Rightarrow> None")
    case None
    with h Cons.IH[OF rest Cons.prems(2) Cons.prems(3), of placed] show ?thesis by simp
  next
    case (Some ctrl_meta)
    have "dc_ok (upd (domain ctrl_meta)
                   (upd (sscf_control_id ctrl_meta) (\<lambda>items. items @ [item]) []) [] dc)"
      using Cons.prems(3) by (rule upd_upd_ok) (simp_all add: Cons.prems(2))
    from Cons.IH[OF rest Cons.prems(2) this, of True] Some h show ?thesis by simp
  qed
qed

lemma distribute_ok:
  assumes "list_all item_ok items" and "dc_ok dc"
  shows "\<exists>dc' um. distribute idx items (dc, unmatched) = Inr (dc', um) \<and> dc_ok dc'"
  using assms
proof (induction items arbitrary: dc unmatched)
  case Nil
  then show ?case by simp
next
  case (Cons item items)
  from Cons.prems(1) have io: "item_ok item" and rest: "list_all item_ok items" by simp_all
  from io obtain d where d: "item = JObj d" by (cases item) (simp_all add: item_ok_def)
  from io d have so: "status_ok d" by (simp add: item_ok_def)
  from io d obtain ids where ids: "py_iter (dict_get d ''sscf_control_ids'' (JArr [])) = Inr ids"
    and hs: "list_all hashable ids"
    by (auto simp: item_ok_def split: sum.splits)
  from place_item_ok[OF hs so Cons.prems(2), of idx False] obtain dc' placed' where
    p: "place_item idx d ids (dc, False) = Inr (dc', placed')" and ok': "dc_ok dc'" by blast
  from Cons.IH[OF rest ok', of "if placed' then unmatched else unmatched @ [d]"]
  show ?case by (simp add: d ids p)
qed

lemma score_domain_ok:
  assumes "list_all (\<lambda>c. list_all status_ok (snd c)) (snd entry)"
  shows "\<exists>d. score_domain fdiv idx threshold entry = Inr d
             \<and> dr_domain d = fst entry
             \<and> dr_pass d = count_status ''pass'' (domain_items entry)
             \<and> dr_partial d = count_status ''partial'' (domain_items entry)
             \<and> dr_fail d = count_status ''fail'' (domain_items entry)
             \<and> dr_not_applicable d = count_status ''not_applicable'' (domain_items entry)
             \<and> dr_score d =
                   round4 (if scoreable (domain_items entry) = 0 then 1
                           else fdiv (of_nat (count_status ''pass'' (domain_items entry))
                                      + of_nat (count_status ''partial'' (domain_items entry)) * (1 / 2))
                                     (of_nat (scoreable (domain_items entry))))
             \<and> dr_status d = domain_status (dr_score d) threshold"
proof -
  obtain dname controls where e: "entry = (dname, controls)" by (cases entry)
  from assms e have "list_all status_ok (concat (map snd controls))"
    by (auto simp: list_all_iff)
  from score_findings_counts[OF this, of fdiv] show ?thesis
    by (simp add: score_domain_def e Let_def domain_items_def)
qed

lemma mapM_list_all2:
  assumes "mapM f xs = Inr ys"
  shows "list_all2 (\<lambda>x y. f x = Inr y) xs ys"
  using mapM_Inr_length[OF assms] mapM_Inr_nth[OF assms]
  by (simp add: list_all2_conv_all_nth)

lemma dc_ok_items: "dc_ok dc \<Longrightarrow> list_all status_ok (dc_items dc)"
  by (auto simp: dc_ok_def dc_items_def list_all_iff)
text \<open>
  Claim C8. A benchmark run on a well-typed backlog returns a report with one result per
  domain of the grouping, in the order of the domain names. A domain with zero scoreable
  findings (only not_applicable findings, findings of unknown status, or no findings) has
  score exactly 1, and status green whenever the green threshold is at most 1. The status
  of every domain is the band of its score: green when the score reaches the threshold,
  otherwise amber when it reaches 0.50, otherwise red; and the overall status is the band of
  the overall score by the same rule.
\<close>

theorem zero_scoreable_domain_is_green:
  assumes "backlog_ok bl"
  shows "\<exists>items dc unmatched rep.
           py_iter (dict_get bl ''mapped_items'' (JArr [])) = Inr items
         \<and> distribute idx items (init_domains idx [], []) = Inr (dc, unmatched)
         \<and> run_benchmark fdiv now bl idx threshold = Inr rep
         \<and> list_all2
               (\<lambda>entry d.
                  dr_domain d = fst entry
                  \<and> dr_pass d = count_status ''pass'' (domain_items entry)
                  \<and> dr_partial d = count_status ''partial'' (domain_items entry)
                  \<and> dr_fail d = count_status ''fail'' (domain_items entry)
                  \<and> (scoreable (domain_items entry) = 0 \<longrightarrow>
                        dr_score d = 1 \<and> (threshold \<le> 1 \<longrightarrow> dr_status d = ''green''))
                  \<and> dr_status d =
                        (if dr_score d \<ge> threshold then ''green''
                         else if dr_score d \<ge> 1 / 2 then ''amber'' else ''red''))
               (sort_key fst dc) (domains rep)
         \<and> (scoreable (dc_items dc) = 0 \<longrightarrow> overall_score rep = 1)
         \<and> overall_status rep =
               (if overall_score rep \<ge> threshold then ''green''
                else if overall_score rep \<ge> 1 / 2 then ''amber'' else ''red'')"
proof -
  from assms obtain items where items: "py_iter (dict_get bl ''mapped_items'' (JArr [])) = Inr items"
    and io: "list_all item_ok items"
    by (auto simp: backlog_ok_def split: sum.splits)
  from distribute_ok[OF io init_domains_ok[OF dc_ok_Nil], of idx idx "[]"]
  obtain dc um where dist: "distribute idx items (init_domains idx [], []) = Inr (dc, um)"
    and ok: "dc_ok dc" by blast
  have each: "\<exists>d. score_domain fdiv idx threshold entry = Inr d" if "entry \<in> set (sort_key fst dc)" for entry
  proof -
    from that ok have "list_all (\<lambda>c. list_all status_ok (snd c)) (snd entry)"
      by (simp add: dc_ok_def list_all_iff)
    from score_domain_ok[OF this] show ?thesis by blast
  qed
  from mapM_total[of "sort_key fst dc" "score_domain fdiv idx threshold"] each
  obtain drs where drs: "mapM (score_domain fdiv idx threshold) (sort_key fst dc) = Inr drs"
    by blast
  let ?all = "dc_items dc"
  let ?overall = "round4 (if scoreable ?all = 0 then 1
                          else fdiv (of_nat (count_status ''pass'' ?all)
                                     + of_nat (count_status ''partial'' ?all) * (1 / 2))
                                    (of_nat (scoreable ?all)))"
  have sf: "score_findings fdiv (concat (map (\<lambda>e. concat (map snd (snd e))) dc)) =
              Inr (count_status ''pass'' ?all, count_status ''partial'' ?all,
                   count_status ''fail'' ?all, count_status ''not_applicable'' ?all, ?overall)"
    using score_findings_counts[OF dc_ok_items[OF ok], of fdiv] by (simp add: dc_items_def)
  define rep where "rep =
     \<lparr>benchmark_id = [Lit ''sscf-benchmark-'',
                           Val (dict_get bl ''assessment_id'' (JStr ''unknown''))],
          generated_at_utc = now,
          source_assessment_id = dict_get bl ''assessment_id'' (JStr []),
          framework = ''CSA_SSCF'',
          rp_threshold = threshold,
          overall_score = round4 ?overall,
          overall_status = domain_status ?overall threshold,
          domains = drs,
          total_domains = length drs,
          domains_green = length (filter (\<lambda>d. dr_status d = ''green'') drs),
          domains_amber = length (filter (\<lambda>d. dr_status d = ''amber'') drs),
          domains_red = length (filter (\<lambda>d. dr_status d = ''red'') drs),
          unmatched_findings = length um\<rparr>"
  have run: "run_benchmark fdiv now bl idx threshold = Inr rep"
    by (simp add: run_benchmark_def items dist drs sf rep_def)
  have doms: "domains rep = drs" by (simp add: rep_def)
  have os: "overall_score rep = ?overall" by (simp add: rep_def round4_idem)
  have ost: "overall_status rep = domain_status (overall_score rep) threshold"
    by (simp add: rep_def round4_idem)
  have per: "list_all2
               (\<lambda>entry d.
                  dr_domain d = fst entry
                  \<and> dr_pass d = count_status ''pass'' (domain_items entry)
                  \<and> dr_partial d = count_status ''partial'' (domain_items entry)
                  \<and> dr_fail d = count_status ''fail'' (domain_items entry)
                  \<and> (scoreable (domain_items entry) = 0 \<longrightarrow>
                        dr_score d = 1 \<and> (threshold \<le> 1 \<longrightarrow> dr_status d = ''green''))
                  \<and> dr_status d =
                        (if dr_score d \<ge> threshold then ''green''
                         else if dr_score d \<ge> 1 / 2 then ''amber'' else ''red''))
               (sort_key fst dc) drs"
  proof (rule list.rel_mono_strong[OF mapM_list_all2[OF drs]])
    fix entry d
    assume mem: "entry \<in> set (sort_key fst dc)" and "d \<in> set drs" and sd: "score_domain fdiv idx threshold entry = Inr d"
    from mem ok have "list_all (\<lambda>c. list_all status_ok (snd c)) (snd entry)"
      by (simp add: dc_ok_def list_all_iff)
    from score_domain_ok[OF this, of fdiv idx threshold] sd
    show "dr_domain d = fst entry
                  \<and> dr_pass d = count_status ''pass'' (domain_items entry)
                  \<and> dr_partial d = count_status ''partial'' (domain_items entry)
                  \<and> dr_fail d = count_status ''fail'' (domain_items entry)
                  \<and> (scoreable (domain_items entry) = 0 \<longrightarrow>
                        dr_score d = 1 \<and> (threshold \<le> 1 \<longrightarrow> dr_status d = ''green''))
                  \<and> dr_status d =
                        (if dr_score d \<ge> threshold then ''green''
                         else if dr_score d \<ge> 1 / 2 then ''amber'' else ''red'')"
      by (auto simp: round4_one domain_status_def)
  qed
  have ov1: "scoreable (dc_items dc) = 0 \<longrightarrow> overall_score rep = 1"
    by (simp add: os round4_one)
  from ost have ost': "overall_status rep =
               (if overall_score rep \<ge> threshold then ''green''
                else if overall_score rep \<ge> 1 / 2 then ''amber'' else ''red'')"
    by (simp add: domain_status_def)
  from per doms have per': "list_all2
               (\<lambda>entry d.
                  dr_domain d = fst entry
                  \<and> dr_pass d = count_status ''pass'' (domain_items entry)
                  \<and> dr_partial d = count_status ''partial'' (domain_items entry)
                  \<and> dr_fail d = count_status ''fail'' (domain_items entry)
                  \<and> (scoreable (domain_items entry) = 0 \<longrightarrow>
                        dr_score d = 1 \<and> (threshold \<le> 1 \<longrightarrow> dr_status d = ''green''))
                  \<and> dr_status d =
                        (if dr_score d \<ge> threshold then ''green''
                         else if dr_score d \<ge> 1 / 2 then ''amber'' else ''red''))
               (sort_key fst dc) (domains rep)" by simp
  show ?thesis
    apply (rule exI[of _ items], rule exI[of _ dc], rule exI[of _ um], rule exI[of _ rep])
    using items dist run per' ov1 ost' by blast
qed

lemma example_backlog_ok: "backlog_ok example_backlog"
  by code_simp

lemma example_report:
  "(case run_benchmark (\<lambda>a b. a / b) ''now'' example_backlog example_index (4 / 5) of
      Inl e \<Rightarrow> None
    | Inr rep \<Rightarrow> Some (map (\<lambda>d. (dr_domain d, dr_score d, dr_status d)) (domains rep),
                         overall_score rep, overall_status rep))
   = Some ([(''IAM'', 5 / 8, ''amber''), (''LOG'', 1, ''green'')], 5 / 8, ''amber'')"
  by code_simp

lemma na_backlog_ok: "backlog_ok na_backlog"
  by code_simp

lemma na_backlog_items: "py_iter (dict_get na_backlog ''mapped_items'' (JArr [])) = Inr [JObj na_item]"
  by code_simp

lemma na_backlog_grouping:
  "distribute example_index [JObj na_item] (init_domains example_index [], [])
     = Inr ([(''IAM'', [(''SSCF-IAM-001'', [na_item])]), (''LOG'', [(''SSCF-LOG-001'', [])])], [])"
  by code_simp

lemma na_backlog_sorted:
  "sort_key fst [(''IAM'', [(''SSCF-IAM-001'', [na_item])]), (''LOG'', [(''SSCF-LOG-001'', [])])]
     = [(''IAM'', [(''SSCF-IAM-001'', [na_item])]), (''LOG'', [(''SSCF-LOG-001'', [])])]"
  by code_simp

lemma na_backlog_scoreable:
  "scoreable (domain_items (''IAM'', [(''SSCF-IAM-001'', [na_item])])) = 0"
  "scoreable (domain_items (''LOG'', [(''SSCF-LOG-001'', [])])) = 0"
  "scoreable (dc_items [(''IAM'', [(''SSCF-IAM-001'', [na_item])]), (''LOG'', [(''SSCF-LOG-001'', [])])]) = 0"
  by code_simp+

theorem zero_scoreable_domain_is_green_witness:
  "backlog_ok na_backlog
   \<and> (\<exists>rep. run_benchmark (\<lambda>a b. a / b) ''now'' na_backlog example_index 1 = Inr rep
          \<and> map dr_domain (domains rep) = [''IAM'', ''LOG'']
          \<and> map dr_score (domains rep) = [1, 1]
          \<and> map dr_status (domains rep) = [''green'', ''green'']
          \<and> overall_score rep = 1
          \<and> overall_status rep = ''green'')"
proof -
  from zero_scoreable_domain_is_green[OF na_backlog_ok, of example_index "\<lambda>a b. a / b" "''now''" 1]
  obtain items dc unmatched rep where
    items: "py_iter (dict_get na_backlog ''mapped_items'' (JArr [])) = Inr items"
    and dc: "distribute example_index items (init_domains example_index [], []) = Inr (dc, unmatched)"
    and run: "run_benchmark (\<lambda>a b. a / b) ''now'' na_backlog example_index 1 = Inr rep"
    and per: "list_all2
               (\<lambda>entry d.
                  dr_domain d = fst entry
                  \<and> dr_pass d = count_status ''pass'' (domain_items entry)
                  \<and> dr_partial d = count_status ''partial'' (domain_items entry)
                  \<and> dr_fail d = count_status ''fail'' (domain_items entry)
                  \<and> (scoreable (domain_items entry) = 0 \<longrightarrow>
                        dr_score d = 1 \<and> ((1::rat) \<le> 1 \<longrightarrow> dr_status d = ''green''))
                  \<and> dr_status d =
                        (if dr_score d \<ge> 1 then ''green''
                         else if dr_score d \<ge> 1 / 2 then ''amber'' else ''red''))
               (sort_key fst dc) (domains rep)"
    and ov: "scoreable (dc_items dc) = 0 \<longrightarrow> overall_score rep = 1"
    and ost: "overall_status rep =
               (if overall_score rep \<ge> 1 then ''green''
                else if overall_score rep \<ge> 1 / 2 then ''amber'' else ''red'')"
    apply -
    apply (elim exE conjE)
    apply (rule that)
    apply assumption+
    done
  from items have i: "items = [JObj na_item]" by (simp add: na_backlog_items)
  from dc have d: "dc = [(''IAM'', [(''SSCF-IAM-001'', [na_item])]), (''LOG'', [(''SSCF-LOG-001'', [])])]"
    unfolding i na_backlog_grouping by simp
  from per obtain d1 d2 where ds: "domains rep = [d1, d2]"
    and d1: "dr_domain d1 = ''IAM''" "dr_score d1 = 1" "dr_status d1 = ''green''"
    and d2: "dr_domain d2 = ''LOG''" "dr_score d2 = 1" "dr_status d2 = ''green''"
    unfolding d na_backlog_sorted
    by (auto simp: list_all2_Cons1 na_backlog_scoreable)
  from ov have o1: "overall_score rep = 1" by (simp add: d na_backlog_scoreable)
  with ost have o2: "overall_status rep = ''green''" by simp
  from run ds d1 d2 o1 o2 na_backlog_ok show ?thesis by simp
qed

end
